theory Spec2Isabelle
  imports Main "HOL-Library.Word" "HOL-Library.AList"
begin

section \<open>Errors\<close>

text \<open>
  Go errors are values. The sentinel errors of the agent and of the option builders get
  a constructor each; \<open>ErrNoMaster\<close> is the anonymous
  \<^verbatim>\<open>errors.New("unable to find master in cluster")\<close> of \<^verbatim>\<open>New\<close>;
  \<open>AddrError why addr\<close> is \<^verbatim>\<open>net.AddrError\<close>; \<open>ErrNil\<close> is
  \<^verbatim>\<open>redis.ErrNil\<close>; \<open>ErrNotFound\<close> is an error for which
  \<^verbatim>\<open>errdefs.IsNotFound\<close> holds; \<open>Wrap msg e\<close> is \<^verbatim>\<open>errors.Wrap(e, msg)\<close>;
  \<open>Failure msg\<close> is any other error a collaborator (runtime, store, file system,
  unit manager) returns. \<open>Panic msg\<close> is not an error value: it marks the run-time
  panic of a write to a nil map inside a container option. Between such an option and its
  handler every caller hands on what it gets and only deferred calls run, so that the
  panic travels up as a returned error does.
\<close>

datatype error =
    ErrNoID
  | ErrNoRef
  | ErrNoMaster
  | errServiceExistsOnTarget
  | errMediaTypeNotFound
  | ErrOldConfigFormat
  | ErrNil
  | ErrNotFound
  | ErrAlreadyExists string
  | AddrError string string
  | UnexpectedType string
  | Panic string
  | Wrap string error
  | Failure string

text \<open>
  A function of the agent returns, or it panics: a run-time panic unwinds through the
  callers, whatever they do with the errors that are returned to them. \<open>Returns v\<close> is
  a call that returned \<open>v\<close>, \<open>Panics msg\<close> one that panicked. The type is used where a
  caller handles an error instead of returning it.
\<close>

datatype 'a run = Returns 'a | Panics string

section \<open>The Go library functions the agent calls on addresses\<close>

text \<open>
  \<^verbatim>\<open>net.SplitHostPort\<close> and \<^verbatim>\<open>net.JoinHostPort\<close> of the Go standard library,
  transcribed branch by branch. Strings are byte lists. \<open>IndexByteString s c\<close> is the
  index of the first \<open>c\<close> in \<open>s\<close>, \<open>last_byte s c\<close> of the last one; \<open>None\<close> stands
  for Go's \<open>-1\<close>.
\<close>

fun IndexByteString :: "string \<Rightarrow> char \<Rightarrow> nat option" where
  "IndexByteString [] c = None"
| "IndexByteString (x # xs) c =
     (if x = c then Some 0 else map_option Suc (IndexByteString xs c))"

definition last_byte :: "string \<Rightarrow> char \<Rightarrow> nat option" where
  "last_byte s c =
     (case IndexByteString (rev s) c of
        None \<Rightarrow> None
      | Some k \<Rightarrow> Some (length s - 1 - k))"

definition missingPort :: string where
  "missingPort = ''missing port in address''"

definition tooManyColons :: string where
  "tooManyColons = ''too many colons in address''"

text \<open>
  The tail of \<^verbatim>\<open>SplitHostPort\<close>, shared by the bracketed and the plain case: \<open>j\<close> and
  \<open>k\<close> are the positions from which no \<open>[\<close> and no \<open>]\<close> may follow, \<open>i\<close> is the index
  of the last colon.
\<close>

definition SplitHostPort_rest ::
  "string \<Rightarrow> string \<Rightarrow> nat \<Rightarrow> nat \<Rightarrow> nat \<Rightarrow> error + (string \<times> string)" where
  "SplitHostPort_rest hostport host i j k =
     (if IndexByteString (drop j hostport) (CHR ''['') \<noteq> None
        then Inl (AddrError ''unexpected '[' in address'' hostport)
      else if IndexByteString (drop k hostport) (CHR '']'') \<noteq> None
        then Inl (AddrError ''unexpected ']' in address'' hostport)
      else Inr (host, drop (i + 1) hostport))"

definition SplitHostPort :: "string \<Rightarrow> error + (string \<times> string)" where
  "SplitHostPort hostport =
     (case last_byte hostport (CHR '':'') of
        None \<Rightarrow> Inl (AddrError missingPort hostport)
      | Some i \<Rightarrow>
          if take 1 hostport = ''[''
          then (case IndexByteString hostport (CHR '']'') of
                  None \<Rightarrow> Inl (AddrError ''missing ']' in address'' hostport)
                | Some e \<Rightarrow>
                    if e + 1 = length hostport then Inl (AddrError missingPort hostport)
                    else if e + 1 = i
                      then SplitHostPort_rest hostport (take (e - 1) (drop 1 hostport)) i 1 (e + 1)
                    else if take 1 (drop (e + 1) hostport) = '':''
                      then Inl (AddrError tooManyColons hostport)
                    else Inl (AddrError missingPort hostport))
          else (let host = take i hostport in
                if IndexByteString host (CHR '':'') \<noteq> None
                  then Inl (AddrError tooManyColons hostport)
                else SplitHostPort_rest hostport host i 0 0))"

definition JoinHostPort :: "string \<Rightarrow> string \<Rightarrow> string" where
  "JoinHostPort host port =
     (if IndexByteString host (CHR '':'') \<noteq> None
        then ''['' @ host @ '']:'' @ port
      else host @ '':'' @ port)"

text \<open>\<^verbatim>\<open>fmt.Sprintf("%d", n)\<close>: the decimal digits of an integer.\<close>

definition digit :: "nat \<Rightarrow> char" where
  "digit d = ''0123456789'' ! d"

function FormatNat :: "nat \<Rightarrow> string" where
  "FormatNat n = (if n < 10 then [digit n] else FormatNat (n div 10) @ [digit (n mod 10)])"
  by pat_completeness auto
termination
  by (relation "measure id") auto

definition FormatInt :: "int \<Rightarrow> string" where
  "FormatInt n = (if n < 0 then ''-'' @ FormatNat (nat (- n)) else FormatNat (nat n))"

section \<open>Peers, master discovery and the node's resolv.conf\<close>

definition Master :: string where
  "Master = ''boss.io/master''"

definition StorePort :: string where
  "StorePort = ''boss.io/store.port''"

text \<open>
  \<^verbatim>\<open>element.PeerAgent\<close>, with the fields the agent reads. \<open>Labels\<close> is a Go
  \<^verbatim>\<open>map[string]string\<close>; \<open>label p k\<close> is the Go read \<^verbatim>\<open>p.Labels[k]\<close>, the empty
  string for a key that is not there.
\<close>

record PeerAgent =
  Name :: string
  Addr :: string
  Labels :: "string \<rightharpoonup> string"

definition label :: "PeerAgent \<Rightarrow> string \<Rightarrow> string" where
  "label p k = (case Labels p k of None \<Rightarrow> '''' | Some v \<Rightarrow> v)"

text \<open>
  The host an agent starts on, as far as \<^verbatim>\<open>New\<close>, \<^verbatim>\<open>handleResolvConf\<close> and
  \<^verbatim>\<open>writeResolvConf\<close> see it: the membership layer's view (\<open>members\<close> are the remote
  peers in enumeration order, \<open>self\<close> the local node), the content of
  \<^verbatim>\<open><root>/resolv.conf\<close> (\<open>None\<close> while the file does not exist), and the outcome of
  every call that can fail (\<open>None\<close>: the call succeeds).
\<close>

record host =
  members :: "PeerAgent list"
  self :: PeerAgent
  Peers_err :: "error option"
  LocalNode_err :: "error option"
  GetRegister_err :: "error option"
  NewApp_err :: "error option"
  SLAVEOF_err :: "string \<Rightarrow> string \<Rightarrow> error option"
  OpenFile_err :: "error option"
  WriteString_err :: "string \<Rightarrow> error option"
  resolv_conf :: "string option"

definition Peers :: "host \<Rightarrow> error + PeerAgent list" where
  "Peers h = (case Peers_err h of Some e \<Rightarrow> Inl e | None \<Rightarrow> Inr (members h))"

definition LocalNode :: "host \<Rightarrow> error + PeerAgent" where
  "LocalNode h = (case LocalNode_err h of Some e \<Rightarrow> Inl e | None \<Rightarrow> Inr (self h))"

text \<open>
  The loop of \<^verbatim>\<open>New\<close> over the peers (lines 83 to 93): the first peer that carries the
  master label decides; \<open>master\<close> stays empty when none does.
\<close>

fun New_master :: "PeerAgent list \<Rightarrow> error + string" where
  "New_master [] = Inr ''''"
| "New_master (p # ps) =
     (if Labels p Master \<noteq> None
      then (case SplitHostPort (Addr p) of
              Inl e \<Rightarrow> Inl e
            | Inr (h, _) \<Rightarrow> Inr (JoinHostPort h (label p StorePort)))
      else New_master ps)"

text \<open>
  \<^verbatim>\<open>writeResolvConf\<close>: the file is truncated when it is opened, then one line is
  written per peer; the first address that does not split, or the first write that fails,
  ends the loop and leaves the lines written so far.
\<close>

fun writeResolvConf_loop :: "host \<Rightarrow> PeerAgent list \<Rightarrow> string \<Rightarrow> error option \<times> string" where
  "writeResolvConf_loop h [] f = (None, f)"
| "writeResolvConf_loop h (p # ps) f =
     (case SplitHostPort (Addr p) of
        Inl e \<Rightarrow> (Some e, f)
      | Inr (hst, _) \<Rightarrow>
          (case WriteString_err h (''nameserver '' @ hst @ [CHR 0x0A]) of
             Some e \<Rightarrow> (Some e, f)
           | None \<Rightarrow> writeResolvConf_loop h ps (f @ ''nameserver '' @ hst @ [CHR 0x0A])))"

definition writeResolvConf :: "PeerAgent list \<Rightarrow> host \<Rightarrow> error option \<times> host" where
  "writeResolvConf peers h =
     (case OpenFile_err h of
        Some e \<Rightarrow> (Some e, h)
      | None \<Rightarrow>
          (case writeResolvConf_loop h peers [] of
             (r, f) \<Rightarrow> (r, h\<lparr>resolv_conf := Some f\<rparr>)))"

text \<open>
  \<^verbatim>\<open>handleResolvConf\<close> reads the peers and the local node once, writes the file, and
  starts a goroutine that rewrites the file on every membership event. The goroutine
  closes over the \<open>peers\<close> and \<open>me\<close> read at startup: \<open>resolv_watch\<close> is what it holds.
\<close>

record resolv_watch =
  peers_seen :: "PeerAgent list"
  me_seen :: PeerAgent

definition handleResolvConf :: "host \<Rightarrow> (error + resolv_watch) \<times> host" where
  "handleResolvConf h =
     (case Peers h of
        Inl e \<Rightarrow> (Inl e, h)
      | Inr peers \<Rightarrow>
          (case LocalNode h of
             Inl e \<Rightarrow> (Inl e, h)
           | Inr me \<Rightarrow>
               (case writeResolvConf (peers @ [me]) h of
                  (Some e, h') \<Rightarrow> (Inl e, h')
                | (None, h') \<Rightarrow> (Inr \<lparr>peers_seen = peers, me_seen = me\<rparr>, h'))))"

text \<open>
  One turn of the goroutine's loop \<^verbatim>\<open>for range c\<close>: the event is not looked at, the
  file is rewritten from the captured \<open>peers\<close> and \<open>me\<close>, an error is logged and dropped.
\<close>

datatype NodeEvent = NodeJoin PeerAgent | NodeLeave string

definition resolv_on_event :: "resolv_watch \<Rightarrow> NodeEvent \<Rightarrow> host \<Rightarrow> host" where
  "resolv_on_event wt ev h = snd (writeResolvConf (peers_seen wt @ [me_seen wt]) h)"

text \<open>
  The membership layer's side of an event: a join appends the peer to the enumeration, a
  leave removes the peer of that name. The agent is notified after the membership has
  changed.
\<close>

definition membership :: "NodeEvent \<Rightarrow> host \<Rightarrow> host" where
  "membership ev h =
     (case ev of
        NodeJoin p \<Rightarrow> h\<lparr>members := members h @ [p]\<rparr>
      | NodeLeave n \<Rightarrow> h\<lparr>members := filter (\<lambda>p. Name p \<noteq> n) (members h)\<rparr>)"

definition peer_event :: "resolv_watch \<Rightarrow> NodeEvent \<Rightarrow> host \<Rightarrow> host" where
  "peer_event wt ev h = resolv_on_event wt ev (membership ev h)"

text \<open>
  \<^verbatim>\<open>config.Config\<close>, with the fields \<^verbatim>\<open>New\<close> reads, and the agent \<^verbatim>\<open>New\<close> builds:
  the addresses its two connection pools dial and what its resolv.conf goroutine holds.
\<close>

record Config =
  Config_ID :: string
  Agent_Master :: bool

record Agent =
  master :: string
  local :: string
  watch :: resolv_watch

definition New_slave :: "host \<Rightarrow> string \<Rightarrow> error option" where
  "New_slave h mst =
     (case SplitHostPort mst of
        Inl e \<Rightarrow> Some e
      | Inr (hst, port) \<Rightarrow> SLAVEOF_err h hst port)"

text \<open>
  Lines 73 to 97 of \<^verbatim>\<open>New\<close>: the master's store address. A master node takes its
  own store; every other node asks the membership layer for its peers.
\<close>

definition New_discover :: "Config \<Rightarrow> host \<Rightarrow> string \<Rightarrow> error + string" where
  "New_discover c h lcl =
     (if Agent_Master c then Inr lcl
      else (case Peers h of
              Inl e \<Rightarrow> Inl e
            | Inr peers \<Rightarrow>
                (case New_master peers of
                   Inl e \<Rightarrow> Inl e
                 | Inr m \<Rightarrow> if m = '''' then Inl ErrNoMaster else Inr m)))"

text \<open>
  Lines 98 to 113: the pools dial lazily; a node that is not the master sends
  \<^verbatim>\<open>SLAVEOF host port\<close> to its own store.
\<close>

definition New_pools :: "Config \<Rightarrow> host \<Rightarrow> string \<Rightarrow> error option" where
  "New_pools c h mst = (if Agent_Master c then None else New_slave h mst)"

definition New :: "Config \<Rightarrow> host \<Rightarrow> int \<Rightarrow> (error + Agent) \<times> host" where
  "New c h storePort =
     (let lcl = ''127.0.0.1:'' @ FormatInt storePort in
      case GetRegister_err h of
        Some e \<Rightarrow> (Inl e, h)
      | None \<Rightarrow>
          (case NewApp_err h of
             Some e \<Rightarrow> (Inl e, h)
           | None \<Rightarrow>
               (case New_discover c h lcl of
                  Inl e \<Rightarrow> (Inl e, h)
                | Inr mst \<Rightarrow>
                    (case New_pools c h mst of
                       Some e \<Rightarrow> (Inl e, h)
                     | None \<Rightarrow>
                         (case handleResolvConf h of
                            (Inl e, h') \<Rightarrow> (Inl e, h')
                          | (Inr wt, h') \<Rightarrow>
                              (Inr \<lparr>master = mst, local = lcl, watch = wt\<rparr>, h'))))))"

section \<open>The replicated store, as the agent reads it\<close>

text \<open>
  A reply of the store's wire protocol as the client library hands it to the caller:
  nothing (\<open>RNil\<close>), an integer, a byte string, a status string, or an error reply.
\<close>

datatype reply = RNil | RInt int | RBulk string | RStatus string | RError string

text \<open>
  \<^verbatim>\<open>redis.String\<close> and \<^verbatim>\<open>redis.Bool\<close> of the client library, each applied to the
  pair \<^verbatim>\<open>(reply, err)\<close> that \<^verbatim>\<open>conn.Do\<close> returns. A \<open>nil\<close> reply becomes
  \<open>ErrNil\<close>. \<open>ParseBool\<close> is \<^verbatim>\<open>strconv.ParseBool\<close>.
\<close>

definition redis_String :: "error + reply \<Rightarrow> error + string" where
  "redis_String r =
     (case r of
        Inl e \<Rightarrow> Inl e
      | Inr (RBulk b) \<Rightarrow> Inr b
      | Inr (RStatus s) \<Rightarrow> Inr s
      | Inr RNil \<Rightarrow> Inl ErrNil
      | Inr (RError m) \<Rightarrow> Inl (Failure m)
      | Inr (RInt _) \<Rightarrow> Inl (UnexpectedType ''redigo: unexpected type for String''))"

definition ParseBool :: "string \<Rightarrow> error + bool" where
  "ParseBool s =
     (if s \<in> set [''1'', ''t'', ''T'', ''TRUE'', ''true'', ''True''] then Inr True
      else if s \<in> set [''0'', ''f'', ''F'', ''FALSE'', ''false'', ''False''] then Inr False
      else Inl (Failure ''strconv.ParseBool: invalid syntax''))"

definition redis_Bool :: "error + reply \<Rightarrow> error + bool" where
  "redis_Bool r =
     (case r of
        Inl e \<Rightarrow> Inl e
      | Inr (RInt n) \<Rightarrow> Inr (n \<noteq> 0)
      | Inr (RBulk b) \<Rightarrow> ParseBool b
      | Inr RNil \<Rightarrow> Inl ErrNil
      | Inr (RError m) \<Rightarrow> Inl (Failure m)
      | Inr (RStatus _) \<Rightarrow> Inl (UnexpectedType ''redigo: unexpected type for Bool''))"

text \<open>
  Modelled from the spec: the well-known keys \<^verbatim>\<open>v1.VolumeRootKey\<close> and
  \<^verbatim>\<open>v1.PlainRemotesKey\<close> are declared in the API package, which is not among the
  sources; the spec names them \<^verbatim>\<open>v1:volume-root\<close> (a string) and
  \<^verbatim>\<open>v1:plain-remotes\<close> (a set of registry hostnames).
\<close>

definition VolumeRootKey :: string where
  "VolumeRootKey = ''v1:volume-root''"

definition PlainRemotesKey :: string where
  "PlainRemotesKey = ''v1:plain-remotes''"

text \<open>
  The local replica: its string keys, its set keys, and the failure of a command on the
  connection (a dial, transport or protocol error) if there is one. \<^verbatim>\<open>GET\<close> of a key
  that is not there replies nil; \<^verbatim>\<open>SISMEMBER\<close> replies the integer 1 or 0, also for
  a set that is not there.
\<close>

datatype command = GET string | SISMEMBER string string

record store =
  strings :: "string \<rightharpoonup> string"
  sets :: "string \<rightharpoonup> string set"
  Do_err :: "command \<Rightarrow> error option"

definition doLocal :: "store \<Rightarrow> command \<Rightarrow> error + reply" where
  "doLocal st cmd =
     (case Do_err st cmd of
        Some e \<Rightarrow> Inl e
      | None \<Rightarrow>
          (case cmd of
             GET k \<Rightarrow> (case strings st k of None \<Rightarrow> Inr RNil | Some v \<Rightarrow> Inr (RBulk v))
           | SISMEMBER k m \<Rightarrow>
               (case sets st k of
                  None \<Rightarrow> Inr (RInt 0)
                | Some ms \<Rightarrow> Inr (RInt (if m \<in> ms then 1 else 0)))))"

text \<open>
  The read of the volume root, as \<^verbatim>\<open>Create\<close> (lines 193 to 196), \<^verbatim>\<open>Update\<close> and
  \<^verbatim>\<open>Restore\<close> write it: \<^verbatim>\<open>redis.String(a.doLocal("GET", v1.VolumeRootKey))\<close>, and
  only an error other than \<open>ErrNil\<close> is returned. With \<open>ErrNil\<close> the string is empty.
\<close>

definition volumeRoot_read :: "store \<Rightarrow> error + string" where
  "volumeRoot_read st =
     (case redis_String (doLocal st (GET VolumeRootKey)) of
        Inl e \<Rightarrow> if e \<noteq> ErrNil then Inl e else Inr ''''
      | Inr v \<Rightarrow> Inr v)"

text \<open>
  \<^verbatim>\<open>withPlainRemote\<close>: the registry is the part of the ref before the first slash
  (\<^verbatim>\<open>strings.SplitN(ref, "/", 2)[0]\<close>). The option it returns fails with the store's
  error, or sets a resolver whose \<open>PlainHTTP\<close> is the membership bit; the result is that
  bit.
\<close>

definition remote_of :: "string \<Rightarrow> string" where
  "remote_of ref = takeWhile (\<lambda>c. c \<noteq> CHR ''/'') ref"

definition withPlainRemote :: "store \<Rightarrow> string \<Rightarrow> error + bool" where
  "withPlainRemote st ref =
     (case redis_Bool (doLocal st (SISMEMBER PlainRemotesKey (remote_of ref))) of
        Inl e \<Rightarrow> if e \<noteq> ErrNil then Inl e else Inr False
      | Inr ok \<Rightarrow> Inr ok)"

section \<open>Container records\<close>

text \<open>
  \<^verbatim>\<open>types.Any\<close>: a type URL and the serialised bytes; \<open>Value = None\<close> is the nil
  slice. Reading a Go map at a key that is not there gives the zero value \<open>zero_Any\<close>.
\<close>

record Any =
  TypeUrl :: string
  Value :: "string option"

definition zero_Any :: Any where
  "zero_Any = \<lparr>TypeUrl = '''', Value = None\<rparr>"

text \<open>
  \<^verbatim>\<open>v1.Container\<close>, the boss configuration of a container, with the fields the agent
  itself reads. \<open>ctr_Services\<close> holds the keys of the \<^verbatim>\<open>Services\<close> map.
\<close>

record Mount =
  Type :: string
  Source :: string
  Destination :: string
  Options :: "string list"

record v1_Container =
  ctr_ID :: string
  ctr_Image :: string
  ctr_Network :: string
  ctr_Mounts :: "Mount list"
  ctr_Services :: "string list"

text \<open>
  The runtime spec is not looked into: \<open>Spec volumeRoot config image\<close> is the spec
  generated from that volume root, configuration and image.
\<close>

datatype spec = Spec string v1_Container string

text \<open>
  \<^verbatim>\<open>containers.Container\<close>, the runtime's record of a container. \<open>c_Extensions\<close> is a
  Go map that may be nil (\<open>None\<close>): a read of a nil map gives the zero value, a write to
  it panics.
\<close>

record containers_Container =
  c_ID :: string
  c_Labels :: "string \<rightharpoonup> string"
  c_Image :: string
  c_Snapshotter :: string
  c_SnapshotKey :: string
  c_Spec :: "spec option"
  c_Extensions :: "(string \<rightharpoonup> Any) option"

definition extension :: "containers_Container \<Rightarrow> string \<Rightarrow> Any" where
  "extension c k =
     (case c_Extensions c of
        None \<Rightarrow> zero_Any
      | Some m \<Rightarrow> (case m k of None \<Rightarrow> zero_Any | Some v \<Rightarrow> v))"

definition set_extension ::
  "containers_Container \<Rightarrow> string \<Rightarrow> Any \<Rightarrow> error + containers_Container" where
  "set_extension c k v =
     (case c_Extensions c of
        None \<Rightarrow> Inl (Panic ''assignment to entry in nil map'')
      | Some m \<Rightarrow> Inr (c\<lparr>c_Extensions := Some (m(k \<mapsto> v))\<rparr>))"

definition c_label :: "containers_Container \<Rightarrow> string \<Rightarrow> string" where
  "c_label c k = (case c_Labels c k of None \<Rightarrow> '''' | Some v \<Rightarrow> v)"

text \<open>
  \<^verbatim>\<open>cgroups.Metrics\<close>, with the parts \<^verbatim>\<open>info\<close> reads. Each part is a pointer in
  the source (\<open>cg.CPU\<close>, \<open>cg.CPU.Usage\<close>, \<open>cg.Memory\<close>, \<open>cg.Memory.Usage\<close>,
  \<open>cg.Pids\<close>), and \<open>None\<close> is the nil pointer. \<open>decoded\<close> is what
  \<^verbatim>\<open>typeurl.UnmarshalAny\<close> can give back: a boss configuration, cgroup metrics, or a
  value of another type.
\<close>

record CPUUsage =
  usage_Total :: "64 word"

record CPUStat =
  cpu_Usage :: "CPUUsage option"

record MemoryEntry =
  entry_Limit :: "64 word"
  entry_Usage :: "64 word"

record MemoryStat =
  mem_TotalCache :: "64 word"
  mem_Usage :: "MemoryEntry option"

record PidsStat =
  pids_Current :: "64 word"
  pids_Limit :: "64 word"

record cg_Metrics =
  cg_CPU :: "CPUStat option"
  cg_Memory :: "MemoryStat option"
  cg_Pids :: "PidsStat option"

datatype decoded = D_Container v1_Container | D_Metrics cg_Metrics | D_Other

section \<open>Checkpoint images\<close>

text \<open>
  The media types. \<open>MediaTypeContainerInfo\<close> is the agent's own; the others are the
  constants of the OCI image specification and of the runtime's \<^verbatim>\<open>images\<close> package
  that the agent names.
\<close>

definition MediaTypeContainerInfo :: string where
  "MediaTypeContainerInfo = ''application/vnd.boss.container.info.v1+json''"

definition MediaTypeImageLayer :: string where
  "MediaTypeImageLayer = ''application/vnd.oci.image.layer.v1.tar''"

definition MediaTypeImageLayerGzip :: string where
  "MediaTypeImageLayerGzip = ''application/vnd.oci.image.layer.v1.tar+gzip''"

definition MediaTypeImageIndex :: string where
  "MediaTypeImageIndex = ''application/vnd.oci.image.index.v1+json''"

definition MediaTypeContainerd1Checkpoint :: string where
  "MediaTypeContainerd1Checkpoint =
     ''application/vnd.containerd.container.criu.checkpoint.criu.tar''"

definition MediaTypeContainerd1CheckpointConfig :: string where
  "MediaTypeContainerd1CheckpointConfig =
     ''application/vnd.containerd.container.checkpoint.config.v1+proto''"

text \<open>
  A descriptor names a blob of the content store by its digest. The digest is modelled
  as the position of the blob in the store: what the agent does with a digest is to hand
  it back to the store.
\<close>

record Platform =
  OS :: string
  Architecture :: string

record Descriptor =
  d_MediaType :: string
  d_Digest :: nat
  d_Size :: int
  d_Platform :: "Platform option"

record Index =
  SchemaVersion :: int
  Manifests :: "Descriptor list"
  Annotations :: "(string \<times> string) list"

text \<open>
  What the content store holds: the JSON of a container record, the JSON of an index, a
  layer diff of a snapshot (named by the snapshot key), or bytes the agent did not write.
\<close>

datatype blob =
    BlobInfo containers_Container
  | BlobIndex Index
  | BlobDiff string
  | BlobOther string

text \<open>
  \<^verbatim>\<open>getByMediaType\<close>: the first manifest of the index with the media type.
\<close>

fun getByMediaType_loop :: "Descriptor list \<Rightarrow> string \<Rightarrow> error + Descriptor" where
  "getByMediaType_loop [] mt = Inl errMediaTypeNotFound"
| "getByMediaType_loop (d # ds) mt =
     (if d_MediaType d = mt then Inr d else getByMediaType_loop ds mt)"

definition getByMediaType :: "Index \<Rightarrow> string \<Rightarrow> error + Descriptor" where
  "getByMediaType index mt = getByMediaType_loop (Manifests index) mt"

section \<open>Bind-mount sources on disk\<close>

text \<open>
  What \<^verbatim>\<open>filepath.Walk\<close> meets at a path: a path whose \<^verbatim>\<open>Lstat\<close> fails, an entry
  that is not a directory (a regular file, a symbolic link, a device) with its size, or a
  directory with the failure of reading its names, if any, and its entries in the order
  of the walk.
\<close>

datatype fsnode =
    NoStat error
  | Leaf "64 word"
  | Folder "error option" "(string \<times> fsnode) list"

text \<open>
  What \<^verbatim>\<open>getBindSizes\<close> sees of a mount source: the outcome of \<^verbatim>\<open>os.Open\<close>, of
  \<^verbatim>\<open>Stat\<close> on the open file (is it a directory, and its size), and the tree a walk
  from the path finds.
\<close>

record source_view =
  open_r :: "error option"
  stat_r :: "error + (bool \<times> 64 word)"
  tree :: fsnode

text \<open>
  \<^verbatim>\<open>filepath.Walk\<close> with the callback of \<^verbatim>\<open>getBindSizes\<close>: the callback returns the
  error it is handed, returns nil on a directory, and adds the size of anything else to
  the running size. \<open>walk\<close> returns the first error and the size summed so far.
\<close>

fun walk :: "fsnode \<Rightarrow> 64 word \<Rightarrow> error option \<times> 64 word"
  and walk_names :: "(string \<times> fsnode) list \<Rightarrow> 64 word \<Rightarrow> error option \<times> 64 word" where
  "walk (NoStat e) sz = (Some e, sz)"
| "walk (Leaf n) sz = (None, sz + n)"
| "walk (Folder (Some e) entries) sz = (Some e, sz)"
| "walk (Folder None entries) sz = walk_names entries sz"
| "walk_names [] sz = (None, sz)"
| "walk_names ((name, t) # entries) sz =
     (case walk t sz of
        (Some e, sz') \<Rightarrow> (Some e, sz')
      | (None, sz') \<Rightarrow> walk_names entries sz')"

text \<open>
  \<^verbatim>\<open>getBindSizes\<close>: a source that cannot be opened is logged and skipped; a failing
  \<^verbatim>\<open>Stat\<close> and a failing walk end the function with the error.
\<close>

fun getBindSizes_loop ::
  "(string \<Rightarrow> source_view) \<Rightarrow> Mount list \<Rightarrow> 64 word \<Rightarrow> 64 word \<times> error option" where
  "getBindSizes_loop fs [] sz = (sz, None)"
| "getBindSizes_loop fs (m # ms) sz =
     (case open_r (fs (Source m)) of
        Some e \<Rightarrow> getBindSizes_loop fs ms sz
      | None \<Rightarrow>
          (case stat_r (fs (Source m)) of
             Inl e \<Rightarrow> (sz, Some e)
           | Inr (isDir, n) \<Rightarrow>
               if isDir
               then (case walk (tree (fs (Source m))) sz of
                       (Some e, sz') \<Rightarrow> (sz', Some e)
                     | (None, sz') \<Rightarrow> getBindSizes_loop fs ms sz')
               else getBindSizes_loop fs ms (sz + n)))"

definition getBindSizes :: "(string \<Rightarrow> source_view) \<Rightarrow> v1_Container \<Rightarrow> 64 word \<times> error option" where
  "getBindSizes fs c = getBindSizes_loop fs (ctr_Mounts c) 0"

section \<open>The node the agent runs on\<close>

text \<open>
  The agent works through collaborators: the container runtime (containers, tasks,
  snapshots, content, images, diffs), the unit manager, the service registry, the
  configuration store, the registry of images and the peer agents. \<open>call\<close> names each
  call the agent makes that can return an error; \<open>effect\<close> names what a call that went
  through has done outside the records the agent reads back.
\<close>

datatype signal = SIGTERM | SIGKILL

datatype cleanup = WithSnapshotCleanup | WithRevisionCleanup

datatype call =
    WithLease_c
  | Containers_c
  | LoadContainer_c string
  | Info_c string
  | Update_c string
  | Task_c string
  | Wait_c string
  | Kill_c string signal
  | Pause_c string
  | Resume_c string
  | Status_c string
  | Metrics_c string
  | Usage_c string
  | Walk_c
  | Mounts_c string
  | CreateDiff_c string
  | Apply_c string
  | Checkpoint_c string
  | Pull_c string
  | Push_c string
  | Fetch_c string
  | GetImage_c string
  | ImageCreate_c string
  | ImageDelete_c string
  | NewContainer_c string
  | Delete_c string
  | Writer_c string
  | ReadBlob_c nat
  | Marshal_c string
  | StoreWrite_c string
  | Enable_c string
  | Start_c string
  | Stop_c string
  | Disable_c string
  | GetNetwork_c string
  | NetworkRemove_c string
  | Deregister_c string string
  | EnableMaintainance_c string string
  | Dial_c string
  | RemoteRestore_c string

datatype effect =
    LeaseReleased
  | Paused string
  | Resumed string
  | Signalled string signal
  | UnitEnabled string
  | UnitStarted string
  | UnitStopped string
  | UnitDisabled string
  | ConfigWritten string
  | Pulled string bool
  | Pushed string bool
  | Fetched string bool
  | DiffApplied nat string
  | TaskCheckpointed string bool
  | NetworkRemoved string
  | Deregistered string string
  | Maintenance string string string
  | ContainerDeleted string cleanup
  | ImageDeleted string
  | RemoteRestored string string bool
  | RemoteClosed string

text \<open>
  \<^verbatim>\<open>task\<close> is what the runtime reports of a running task; \<^verbatim>\<open>snapshots.Info\<close> what
  the snapshot service reports of a snapshot.
\<close>

record task =
  task_Status :: string
  task_Metrics :: Any

record snapshots_Info =
  snap_Name :: string
  snap_Created :: int
  snap_Labels :: "string \<rightharpoonup> string"

definition snap_label :: "snapshots_Info \<Rightarrow> string \<Rightarrow> string" where
  "snap_label si k = (case snap_Labels si k of None \<Rightarrow> '''' | Some v \<Rightarrow> v)"

text \<open>
  The state of the node and the answers of its collaborators.
  \<^item> \<open>fault\<close>: the error a call returns, if it fails for a reason of its own.
  \<^item> \<open>kv\<close>: the local replica of the store.
  \<^item> \<open>MarshalAny\<close>, \<open>UnmarshalAny\<close>: the \<^verbatim>\<open>typeurl\<close> codec.
  \<^item> \<open>WithNewSpec_err\<close>: the failure of generating a runtime spec, if any.
  \<^item> \<open>flux_WithNewSnapshot\<close>, \<open>flux_WithRollback\<close>, \<open>opts_WithRestore\<close>: container
    options of packages that are not among the sources, taken as they are.
  \<^item> \<open>containers\<close>: the runtime's container records, in the order it lists them.
  \<^item> \<open>tasks\<close>: the running task of a container, if it has one.
  \<^item> \<open>usage\<close>, \<open>snapshots\<close>: the snapshot service.
  \<^item> \<open>fs\<close>: the bind-mount sources on disk.
  \<^item> \<open>images\<close>, \<open>blobs\<close>, \<open>blob_size\<close>: the image service and the content store; the
    digest of a blob is its position in \<open>blobs\<close>.
  \<^item> \<open>registry\<close>: the images a registry serves.
  \<^item> \<open>checkpoint_descs\<close>: the descriptors the runtime's task checkpoint returns.
  \<^item> \<open>remote_has\<close>: whether the peer agent answers \<^verbatim>\<open>Get\<close> for an id without error.
  \<^item> \<open>exits_in_time\<close>: whether the task of a container exits before the ten seconds of
    \<^verbatim>\<open>Update\<close> are over.
  \<^item> \<open>GOOS\<close>, \<open>GOARCH\<close>: the platform of the host.
  \<^item> \<open>trace\<close>: the effects so far, the latest last.
\<close>

record world =
  fault :: "call \<Rightarrow> error option"
  kv :: store
  MarshalAny :: "v1_Container \<Rightarrow> error + Any"
  UnmarshalAny :: "Any \<Rightarrow> error + decoded"
  WithNewSpec_err :: "string \<Rightarrow> v1_Container \<Rightarrow> string \<Rightarrow> error option"
  flux_WithNewSnapshot :: "string \<Rightarrow> containers_Container \<Rightarrow> error + containers_Container"
  flux_WithRollback :: "containers_Container \<Rightarrow> error + containers_Container"
  opts_WithRestore :: "Descriptor \<Rightarrow> containers_Container \<Rightarrow> error + containers_Container"
  containers :: "(string \<times> containers_Container) list"
  tasks :: "string \<rightharpoonup> task"
  usage :: "string \<rightharpoonup> 64 word"
  snapshots :: "snapshots_Info list"
  fs :: "string \<Rightarrow> source_view"
  images :: "string \<rightharpoonup> Descriptor"
  blobs :: "blob list"
  blob_size :: "blob \<Rightarrow> int"
  registry :: "string \<rightharpoonup> Descriptor"
  checkpoint_descs :: "Descriptor list"
  remote_has :: "string \<Rightarrow> bool"
  exits_in_time :: "string \<Rightarrow> bool"
  GOOS :: string
  GOARCH :: string
  trace :: "effect list"

definition did :: "effect \<Rightarrow> world \<Rightarrow> world" where
  "did ef w = w\<lparr>trace := trace w @ [ef]\<rparr>"

text \<open>
  \<^verbatim>\<open>errors.Cause\<close> and \<^verbatim>\<open>errdefs.IsNotFound\<close>.
\<close>

fun Cause :: "error \<Rightarrow> error" where
  "Cause (Wrap msg e) = Cause e"
| "Cause e = e"

definition IsNotFound :: "error \<Rightarrow> bool" where
  "IsNotFound e = (Cause e = ErrNotFound)"

subsection \<open>Reads of the runtime\<close>

definition Containers :: "world \<Rightarrow> error + string list" where
  "Containers w =
     (case fault w Containers_c of
        Some e \<Rightarrow> Inl e
      | None \<Rightarrow> Inr (map fst (containers w)))"

definition LoadContainer :: "world \<Rightarrow> string \<Rightarrow> error + string" where
  "LoadContainer w cid =
     (case fault w (LoadContainer_c cid) of
        Some e \<Rightarrow> Inl e
      | None \<Rightarrow>
          (case map_of (containers w) cid of
             None \<Rightarrow> Inl ErrNotFound
           | Some c \<Rightarrow> Inr cid))"

definition Info :: "world \<Rightarrow> string \<Rightarrow> error + containers_Container" where
  "Info w cid =
     (case fault w (Info_c cid) of
        Some e \<Rightarrow> Inl e
      | None \<Rightarrow>
          (case map_of (containers w) cid of
             None \<Rightarrow> Inl ErrNotFound
           | Some c \<Rightarrow> Inr c))"

definition Task :: "world \<Rightarrow> string \<Rightarrow> error + task" where
  "Task w cid =
     (case fault w (Task_c cid) of
        Some e \<Rightarrow> Inl e
      | None \<Rightarrow>
          (case tasks w cid of
             None \<Rightarrow> Inl ErrNotFound
           | Some t \<Rightarrow> Inr t))"

definition Usage :: "world \<Rightarrow> string \<Rightarrow> error + 64 word" where
  "Usage w key =
     (case fault w (Usage_c key) of
        Some e \<Rightarrow> Inl e
      | None \<Rightarrow>
          (case usage w key of
             None \<Rightarrow> Inl ErrNotFound
           | Some n \<Rightarrow> Inr n))"

definition ReadBlob :: "world \<Rightarrow> Descriptor \<Rightarrow> error + blob" where
  "ReadBlob w d =
     (case fault w (ReadBlob_c (d_Digest d)) of
        Some e \<Rightarrow> Inl e
      | None \<Rightarrow>
          (if d_Digest d < length (blobs w) then Inr (blobs w ! d_Digest d)
           else Inl ErrNotFound))"

definition GetImage :: "world \<Rightarrow> string \<Rightarrow> error + Descriptor" where
  "GetImage w ref =
     (case fault w (GetImage_c ref) of
        Some e \<Rightarrow> Inl e
      | None \<Rightarrow>
          (case images w ref of
             None \<Rightarrow> Inl ErrNotFound
           | Some d \<Rightarrow> Inr d))"

subsection \<open>The option builders\<close>

definition CurrentConfig :: string where
  "CurrentConfig = ''io.boss/container''"

definition LastConfig :: string where
  "LastConfig = ''io.boss/container.last''"

definition IPLabel :: string where
  "IPLabel = ''io/boss/container.ip''"

text \<open>
  \<^verbatim>\<open>containerd.WithContainerExtension\<close>: the value is marshalled and stored under the
  name; a nil map is made first.
\<close>

definition WithContainerExtension ::
  "world \<Rightarrow> string \<Rightarrow> v1_Container \<Rightarrow> containers_Container \<Rightarrow> error + containers_Container" where
  "WithContainerExtension w name config c =
     (if name = '''' then Inl (Failure ''extension key must not be zero-length'')
      else (case MarshalAny w config of
              Inl e \<Rightarrow> Inl e
            | Inr a \<Rightarrow>
                (case c_Extensions c of
                   None \<Rightarrow> Inr (c\<lparr>c_Extensions := Some [name \<mapsto> a]\<rparr>)
                 | Some m \<Rightarrow> Inr (c\<lparr>c_Extensions := Some (m(name \<mapsto> a))\<rparr>))))"

text \<open>
  \<^verbatim>\<open>WithBossConfig\<close>: the spec is generated, then the configuration is saved as the
  \<open>CurrentConfig\<close> extension. The agent passes the volume root as well, which goes into
  the spec.
\<close>

definition WithBossConfig ::
  "world \<Rightarrow> string \<Rightarrow> v1_Container \<Rightarrow> string \<Rightarrow> containers_Container \<Rightarrow> error + containers_Container" where
  "WithBossConfig w volumeRoot config img c =
     (case WithNewSpec_err w volumeRoot config img of
        Some e \<Rightarrow> Inl e
      | None \<Rightarrow>
          WithContainerExtension w CurrentConfig config
            (c\<lparr>c_Spec := Some (Spec volumeRoot config img)\<rparr>))"

definition WithSetPreviousConfig :: "containers_Container \<Rightarrow> error + containers_Container" where
  "WithSetPreviousConfig c = set_extension c LastConfig (extension c CurrentConfig)"

definition WithRollback :: "containers_Container \<Rightarrow> error + containers_Container" where
  "WithRollback c =
     (let d = extension c LastConfig in
      if Value d = None then Inr c
      else set_extension c CurrentConfig d)"

definition UnmarshalConfig :: "world \<Rightarrow> Any \<Rightarrow> error + v1_Container" where
  "UnmarshalConfig w a =
     (case UnmarshalAny w a of
        Inl e \<Rightarrow> Inl e
      | Inr (D_Container c) \<Rightarrow> Inr c
      | Inr _ \<Rightarrow> Inl ErrOldConfigFormat)"

definition GetConfig :: "world \<Rightarrow> string \<Rightarrow> error + v1_Container" where
  "GetConfig w cid =
     (case Info w cid of
        Inl e \<Rightarrow> Inl e
      | Inr ci \<Rightarrow> UnmarshalConfig w (extension ci CurrentConfig))"

section \<open>Example nodes\<close>

text \<open>
  A worker node \<open>me\<close> and its peers: \<open>a\<close> and \<open>b\<close> carry the master label, \<open>w\<close> does
  not, and \<open>m\<close> carries it with an address that has no port. \<open>host_of ps\<close> is a host
  with the peers \<open>ps\<close> on which every call succeeds and no resolv.conf exists yet.
\<close>

definition peer_a :: PeerAgent where
  "peer_a = \<lparr>Name = ''a'', Addr = ''10.0.0.2:7946'',
     Labels = [Master \<mapsto> '''', StorePort \<mapsto> ''9000'']\<rparr>"

definition peer_b :: PeerAgent where
  "peer_b = \<lparr>Name = ''b'', Addr = ''10.0.0.3:7946'',
     Labels = [Master \<mapsto> '''', StorePort \<mapsto> ''9001'']\<rparr>"

definition peer_w :: PeerAgent where
  "peer_w = \<lparr>Name = ''w'', Addr = ''10.0.0.4:7946'', Labels = Map.empty\<rparr>"

definition peer_m :: PeerAgent where
  "peer_m = \<lparr>Name = ''m'', Addr = ''10.0.0.2'',
     Labels = [Master \<mapsto> '''', StorePort \<mapsto> ''9000'']\<rparr>"

definition peer_me :: PeerAgent where
  "peer_me = \<lparr>Name = ''me'', Addr = ''10.0.0.1:7946'', Labels = Map.empty\<rparr>"

text \<open>
  The peer \<open>c\<close> carries the master label with a store-port label that holds a colon.
\<close>

definition peer_c :: PeerAgent where
  "peer_c = \<lparr>Name = ''c'', Addr = ''10.0.0.5:7946'',
     Labels = [Master \<mapsto> '''', StorePort \<mapsto> ''90:00'']\<rparr>"

definition host_of :: "PeerAgent list \<Rightarrow> host" where
  "host_of ps = \<lparr>members = ps, self = peer_me, Peers_err = None, LocalNode_err = None,
     GetRegister_err = None, NewApp_err = None, SLAVEOF_err = (\<lambda>_ _. None),
     OpenFile_err = None, WriteString_err = (\<lambda>_. None), resolv_conf = None\<rparr>"

definition worker :: Config where
  "worker = \<lparr>Config_ID = ''me'', Agent_Master = False\<rparr>"

section \<open>Container info: \<^verbatim>\<open>info\<close>, \<^verbatim>\<open>Get\<close>, \<^verbatim>\<open>List\<close>\<close>

text \<open>
  \<^verbatim>\<open>v1.Snapshot\<close> and \<^verbatim>\<open>v1.ContainerInfo\<close>. The two memory fields are
  \<^verbatim>\<open>float64\<close> in the source; the model keeps the unsigned 64-bit integer that the
  source converts. \<open>info_Config = None\<close> is the nil pointer. \<open>zero_info\<close> is the zero
  value of the struct.
\<close>

record v1_Snapshot =
  snapshot_ID :: string
  snapshot_Created :: int
  snapshot_Previous :: string
  snapshot_FsSize :: "64 word"

record v1_ContainerInfo =
  info_ID :: string
  info_Image :: string
  info_Status :: string
  info_IP :: string
  info_Cpu :: "64 word"
  info_MemoryUsage :: "64 word"
  info_MemoryLimit :: "64 word"
  info_PidUsage :: "64 word"
  info_PidLimit :: "64 word"
  info_FsSize :: "64 word"
  info_Config :: "v1_Container option"
  info_Snapshots :: "v1_Snapshot list"

definition zero_info :: v1_ContainerInfo where
  "zero_info = \<lparr>info_ID = '''', info_Image = '''', info_Status = '''', info_IP = '''',
     info_Cpu = 0, info_MemoryUsage = 0, info_MemoryLimit = 0, info_PidUsage = 0,
     info_PidLimit = 0, info_FsSize = 0, info_Config = None, info_Snapshots = []\<rparr>"

text \<open>
  Modelled from the spec: the label keys \<^verbatim>\<open>flux.ContainerIDLabel\<close> and
  \<^verbatim>\<open>flux.PreviousLabel\<close> are declared in the snapshot package, which is not among the
  sources; the spec calls them the label \<^verbatim>\<open>container-id\<close> and the \<^verbatim>\<open>previous\<close>
  pointer of a snapshot.
\<close>

definition ContainerIDLabel :: string where
  "ContainerIDLabel = ''container-id''"

definition PreviousLabel :: string where
  "PreviousLabel = ''previous''"

text \<open>
  The walk over the snapshots in \<^verbatim>\<open>info\<close> (lines 288 to 306): a snapshot of another
  container is passed over, the usage of a snapshot of this container is read, and an
  error of that read ends the walk.
\<close>

fun info_Walk_loop ::
  "world \<Rightarrow> string \<Rightarrow> snapshots_Info list \<Rightarrow> v1_Snapshot list \<Rightarrow> error + v1_Snapshot list" where
  "info_Walk_loop w cid [] ss = Inr ss"
| "info_Walk_loop w cid (si # sis) ss =
     (if snap_label si ContainerIDLabel \<noteq> cid then info_Walk_loop w cid sis ss
      else (case Usage w (snap_Name si) of
              Inl e \<Rightarrow> Inl e
            | Inr n \<Rightarrow>
                info_Walk_loop w cid sis
                  (ss @ [\<lparr>snapshot_ID = snap_Name si, snapshot_Created = snap_Created si,
                          snapshot_Previous = snap_label si PreviousLabel,
                          snapshot_FsSize = n\<rparr>])))"

definition info_Walk :: "world \<Rightarrow> string \<Rightarrow> error + v1_Snapshot list" where
  "info_Walk w cid =
     (case fault w Walk_c of
        Some e \<Rightarrow> Inl e
      | None \<Rightarrow> info_Walk_loop w cid (snapshots w) [])"

text \<open>
  The end of \<^verbatim>\<open>info\<close> for a container with a task (lines 325 to 356). The type
  assertion \<^verbatim>\<open>v.(*cgroups.Metrics)\<close> has one result and panics on a value of
  another type; the reads \<^verbatim>\<open>cg.CPU.Usage.Total\<close>, \<^verbatim>\<open>cg.Memory.Usage.Usage\<close>,
  \<^verbatim>\<open>cg.Memory.TotalCache\<close>, \<^verbatim>\<open>cg.Memory.Usage.Limit\<close>, \<^verbatim>\<open>cg.Pids.Current\<close>
  and \<^verbatim>\<open>cg.Pids.Limit\<close> panic on a nil pointer, in this order.
\<close>

definition not_Metrics :: string where
  "not_Metrics = ''interface conversion: interface is not *cgroups.Metrics''"

definition nil_dereference :: string where
  "nil_dereference = ''runtime error: invalid memory address or nil pointer dereference''"

definition info_task ::
  "world \<Rightarrow> string \<Rightarrow> containers_Container \<Rightarrow> v1_Container \<Rightarrow> 64 word \<Rightarrow> v1_Snapshot list
     \<Rightarrow> task \<Rightarrow> (error + v1_ContainerInfo) run" where
  "info_task w cid ci cfg fsSize ss t =
     (case fault w (Status_c cid) of
        Some e \<Rightarrow> Returns (Inl e)
      | None \<Rightarrow>
     (case fault w (Metrics_c cid) of
        Some e \<Rightarrow> Returns (Inl e)
      | None \<Rightarrow>
     (case UnmarshalAny w (task_Metrics t) of
        Inl e \<Rightarrow> Returns (Inl e)
      | Inr (D_Metrics cg) \<Rightarrow>
     (case cg_CPU cg of
        None \<Rightarrow> Panics nil_dereference
      | Some cpu \<Rightarrow>
     (case cpu_Usage cpu of
        None \<Rightarrow> Panics nil_dereference
      | Some cu \<Rightarrow>
     (case cg_Memory cg of
        None \<Rightarrow> Panics nil_dereference
      | Some mem \<Rightarrow>
     (case mem_Usage mem of
        None \<Rightarrow> Panics nil_dereference
      | Some mu \<Rightarrow>
     (case cg_Pids cg of
        None \<Rightarrow> Panics nil_dereference
      | Some pids \<Rightarrow>
          Returns (Inr \<lparr>info_ID = cid, info_Image = c_Image ci,
            info_Status = task_Status t, info_IP = c_label ci IPLabel,
            info_Cpu = usage_Total cu,
            info_MemoryUsage = entry_Usage mu - mem_TotalCache mem,
            info_MemoryLimit = entry_Limit mu,
            info_PidUsage = pids_Current pids, info_PidLimit = pids_Limit pids,
            info_FsSize = fsSize, info_Config = Some cfg, info_Snapshots = ss\<rparr>))))))
      | Inr _ \<Rightarrow> Panics not_Metrics)))"

text \<open>
  \<^verbatim>\<open>info\<close>. \<open>cid\<close> is the id of the container handle. \<open>''stopped''\<close> is
  \<^verbatim>\<open>containerd.Stopped\<close>.
\<close>

definition info :: "world \<Rightarrow> string \<Rightarrow> (error + v1_ContainerInfo) run" where
  "info w cid =
     (case Info w cid of
        Inl e \<Rightarrow> Returns (Inl e)
      | Inr ci \<Rightarrow>
     (case UnmarshalConfig w (extension ci CurrentConfig) of
        Inl e \<Rightarrow> Returns (Inl e)
      | Inr cfg \<Rightarrow>
     (case Usage w (c_SnapshotKey ci) of
        Inl e \<Rightarrow> Returns (Inl e)
      | Inr usg \<Rightarrow>
     (case info_Walk w cid of
        Inl e \<Rightarrow> Returns (Inl e)
      | Inr ss \<Rightarrow>
     (case getBindSizes (fs w) cfg of
        (_, Some e) \<Rightarrow> Returns (Inl e)
      | (bindSizes, None) \<Rightarrow>
     (case Task w cid of
        Inl e \<Rightarrow>
          if IsNotFound e
          then Returns (Inr (zero_info\<lparr>info_ID := cid, info_Image := c_Image ci,
                    info_Status := ''stopped'', info_FsSize := usg + bindSizes,
                    info_Config := Some cfg, info_Snapshots := ss\<rparr>))
          else Returns (Inl e)
      | Inr t \<Rightarrow> info_task w cid ci cfg (usg + bindSizes) ss t))))))"


text \<open>
  \<^verbatim>\<open>List\<close> (lines 359 to 379): the loop appends one entry per container, the info
  or, when \<^verbatim>\<open>info\<close> returns an error, an entry with the id and the status
  \<open>''list error''\<close>. There is no \<^verbatim>\<open>recover\<close>: a panic of \<^verbatim>\<open>info\<close> ends the loop
  and \<^verbatim>\<open>List\<close> with it.
\<close>

fun List_loop ::
  "world \<Rightarrow> string list \<Rightarrow> v1_ContainerInfo list \<Rightarrow> v1_ContainerInfo list run" where
  "List_loop w [] resp = Returns resp"
| "List_loop w (c # cs) resp =
     (case info w c of
        Panics msg \<Rightarrow> Panics msg
      | Returns (Inl e) \<Rightarrow>
          List_loop w cs (resp @ [zero_info\<lparr>info_ID := c, info_Status := ''list error''\<rparr>])
      | Returns (Inr l) \<Rightarrow> List_loop w cs (resp @ [l]))"

definition List :: "world \<Rightarrow> (error + v1_ContainerInfo list) run" where
  "List w =
     (case Containers w of
        Inl e \<Rightarrow> Returns (Inl e)
      | Inr cs \<Rightarrow>
          (case List_loop w cs [] of
             Panics msg \<Rightarrow> Panics msg
           | Returns resp \<Rightarrow> Returns (Inr resp)))"

text \<open>
  The metrics on which \<^verbatim>\<open>info\<close> panics, in words: a decoded value that is not
  \<^verbatim>\<open>*cgroups.Metrics\<close>, or metrics that lack the CPU part, its usage, the memory
  part, its usage, or the pids part.
\<close>

definition lacks_part :: "cg_Metrics \<Rightarrow> bool" where
  "lacks_part cg =
     (cg_CPU cg = None \<or> (\<exists>cpu. cg_CPU cg = Some cpu \<and> cpu_Usage cpu = None)
      \<or> cg_Memory cg = None \<or> (\<exists>mem. cg_Memory cg = Some mem \<and> mem_Usage mem = None)
      \<or> cg_Pids cg = None)"

definition unusable_metrics :: "decoded \<Rightarrow> bool" where
  "unusable_metrics v = (case v of D_Metrics cg \<Rightarrow> lacks_part cg | _ \<Rightarrow> True)"

section \<open>Bind sizes, as the spec words them\<close>





section \<open>Example node\<close>

text \<open>
  An example codec: a configuration is serialised as its id, its image and the sources of
  its mounts, and only the example configurations decode. \<open>node0\<close> is a node with no
  container on which every call succeeds.
\<close>

definition enc :: "v1_Container \<Rightarrow> Any" where
  "enc c = \<lparr>TypeUrl = ''types.boss.io/v1.Container'',
             Value = Some (ctr_ID c @ '' '' @ ctr_Image c @ concat (map Source (ctr_Mounts c)))\<rparr>"

definition web_cfg :: v1_Container where
  "web_cfg = \<lparr>ctr_ID = ''web'', ctr_Image = ''r/nginx:1'', ctr_Network = ''cni'',
     ctr_Mounts = [\<lparr>Type = ''bind'', Source = ''/data'', Destination = ''/srv'', Options = []\<rparr>],
     ctr_Services = []\<rparr>"

definition web_cfg2 :: v1_Container where
  "web_cfg2 = web_cfg\<lparr>ctr_Image := ''r/nginx:2''\<rparr>"

definition logs_cfg :: v1_Container where
  "logs_cfg = web_cfg\<lparr>ctr_Mounts :=
     [\<lparr>Type = ''bind'', Source = ''/gone'', Destination = ''/old'', Options = []\<rparr>,
      \<lparr>Type = ''bind'', Source = ''/logs'', Destination = ''/var/log'', Options = []\<rparr>]\<rparr>"

definition dec :: "Any \<Rightarrow> error + decoded" where
  "dec a =
     (if a = enc web_cfg then Inr (D_Container web_cfg)
      else if a = enc web_cfg2 then Inr (D_Container web_cfg2)
      else if a = enc logs_cfg then Inr (D_Container logs_cfg)
      else Inl (Failure ''proto: cannot parse''))"

definition no_file :: source_view where
  "no_file = \<lparr>open_r = Some (Failure ''no such file or directory''),
     stat_r = Inl (Failure ''no such file or directory''),
     tree = NoStat (Failure ''no such file or directory'')\<rparr>"

definition node0 :: world where
  "node0 = \<lparr>fault = (\<lambda>_. None),
     kv = \<lparr>strings = Map.empty, sets = Map.empty, Do_err = (\<lambda>_. None)\<rparr>,
     MarshalAny = (\<lambda>c. Inr (enc c)),
     UnmarshalAny = dec,
     WithNewSpec_err = (\<lambda>_ _ _. None),
     flux_WithNewSnapshot =
       (\<lambda>img c. Inr (c\<lparr>c_Image := img, c_Snapshotter := ''overlayfs'', c_SnapshotKey := c_ID c\<rparr>)),
     flux_WithRollback = Inr,
     opts_WithRestore = (\<lambda>d. Inr),
     containers = [],
     tasks = Map.empty,
     usage = Map.empty,
     snapshots = [],
     fs = (\<lambda>_. no_file),
     images = Map.empty,
     blobs = [],
     blob_size = (\<lambda>_. 0),
     registry = Map.empty,
     checkpoint_descs = [],
     remote_has = (\<lambda>_. False),
     exits_in_time = (\<lambda>_. True),
     GOOS = ''linux'',
     GOARCH = ''amd64'',
     trace = []\<rparr>"

text \<open>
  \<open>web_rec\<close> is the record of a container \<open>web\<close> created from \<open>web_cfg\<close>, whose only
  mount is the host directory \<^verbatim>\<open>/data\<close>. On \<open>node_web\<close> that directory holds a file
  \<open>a\<close> of five bytes and a subdirectory \<open>secret\<close> whose names cannot be read for lack
  of permission.
\<close>

definition web_rec :: containers_Container where
  "web_rec = \<lparr>c_ID = ''web'', c_Labels = Map.empty, c_Image = ''r/nginx:1'',
     c_Snapshotter = ''overlayfs'', c_SnapshotKey = ''web'',
     c_Spec = Some (Spec '''' web_cfg ''r/nginx:1''),
     c_Extensions = Some [CurrentConfig \<mapsto> enc web_cfg]\<rparr>"



text \<open>
  On \<open>node_logs\<close> the container \<open>web\<close> has the configuration \<open>logs_cfg\<close> with two
  mounts: \<^verbatim>\<open>/gone\<close>, which cannot be opened, and \<^verbatim>\<open>/logs\<close>, a directory that holds a
  file of five bytes and a subdirectory with a file of seven. A second container \<open>bad\<close>
  has a configuration extension that does not decode.
\<close>

definition logs_rec :: containers_Container where
  "logs_rec = web_rec\<lparr>c_Spec := Some (Spec '''' logs_cfg ''r/nginx:1''),
     c_Extensions := Some [CurrentConfig \<mapsto> enc logs_cfg]\<rparr>"

definition bad_rec :: containers_Container where
  "bad_rec = web_rec\<lparr>c_ID := ''bad'', c_SnapshotKey := ''bad'',
     c_Extensions := Some [CurrentConfig \<mapsto>
       \<lparr>TypeUrl = ''types.boss.io/v1.Container'', Value = Some ''garbage''\<rparr>]\<rparr>"

definition logs_dir :: source_view where
  "logs_dir = \<lparr>open_r = None, stat_r = Inr (True, 4096),
     tree = Folder None [(''a'', Leaf 5), (''sub'', Folder None [(''b'', Leaf 7)])]\<rparr>"

definition node_logs :: world where
  "node_logs = node0\<lparr>containers := [(''web'', logs_rec), (''bad'', bad_rec)],
     usage := [''web'' \<mapsto> 100, ''bad'' \<mapsto> 100],
     fs := (\<lambda>p. if p = ''/logs'' then logs_dir else no_file)\<rparr>"

section \<open>Calls that change the node\<close>

text \<open>
  A call that changes nothing the agent reads back: it fails with its fault, or it goes
  through and its effects are recorded.
\<close>

definition step :: "call \<Rightarrow> effect list \<Rightarrow> world \<Rightarrow> error option \<times> world" where
  "step c efs w =
     (case fault w c of
        Some e \<Rightarrow> (Some e, w)
      | None \<Rightarrow> (None, w\<lparr>trace := trace w @ efs\<rparr>))"

text \<open>
  Container options are applied in order; the first error ends the list.
\<close>

fun apply_opts ::
  "(containers_Container \<Rightarrow> error + containers_Container) list \<Rightarrow> containers_Container
     \<Rightarrow> error + containers_Container" where
  "apply_opts [] r = Inr r"
| "apply_opts (opt # rest) r =
     (case opt r of
        Inl e \<Rightarrow> Inl e
      | Inr r' \<Rightarrow> apply_opts rest r')"

text \<open>
  \<^verbatim>\<open>container.Update\<close> of the runtime's client: the record is fetched, the options
  are applied to it, and the record is stored.
\<close>

definition container_Update ::
  "world \<Rightarrow> string \<Rightarrow> (containers_Container \<Rightarrow> error + containers_Container) list
     \<Rightarrow> error option \<times> world" where
  "container_Update w cid opts =
     (case Info w cid of
        Inl e \<Rightarrow> (Some e, w)
      | Inr r \<Rightarrow>
          (case apply_opts opts r of
             Inl e \<Rightarrow> (Some e, w)
           | Inr r' \<Rightarrow>
               (case fault w (Update_c cid) of
                  Some e \<Rightarrow> (Some e, w)
                | None \<Rightarrow> (None, w\<lparr>containers := AList.update cid r' (containers w)\<rparr>))))"

text \<open>
  \<^verbatim>\<open>client.NewContainer\<close>: the options are applied to a fresh record with the id, and
  the record is created unless the id is taken. \<^verbatim>\<open>container.Delete\<close>: a container
  with a running task is not deleted.
\<close>

definition new_record :: "string \<Rightarrow> containers_Container" where
  "new_record cid = \<lparr>c_ID = cid, c_Labels = Map.empty, c_Image = '''', c_Snapshotter = '''',
     c_SnapshotKey = '''', c_Spec = None, c_Extensions = None\<rparr>"

definition NewContainer ::
  "world \<Rightarrow> string \<Rightarrow> (containers_Container \<Rightarrow> error + containers_Container) list
     \<Rightarrow> (error + string) \<times> world" where
  "NewContainer w cid opts =
     (case apply_opts opts (new_record cid) of
        Inl e \<Rightarrow> (Inl e, w)
      | Inr r \<Rightarrow>
          (case fault w (NewContainer_c cid) of
             Some e \<Rightarrow> (Inl e, w)
           | None \<Rightarrow>
               if map_of (containers w) cid \<noteq> None then (Inl (ErrAlreadyExists cid), w)
               else (Inr cid, w\<lparr>containers := containers w @ [(cid, r)]\<rparr>)))"

definition container_Delete :: "world \<Rightarrow> string \<Rightarrow> cleanup \<Rightarrow> error option \<times> world" where
  "container_Delete w cid cl =
     (case fault w (Delete_c cid) of
        Some e \<Rightarrow> (Some e, w)
      | None \<Rightarrow>
          if tasks w cid \<noteq> None
            then (Some (Failure ''cannot delete running task''), w)
          else if map_of (containers w) cid = None then (Some ErrNotFound, w)
          else (None, w\<lparr>containers := AList.delete cid (containers w),
                         trace := trace w @ [ContainerDeleted cid cl]\<rparr>))"

text \<open>
  The content store and the image service. \<^verbatim>\<open>writeContent\<close> opens a writer for the
  ref, copies the bytes and commits; each of the three can fail, with the same outcome
  for the caller, and they share one fault.
\<close>

definition writeContent ::
  "world \<Rightarrow> string \<Rightarrow> string \<Rightarrow> blob \<Rightarrow> (error + Descriptor) \<times> world" where
  "writeContent w mediaType ref b =
     (case fault w (Writer_c ref) of
        Some e \<Rightarrow> (Inl e, w)
      | None \<Rightarrow>
          (Inr \<lparr>d_MediaType = mediaType, d_Digest = length (blobs w),
                d_Size = blob_size w b, d_Platform = None\<rparr>,
           w\<lparr>blobs := blobs w @ [b]\<rparr>))"

definition ImageCreate :: "world \<Rightarrow> string \<Rightarrow> Descriptor \<Rightarrow> error option \<times> world" where
  "ImageCreate w name target =
     (case fault w (ImageCreate_c name) of
        Some e \<Rightarrow> (Some e, w)
      | None \<Rightarrow>
          if images w name \<noteq> None then (Some (ErrAlreadyExists name), w)
          else (None, w\<lparr>images := (images w)(name \<mapsto> target)\<rparr>))"

definition ImageDelete :: "world \<Rightarrow> string \<Rightarrow> error option \<times> world" where
  "ImageDelete w name =
     (case fault w (ImageDelete_c name) of
        Some e \<Rightarrow> (Some e, w)
      | None \<Rightarrow>
          if images w name = None then (Some ErrNotFound, w)
          else (None, w\<lparr>images := (images w)(name := None),
                         trace := trace w @ [ImageDeleted name]\<rparr>))"

text \<open>
  \<^verbatim>\<open>rootfs.CreateDiff\<close> with the options \<^verbatim>\<open>diff.WithReference\<close> and
  \<^verbatim>\<open>diff.WithMediaType\<close>: the runtime's diff service compares the snapshot with its
  parent, writes the diff to the content store, and labels the descriptor it returns
  with the media type it was asked for; it knows the tar layer and the gzip tar layer.
\<close>

definition CreateDiff ::
  "world \<Rightarrow> string \<Rightarrow> string \<Rightarrow> string \<Rightarrow> (error + Descriptor) \<times> world" where
  "CreateDiff w snapshotKey ref mediaType =
     (case fault w (CreateDiff_c snapshotKey) of
        Some e \<Rightarrow> (Inl e, w)
      | None \<Rightarrow>
          if mediaType \<noteq> MediaTypeImageLayer \<and> mediaType \<noteq> MediaTypeImageLayerGzip
            then (Inl (Failure ''unsupported diff media type''), w)
          else (Inr \<lparr>d_MediaType = mediaType, d_Digest = length (blobs w),
                     d_Size = blob_size w (BlobDiff snapshotKey), d_Platform = None\<rparr>,
                w\<lparr>blobs := blobs w @ [BlobDiff snapshotKey]\<rparr>))"

text \<open>
  \<^verbatim>\<open>client.Pull\<close>, \<^verbatim>\<open>client.Push\<close> and \<^verbatim>\<open>client.Fetch\<close> with the option
  \<^verbatim>\<open>withPlainRemote\<close>: the option runs first and its error is the call's error; the
  effect records whether the resolver was set to plain HTTP. An image is known by its
  name. A fetch records the image it resolved in the image service; its content is taken
  to be in the content store under the same digests.
\<close>

definition Pull :: "world \<Rightarrow> string \<Rightarrow> (error + string) \<times> world" where
  "Pull w ref =
     (case withPlainRemote (kv w) ref of
        Inl e \<Rightarrow> (Inl e, w)
      | Inr plain \<Rightarrow>
          (case step (Pull_c ref) [Pulled ref plain] w of
             (Some e, w') \<Rightarrow> (Inl e, w')
           | (None, w') \<Rightarrow> (Inr ref, w')))"

definition client_Push :: "world \<Rightarrow> string \<Rightarrow> Descriptor \<Rightarrow> error option \<times> world" where
  "client_Push w ref target =
     (case withPlainRemote (kv w) ref of
        Inl e \<Rightarrow> (Some e, w)
      | Inr plain \<Rightarrow>
          (case step (Push_c ref) [Pushed ref plain] w of
             (Some e, w') \<Rightarrow> (Some e, w')
           | (None, w') \<Rightarrow> (None, w'\<lparr>registry := (registry w')(ref \<mapsto> target)\<rparr>)))"

definition Fetch :: "world \<Rightarrow> string \<Rightarrow> (error + Descriptor) \<times> world" where
  "Fetch w ref =
     (case withPlainRemote (kv w) ref of
        Inl e \<Rightarrow> (Inl e, w)
      | Inr plain \<Rightarrow>
          (case registry w ref of
             None \<Rightarrow> (Inl ErrNotFound, w)
           | Some d \<Rightarrow>
               (case step (Fetch_c ref) [Fetched ref plain] w of
                  (Some e, w') \<Rightarrow> (Inl e, w')
                | (None, w') \<Rightarrow> (Inr d, w'\<lparr>images := (images w')(ref \<mapsto> d)\<rparr>))))"

text \<open>
  Modelled from the spec: \<^verbatim>\<open>pauseAndRun\<close> is defined in a file of the agent package
  that is not among the sources. The spec: pause the container (a no-op if it has no
  task), run the body; on any error abort without unpause; otherwise unpause.
\<close>

definition pauseAndRun ::
  "world \<Rightarrow> string \<Rightarrow> (world \<Rightarrow> error option \<times> world) \<Rightarrow> error option \<times> world" where
  "pauseAndRun w cid fn =
     (case Task w cid of
        Inl e \<Rightarrow> fn w
      | Inr t \<Rightarrow>
          (case step (Pause_c cid) [Paused cid] w of
             (Some e, w1) \<Rightarrow> (Some e, w1)
           | (None, w1) \<Rightarrow>
               (case fn w1 of
                  (Some e, w2) \<Rightarrow> (Some e, w2)
                | (None, w2) \<Rightarrow> (None, snd (step (Resume_c cid) [Resumed cid] w2)))))"

text \<open>
  \<^verbatim>\<open>defer done(ctx)\<close>: the lease is released when the handler returns, on every
  path after the lease was taken.
\<close>

definition release :: "'a \<times> world \<Rightarrow> 'a \<times> world" where
  "release rw = (fst rw, did LeaseReleased (snd rw))"

section \<open>\<^verbatim>\<open>Update\<close>, \<^verbatim>\<open>Rollback\<close> and \<^verbatim>\<open>Create\<close>\<close>

text \<open>
  Modelled from the spec: the four changes of the update pipeline and their
  \<^verbatim>\<open>update\<close> methods are defined in a file of the agent package that is not among
  the sources; \<^verbatim>\<open>Update\<close> builds them with the fields kept here. The spec (4.3):
  service deregistration deregisters the service; image update pulls the desired image
  ref with the plain-HTTP opt-in of the store; config swap writes the new config as
  \<open>CurrentConfig\<close>, preserving the old one as \<open>LastConfig\<close>, and regenerates the
  runtime spec (the option builders \<^verbatim>\<open>WithSetPreviousConfig\<close> and
  \<^verbatim>\<open>WithBossConfig\<close> of the sources, in this order); files rewrite writes the
  configuration through the configuration store.
\<close>

datatype change =
    deregisterChange string
  | imageUpdateChange string
  | configChange v1_Container string
  | filesChange v1_Container

definition change_update :: "change \<Rightarrow> string \<Rightarrow> world \<Rightarrow> error option \<times> world" where
  "change_update ch cid w =
     (case ch of
        deregisterChange name \<Rightarrow> step (Deregister_c cid name) [Deregistered cid name] w
      | imageUpdateChange ref \<Rightarrow>
          (case Pull w ref of
             (Inl e, w') \<Rightarrow> (Some e, w')
           | (Inr img, w') \<Rightarrow> (None, w'))
      | configChange c volumeRoot \<Rightarrow>
          container_Update w cid
            [WithSetPreviousConfig, WithBossConfig w volumeRoot c (ctr_Image c)]
      | filesChange c \<Rightarrow> step (StoreWrite_c (ctr_ID c)) [ConfigWritten (ctr_ID c)] w)"

text \<open>
  The loops of \<^verbatim>\<open>Update\<close>: every current service is put into maintenance, and an
  error of the registry is logged and dropped (lines 444 to 448); the changes run in
  order and the first error ends them (lines 496 to 500).
\<close>

fun maintenance_loop :: "string \<Rightarrow> string \<Rightarrow> string list \<Rightarrow> world \<Rightarrow> world" where
  "maintenance_loop cid reason [] w = w"
| "maintenance_loop cid reason (name # names) w =
     maintenance_loop cid reason names
       (snd (step (EnableMaintainance_c cid name) [Maintenance cid name reason] w))"

fun changes_loop :: "change list \<Rightarrow> string \<Rightarrow> world \<Rightarrow> error option \<times> world" where
  "changes_loop [] cid w = (None, w)"
| "changes_loop (ch # chs) cid w =
     (case change_update ch cid w of
        (Some e, w') \<Rightarrow> (Some e, w')
      | (None, w') \<Rightarrow> changes_loop chs cid w')"

definition Update_changes :: "v1_Container \<Rightarrow> v1_Container \<Rightarrow> string \<Rightarrow> change list" where
  "Update_changes current c volumeRoot =
     map deregisterChange (filter (\<lambda>name. name \<notin> set (ctr_Services c)) (ctr_Services current))
     @ [imageUpdateChange (ctr_Image c), configChange c volumeRoot, filesChange c]"

text \<open>
  \<^verbatim>\<open>task.Kill\<close>.
\<close>

definition Kill :: "string \<Rightarrow> signal \<Rightarrow> world \<Rightarrow> error option \<times> world" where
  "Kill cid sig w = step (Kill_c cid sig) [Signalled cid sig] w"

text \<open>
  The body that \<^verbatim>\<open>Update\<close> runs under pause (lines 495 to 505): the changes, then
  \<^verbatim>\<open>SIGTERM\<close> to the task if there is one.
\<close>

definition Update_body :: "change list \<Rightarrow> string \<Rightarrow> bool \<Rightarrow> world \<Rightarrow> error option \<times> world" where
  "Update_body changes cid has_task w =
     (case changes_loop changes cid w of
        (Some e, w') \<Rightarrow> (Some e, w')
      | (None, w') \<Rightarrow> if \<not> has_task then (None, w') else Kill cid SIGTERM w')"

text \<open>
  The wait of \<^verbatim>\<open>Update\<close> (lines 486 to 494 and 509 to 520). Without a task the exit
  channel is made and closed before the \<^verbatim>\<open>select\<close>, which takes it at once, and the
  update has succeeded. With a task the \<^verbatim>\<open>select\<close> takes the exit of the task when
  it comes within the ten seconds, and the timeout otherwise; on the timeout the task is
  sent \<^verbatim>\<open>SIGKILL\<close> and the error of that call is the error of \<^verbatim>\<open>Update\<close>.
\<close>

definition Update_wait :: "string \<Rightarrow> bool \<Rightarrow> world \<Rightarrow> (error + unit) \<times> world" where
  "Update_wait cid has_task w =
     (if \<not> has_task then (Inr (), w)
      else if exits_in_time w cid then (Inr (), w)
      else (case Kill cid SIGKILL w of
              (Some e, w') \<Rightarrow> (Inl e, w')
            | (None, w') \<Rightarrow> (Inr (), w')))"

text \<open>
  \<^verbatim>\<open>Update\<close> from the lookup of the task on (lines 478 to 521).
\<close>

definition Update_run :: "change list \<Rightarrow> string \<Rightarrow> world \<Rightarrow> (error + unit) \<times> world" where
  "Update_run changes cid w =
     (case Task w cid of
        Inl e \<Rightarrow>
          if \<not> IsNotFound e then (Inl e, w)
          else (case pauseAndRun w cid (Update_body changes cid False) of
                  (Some e', w') \<Rightarrow> (Inl e', w')
                | (None, w') \<Rightarrow> Update_wait cid False w')
      | Inr t \<Rightarrow>
          (case fault w (Wait_c cid) of
             Some e \<Rightarrow> (Inl e, w)
           | None \<Rightarrow>
               (case pauseAndRun w cid (Update_body changes cid True) of
                  (Some e', w') \<Rightarrow> (Inl e', w')
                | (None, w') \<Rightarrow> Update_wait cid True w')))"

definition Update_leased :: "v1_Container \<Rightarrow> world \<Rightarrow> (error + unit) \<times> world" where
  "Update_leased c w =
     (case LoadContainer w (ctr_ID c) of
        Inl e \<Rightarrow> (Inl e, w)
      | Inr cid \<Rightarrow>
          (case GetConfig w cid of
             Inl e \<Rightarrow> (Inl e, w)
           | Inr current \<Rightarrow>
               (let w1 = maintenance_loop cid ''update container configuration''
                           (ctr_Services current) w in
                case volumeRoot_read (kv w1) of
                  Inl e \<Rightarrow> (Inl e, w1)
                | Inr volumeRoot \<Rightarrow>
                    Update_run (Update_changes current c volumeRoot) cid w1)))"

definition Update :: "v1_Container \<Rightarrow> world \<Rightarrow> (error + unit) \<times> world" where
  "Update c w =
     (case fault w WithLease_c of
        Some e \<Rightarrow> (Inl e, w)
      | None \<Rightarrow> release (Update_leased c w))"

text \<open>
  \<^verbatim>\<open>Rollback\<close>: under pause, the record is updated with the rollback options of the
  snapshot package and of the option builders, then the task is sent \<^verbatim>\<open>SIGTERM\<close>.
\<close>

definition Rollback_body :: "string \<Rightarrow> world \<Rightarrow> error option \<times> world" where
  "Rollback_body cid w =
     (case container_Update w cid [flux_WithRollback w, WithRollback] of
        (Some e, w') \<Rightarrow> (Some e, w')
      | (None, w') \<Rightarrow>
          (case Task w' cid of
             Inl e \<Rightarrow> (Some e, w')
           | Inr t \<Rightarrow> Kill cid SIGTERM w'))"

definition Rollback :: "string \<Rightarrow> world \<Rightarrow> (error + unit) \<times> world" where
  "Rollback rid w =
     (if rid = '''' then (Inl ErrNoID, w)
      else (case fault w WithLease_c of
              Some e \<Rightarrow> (Inl e, w)
            | None \<Rightarrow>
                release
                  (case LoadContainer w rid of
                     Inl e \<Rightarrow> (Inl e, w)
                   | Inr cid \<Rightarrow>
                       (case pauseAndRun w cid (Rollback_body cid) of
                          (Some e, w') \<Rightarrow> (Inl e, w')
                        | (None, w') \<Rightarrow> (Inr (), w')))))"

text \<open>
  \<^verbatim>\<open>Create\<close>. The request holds the configuration and the \<open>update\<close> flag.
  \<open>Create_with\<close> is the function from the creation of the container on (lines 197 to
  215), with the volume root that was read.
\<close>

definition Create_with ::
  "string \<Rightarrow> v1_Container \<Rightarrow> string \<Rightarrow> world \<Rightarrow> (error + unit) \<times> world" where
  "Create_with volumeRoot c img w =
     (case NewContainer w (ctr_ID c)
             [flux_WithNewSnapshot w img, WithBossConfig w volumeRoot c img] of
        (Inl e, w1) \<Rightarrow> (Inl e, w1)
      | (Inr cid, w1) \<Rightarrow>
          (case step (StoreWrite_c (ctr_ID c)) [ConfigWritten (ctr_ID c)] w1 of
             (Some e, w2) \<Rightarrow> (Inl e, snd (container_Delete w2 cid WithSnapshotCleanup))
           | (None, w2) \<Rightarrow>
               (case step (Enable_c cid) [UnitEnabled cid] w2 of
                  (Some e, w3) \<Rightarrow> (Inl e, w3)
                | (None, w3) \<Rightarrow>
                    (case step (Start_c cid) [UnitStarted cid] w3 of
                       (Some e, w4) \<Rightarrow> (Inl e, w4)
                     | (None, w4) \<Rightarrow> (Inr (), w4)))))"

definition Create_new :: "v1_Container \<Rightarrow> string \<Rightarrow> world \<Rightarrow> (error + unit) \<times> world" where
  "Create_new c img w =
     (case volumeRoot_read (kv w) of
        Inl e \<Rightarrow> (Inl e, w)
      | Inr volumeRoot \<Rightarrow> Create_with volumeRoot c img w)"

definition Create :: "v1_Container \<Rightarrow> bool \<Rightarrow> world \<Rightarrow> (error + unit) \<times> world" where
  "Create c upd w =
     (case Pull w (ctr_Image c) of
        (Inl e, w1) \<Rightarrow> (Inl e, w1)
      | (Inr img, w1) \<Rightarrow>
          (case LoadContainer w1 (ctr_ID c) of
             Inr cid \<Rightarrow>
               if \<not> upd then (Inl (ErrAlreadyExists (ctr_ID c)), w1)
               else Update c w1
           | Inl e \<Rightarrow> Create_new c img w1))"

section \<open>Example node with a running task\<close>

text \<open>
  On \<open>node_run\<close> the container \<open>web\<close> has a running task that does not exit within
  the ten seconds of an update, and its mount source is a plain readable directory.
  \<open>node_stuck\<close> is the same node on which the runtime fails to deliver \<^verbatim>\<open>SIGKILL\<close>
  to that task. \<open>web_rec2\<close> is the record of \<open>web\<close> once it was updated from
  \<open>web_cfg\<close> to \<open>web_cfg2\<close>, and \<open>node_updated\<close> the node with that record.
\<close>

definition node_run :: world where
  "node_run = node0\<lparr>containers := [(''web'', web_rec)], usage := [''web'' \<mapsto> 100],
     tasks := [''web'' \<mapsto> \<lparr>task_Status = ''running'', task_Metrics = zero_Any\<rparr>],
     exits_in_time := (\<lambda>_. False)\<rparr>"

definition node_stuck :: world where
  "node_stuck = node_run\<lparr>fault :=
     (\<lambda>c. if c = Kill_c ''web'' SIGKILL then Some (Failure ''task: kill failed'') else None)\<rparr>"

definition web_rec2 :: containers_Container where
  "web_rec2 = web_rec\<lparr>c_Spec := Some (Spec '''' web_cfg2 ''r/nginx:2''),
     c_Extensions := Some [CurrentConfig \<mapsto> enc web_cfg2, LastConfig \<mapsto> enc web_cfg]\<rparr>"

definition node_updated :: world where
  "node_updated = node_run\<lparr>containers := [(''web'', web_rec2)]\<rparr>"

section \<open>Example nodes with a store\<close>

text \<open>
  On \<open>node_keys\<close> the store holds the volume root \<^verbatim>\<open>/vol\<close> and the plain remote
  \<open>r\<close>. On \<open>node_get_down\<close> every \<^verbatim>\<open>GET\<close> fails on the connection and every other
  command goes through; on \<open>node_store_down\<close> every command fails on the connection.
\<close>

definition node_keys :: world where
  "node_keys = node0\<lparr>kv := \<lparr>strings = [VolumeRootKey \<mapsto> ''/vol''],
     sets = [PlainRemotesKey \<mapsto> {''r''}], Do_err = (\<lambda>_. None)\<rparr>\<rparr>"

definition node_get_down :: world where
  "node_get_down = node0\<lparr>kv := \<lparr>strings = Map.empty, sets = Map.empty,
     Do_err = (\<lambda>cmd. case cmd of
                 GET k \<Rightarrow> Some (Failure ''dial tcp 127.0.0.1:9000: connection refused'')
               | SISMEMBER k m \<Rightarrow> None)\<rparr>\<rparr>"

definition node_store_down :: world where
  "node_store_down = node0\<lparr>kv := \<lparr>strings = Map.empty, sets = Map.empty,
     Do_err = (\<lambda>_. Some (Failure ''dial tcp 127.0.0.1:9000: connection refused''))\<rparr>\<rparr>"

section \<open>Example node with task metrics\<close>

text \<open>
  On \<open>node_cg\<close> the runtime holds the container \<open>bad\<close>, whose configuration extension
  does not decode, and then the container \<open>web\<close>, which has a running task. The host
  has no memory controller: the metrics of the task decode to \<open>metrics_no_memory\<close>,
  which hold the CPU and the pids part and no memory part.
\<close>

definition stats_any :: Any where
  "stats_any = \<lparr>TypeUrl = ''io.containerd.cgroups.v1.Metrics'', Value = Some ''stats''\<rparr>"

definition metrics_no_memory :: cg_Metrics where
  "metrics_no_memory =
     \<lparr>cg_CPU = Some \<lparr>cpu_Usage = Some \<lparr>usage_Total = 7\<rparr>\<rparr>,
      cg_Memory = None,
      cg_Pids = Some \<lparr>pids_Current = 3, pids_Limit = 0\<rparr>\<rparr>"

definition node_cg :: world where
  "node_cg = node0\<lparr>containers := [(''bad'', bad_rec), (''web'', web_rec)],
     usage := [''web'' \<mapsto> 100, ''bad'' \<mapsto> 100],
     fs := (\<lambda>p. if p = ''/data'' then logs_dir else no_file),
     tasks := [''web'' \<mapsto> \<lparr>task_Status = ''running'', task_Metrics = stats_any\<rparr>],
     UnmarshalAny := (\<lambda>a. if a = stats_any then Inr (D_Metrics metrics_no_memory) else dec a)\<rparr>"

section \<open>\<^verbatim>\<open>Checkpoint\<close>, \<^verbatim>\<open>Restore\<close>, \<^verbatim>\<open>Push\<close>, \<^verbatim>\<open>Delete\<close> and \<^verbatim>\<open>Migrate\<close>\<close>

text \<open>
  Modelled from the spec: \<^verbatim>\<open>pauseAndRun\<close> again, which is not among the sources, for
  a body that writes to a variable of its caller, as the body of \<^verbatim>\<open>Checkpoint\<close>
  appends to the manifests of the index: the value of the variable goes in and comes out.
\<close>

definition pauseAndRun_capture ::
  "world \<Rightarrow> string \<Rightarrow> 'v \<Rightarrow> ('v \<Rightarrow> world \<Rightarrow> error option \<times> 'v \<times> world)
     \<Rightarrow> error option \<times> 'v \<times> world" where
  "pauseAndRun_capture w cid v fn =
     (case Task w cid of
        Inl e \<Rightarrow> fn v w
      | Inr t \<Rightarrow>
          (case step (Pause_c cid) [Paused cid] w of
             (Some e, w1) \<Rightarrow> (Some e, v, w1)
           | (None, w1) \<Rightarrow>
               (case fn v w1 of
                  (Some e, v', w2) \<Rightarrow> (Some e, v', w2)
                | (None, v', w2) \<Rightarrow>
                    (None, v', snd (step (Resume_c cid) [Resumed cid] w2)))))"

text \<open>
  \<^verbatim>\<open>systemd.Stop\<close>: the unit of the container is stopped, which ends its task.
\<close>

definition systemd_Stop :: "world \<Rightarrow> string \<Rightarrow> error option \<times> world" where
  "systemd_Stop w cid =
     (case fault w (Stop_c cid) of
        Some e \<Rightarrow> (Some e, w)
      | None \<Rightarrow> (None, w\<lparr>tasks := (tasks w)(cid := None),
                           trace := trace w @ [UnitStopped cid]\<rparr>))"

subsection \<open>\<^verbatim>\<open>Checkpoint\<close>\<close>

record CheckpointRequest =
  ck_ID :: string
  ck_Ref :: string
  ck_Live :: bool
  ck_Exit :: bool

definition host_platform :: "world \<Rightarrow> Platform option" where
  "host_platform w = Some \<lparr>OS = GOOS w, Architecture = GOARCH w\<rparr>"

text \<open>
  The loop over the descriptors of a task checkpoint (lines 659 to 673): the descriptor
  of the checkpoint configuration is passed over, every other one is appended with the
  platform of the host.
\<close>

fun task_descriptors ::
  "Descriptor list \<Rightarrow> Platform option \<Rightarrow> Descriptor list \<Rightarrow> Descriptor list" where
  "task_descriptors [] p manifests = manifests"
| "task_descriptors (d # ds) p manifests =
     (if d_MediaType d = MediaTypeContainerd1CheckpointConfig
      then task_descriptors ds p manifests
      else task_descriptors ds p
             (manifests @ [\<lparr>d_MediaType = d_MediaType d, d_Digest = d_Digest d,
                             d_Size = d_Size d, d_Platform = p\<rparr>]))"

text \<open>
  The body that \<^verbatim>\<open>Checkpoint\<close> runs under pause (lines 631 to 675). The diff of the
  read-write layer is asked for with the reference \<^verbatim>\<open>checkpoint-rw-<snapshot key>\<close> and
  the media type \<^verbatim>\<open>is.MediaTypeImageLayer\<close>.
\<close>

definition Checkpoint_body ::
  "CheckpointRequest \<Rightarrow> containers_Container \<Rightarrow> Descriptor list \<Rightarrow> world
     \<Rightarrow> error option \<times> Descriptor list \<times> world" where
  "Checkpoint_body req ci manifests w =
     (case CreateDiff w (c_SnapshotKey ci) (''checkpoint-rw-'' @ c_SnapshotKey ci)
             MediaTypeImageLayer of
        (Inl e, w1) \<Rightarrow> (Some e, manifests, w1)
      | (Inr rw, w1) \<Rightarrow>
          (let manifests1 = manifests @ [rw\<lparr>d_Platform := host_platform w1\<rparr>] in
           if \<not> ck_Live req then (None, manifests1, w1)
           else (case step (Checkpoint_c (ck_ID req))
                        [TaskCheckpointed (ck_ID req) (ck_Exit req)] w1 of
                   (Some e, w2) \<Rightarrow> (Some e, manifests1, w2)
                 | (None, w2) \<Rightarrow>
                     (None, task_descriptors (checkpoint_descs w2) (host_platform w2) manifests1,
                      w2))))"

text \<open>
  \<^verbatim>\<open>writeIndex\<close>: the index is marshalled and written with the media type of an
  image index; the labels that keep its children from garbage collection are left out.
\<close>

definition writeIndex :: "world \<Rightarrow> Index \<Rightarrow> string \<Rightarrow> (error + Descriptor) \<times> world" where
  "writeIndex w index ref =
     (case fault w (Marshal_c ''index'') of
        Some e \<Rightarrow> (Inl e, w)
      | None \<Rightarrow> writeContent w MediaTypeImageIndex ref (BlobIndex index))"

text \<open>
  The end of \<^verbatim>\<open>Checkpoint\<close> (lines 680 to 695): the index is written, the image is
  created under the ref of the request, and the unit is stopped if the request says so.
\<close>

definition Checkpoint_image ::
  "CheckpointRequest \<Rightarrow> Descriptor list \<Rightarrow> world \<Rightarrow> (error + unit) \<times> world" where
  "Checkpoint_image req manifests w =
     (case writeIndex w \<lparr>SchemaVersion = 2, Manifests = manifests, Annotations = []\<rparr>
             (ck_ID req @ ''index'') of
        (Inl e, w1) \<Rightarrow> (Inl e, w1)
      | (Inr desc, w1) \<Rightarrow>
          (case ImageCreate w1 (ck_Ref req) desc of
             (Some e, w2) \<Rightarrow> (Inl e, w2)
           | (None, w2) \<Rightarrow>
               if \<not> ck_Exit req then (Inr (), w2)
               else (case systemd_Stop w2 (ck_ID req) of
                       (Some e, w3) \<Rightarrow> (Inl (Wrap ''stop service'' e), w3)
                     | (None, w3) \<Rightarrow> (Inr (), w3))))"

text \<open>
  \<^verbatim>\<open>Checkpoint\<close> under its lease (lines 590 to 679): the record of the container is
  written as the first manifest, the options of the task checkpoint are marshalled, and
  the body runs under pause.
\<close>

definition Checkpoint_leased :: "CheckpointRequest \<Rightarrow> world \<Rightarrow> (error + unit) \<times> world" where
  "Checkpoint_leased req w =
     (case LoadContainer w (ck_ID req) of
        Inl e \<Rightarrow> (Inl e, w)
      | Inr cid \<Rightarrow>
     (case Info w cid of
        Inl e \<Rightarrow> (Inl e, w)
      | Inr ci \<Rightarrow>
     (case fault w (Marshal_c ''info'') of
        Some e \<Rightarrow> (Inl e, w)
      | None \<Rightarrow>
     (case writeContent w MediaTypeContainerInfo (ck_ID req @ ''-container-info'')
             (BlobInfo ci) of
        (Inl e, w1) \<Rightarrow> (Inl e, w1)
      | (Inr desc, w1) \<Rightarrow>
     (case fault w1 (Marshal_c ''options'') of
        Some e \<Rightarrow> (Inl e, w1)
      | None \<Rightarrow>
     (case pauseAndRun_capture w1 cid [desc\<lparr>d_Platform := host_platform w1\<rparr>]
             (Checkpoint_body req ci) of
        (Some e, manifests, w2) \<Rightarrow> (Inl e, w2)
      | (None, manifests, w2) \<Rightarrow> Checkpoint_image req manifests w2))))))"

definition Checkpoint :: "CheckpointRequest \<Rightarrow> world \<Rightarrow> (error + unit) \<times> world" where
  "Checkpoint req w =
     (if ck_ID req = '''' then (Inl ErrNoID, w)
      else (case fault w WithLease_c of
              Some e \<Rightarrow> (Inl e, w)
            | None \<Rightarrow> release (Checkpoint_leased req w)))"

subsection \<open>\<^verbatim>\<open>Restore\<close>\<close>

record RestoreRequest =
  rs_Ref :: string
  rs_Live :: bool

text \<open>
  \<^verbatim>\<open>json.Unmarshal\<close> of a blob into an index and into a container record. JSON of
  the other kind is an object without the fields asked for and gives the zero value; the
  bytes of a diff, and other bytes, are taken not to be JSON.
\<close>

definition not_json :: error where
  "not_json = Failure ''invalid character looking for beginning of value''"

definition json_Index :: "blob \<Rightarrow> error + Index" where
  "json_Index b =
     (case b of
        BlobIndex index \<Rightarrow> Inr index
      | BlobInfo ci \<Rightarrow> Inr \<lparr>SchemaVersion = 0, Manifests = [], Annotations = []\<rparr>
      | _ \<Rightarrow> Inl not_json)"

definition json_Container :: "blob \<Rightarrow> error + containers_Container" where
  "json_Container b =
     (case b of
        BlobInfo ci \<Rightarrow> Inr ci
      | BlobIndex index \<Rightarrow> Inr (new_record '''')
      | _ \<Rightarrow> Inl not_json)"

definition decodeIndex :: "world \<Rightarrow> Descriptor \<Rightarrow> error + Index" where
  "decodeIndex w desc =
     (case ReadBlob w desc of
        Inl e \<Rightarrow> Inl e
      | Inr p \<Rightarrow> json_Index p)"

text \<open>
  Modelled from the spec: \<^verbatim>\<open>opts.GetConfigFromInfo\<close> is not in the file of the option
  builders that is among the sources. The spec (4.6): the container record is
  reconstructed from the blob and the boss config is recovered from its extension.
\<close>

definition GetConfigFromInfo :: "world \<Rightarrow> containers_Container \<Rightarrow> error + v1_Container" where
  "GetConfigFromInfo w c = UnmarshalConfig w (extension c CurrentConfig)"

text \<open>
  Lines 703 to 713: the image of the checkpoint is looked up, and fetched from the
  registry when the image service does not know it.
\<close>

definition Restore_image :: "world \<Rightarrow> string \<Rightarrow> (error + Descriptor) \<times> world" where
  "Restore_image w ref =
     (case GetImage w ref of
        Inr target \<Rightarrow> (Inr target, w)
      | Inl e \<Rightarrow> if \<not> IsNotFound e then (Inl e, w) else Fetch w ref)"

text \<open>
  Lines 719 to 734: the configuration of the container, from the blob of the index that
  holds the container record.
\<close>

definition Restore_config :: "world \<Rightarrow> Index \<Rightarrow> error + v1_Container" where
  "Restore_config w index =
     (case getByMediaType index MediaTypeContainerInfo of
        Inl e \<Rightarrow> Inl e
      | Inr configDesc \<Rightarrow>
          (case ReadBlob w configDesc of
             Inl e \<Rightarrow> Inl e
           | Inr data \<Rightarrow>
               (case json_Container data of
                  Inl e \<Rightarrow> Inl e
                | Inr c \<Rightarrow> GetConfigFromInfo w c)))"

text \<open>
  Lines 743 to 753: the options of the new container; a live restore adds the option
  that attaches the checkpoint of the task.
\<close>

definition Restore_opts ::
  "world \<Rightarrow> RestoreRequest \<Rightarrow> Index \<Rightarrow> string \<Rightarrow> v1_Container \<Rightarrow> string
     \<Rightarrow> error + (containers_Container \<Rightarrow> error + containers_Container) list" where
  "Restore_opts w req index volumeRoot config img =
     (if \<not> rs_Live req
      then Inr [flux_WithNewSnapshot w img, WithBossConfig w volumeRoot config img]
      else (case getByMediaType index MediaTypeContainerd1Checkpoint of
              Inl e \<Rightarrow> Inl e
            | Inr desc \<Rightarrow>
                Inr [flux_WithNewSnapshot w img, WithBossConfig w volumeRoot config img,
                     opts_WithRestore w desc]))"

text \<open>
  \<^verbatim>\<open>Restore\<close> once the new container is created (lines 762 to 787): the read-write
  layer is looked for under the media type \<^verbatim>\<open>is.MediaTypeImageLayerGzip\<close> and
  applied to the mounts of the new snapshot, the configuration is persisted, the unit is
  enabled and started. Only the branch of a failed \<^verbatim>\<open>store.Write\<close> deletes the
  container, with \<^verbatim>\<open>containerd.WithSnapshotCleanup\<close>; the result of that delete is
  not looked at.
\<close>

definition Restore_created ::
  "string \<Rightarrow> Index \<Rightarrow> v1_Container \<Rightarrow> world \<Rightarrow> (error + unit) \<times> world" where
  "Restore_created cid index config w =
     (case Info w cid of
        Inl e \<Rightarrow> (Inl e, w)
      | Inr ci \<Rightarrow>
     (case getByMediaType index MediaTypeImageLayerGzip of
        Inl e \<Rightarrow> (Inl e, w)
      | Inr rw \<Rightarrow>
     (case fault w (Mounts_c (c_SnapshotKey ci)) of
        Some e \<Rightarrow> (Inl e, w)
      | None \<Rightarrow>
     (case step (Apply_c (c_SnapshotKey ci)) [DiffApplied (d_Digest rw) (c_SnapshotKey ci)] w of
        (Some e, w1) \<Rightarrow> (Inl e, w1)
      | (None, w1) \<Rightarrow>
     (case step (StoreWrite_c (ctr_ID config)) [ConfigWritten (ctr_ID config)] w1 of
        (Some e, w2) \<Rightarrow> (Inl e, snd (container_Delete w2 cid WithSnapshotCleanup))
      | (None, w2) \<Rightarrow>
     (case step (Enable_c cid) [UnitEnabled cid] w2 of
        (Some e, w3) \<Rightarrow> (Inl e, w3)
      | (None, w3) \<Rightarrow>
     (case step (Start_c cid) [UnitStarted cid] w3 of
        (Some e, w4) \<Rightarrow> (Inl e, w4)
      | (None, w4) \<Rightarrow> (Inr (), w4))))))))"

text \<open>
  Lines 735 to 760: the image of the configuration is pulled, the volume root is read,
  and the container is created.
\<close>

definition Restore_new ::
  "RestoreRequest \<Rightarrow> Index \<Rightarrow> v1_Container \<Rightarrow> world \<Rightarrow> (error + unit) \<times> world" where
  "Restore_new req index config w =
     (case Pull w (ctr_Image config) of
        (Inl e, w1) \<Rightarrow> (Inl e, w1)
      | (Inr img, w1) \<Rightarrow>
     (case volumeRoot_read (kv w1) of
        Inl e \<Rightarrow> (Inl e, w1)
      | Inr volumeRoot \<Rightarrow>
     (case Restore_opts w1 req index volumeRoot config img of
        Inl e \<Rightarrow> (Inl e, w1)
      | Inr opts \<Rightarrow>
     (case NewContainer w1 (ctr_ID config) opts of
        (Inl e, w2) \<Rightarrow> (Inl e, w2)
      | (Inr cid, w2) \<Rightarrow> Restore_created cid index config w2))))"

definition Restore :: "RestoreRequest \<Rightarrow> world \<Rightarrow> (error + unit) \<times> world" where
  "Restore req w =
     (if rs_Ref req = '''' then (Inl ErrNoRef, w)
      else (case Restore_image w (rs_Ref req) of
              (Inl e, w1) \<Rightarrow> (Inl e, w1)
            | (Inr target, w1) \<Rightarrow>
                (case decodeIndex w1 target of
                   Inl e \<Rightarrow> (Inl e, w1)
                 | Inr index \<Rightarrow>
                     (case Restore_config w1 index of
                        Inl e \<Rightarrow> (Inl e, w1)
                      | Inr config \<Rightarrow> Restore_new req index config w1))))"

subsection \<open>\<^verbatim>\<open>Push\<close> and \<^verbatim>\<open>Delete\<close>\<close>

text \<open>
  \<^verbatim>\<open>Push\<close> of a request without \<open>Build\<close>, as \<^verbatim>\<open>Migrate\<close> makes it: the image is
  looked up in the namespace of the agent and pushed. With \<open>Build\<close> the image is looked
  up in the namespace of the builder, which the node here does not hold.
\<close>

definition Push :: "string \<Rightarrow> world \<Rightarrow> (error + unit) \<times> world" where
  "Push ref w =
     (if ref = '''' then (Inl ErrNoRef, w)
      else (case GetImage w ref of
              Inl e \<Rightarrow> (Inl e, w)
            | Inr target \<Rightarrow>
                (case client_Push w ref target of
                   (Some e, w') \<Rightarrow> (Inl e, w')
                 | (None, w') \<Rightarrow> (Inr (), w'))))"

text \<open>
  The loop of \<^verbatim>\<open>Delete\<close> over the services of the configuration (lines 245 to 249):
  an error of the registry is logged and dropped.
\<close>

fun deregister_loop :: "string \<Rightarrow> string list \<Rightarrow> world \<Rightarrow> world" where
  "deregister_loop cid [] w = w"
| "deregister_loop cid (name # names) w =
     deregister_loop cid names (snd (step (Deregister_c cid name) [Deregistered cid name] w))"

definition Delete :: "string \<Rightarrow> world \<Rightarrow> (error + unit) \<times> world" where
  "Delete rid w =
     (if rid = '''' then (Inl ErrNoID, w)
      else
     (case LoadContainer w rid of
        Inl e \<Rightarrow> (Inl (Wrap ''load container'' e), w)
      | Inr cid \<Rightarrow>
     (case systemd_Stop w rid of
        (Some e, w1) \<Rightarrow> (Inl (Wrap ''stop service'' e), w1)
      | (None, w1) \<Rightarrow>
     (case step (Disable_c rid) [UnitDisabled rid] w1 of
        (Some e, w2) \<Rightarrow> (Inl (Wrap ''disable service'' e), w2)
      | (None, w2) \<Rightarrow>
     (case GetConfig w2 cid of
        Inl e \<Rightarrow> (Inl (Wrap ''load config'' e), w2)
      | Inr config \<Rightarrow>
     (case fault w2 (GetNetwork_c (ctr_Network config)) of
        Some e \<Rightarrow> (Inl (Wrap ''get network'' e), w2)
      | None \<Rightarrow>
     (case step (NetworkRemove_c cid) [NetworkRemoved cid] w2 of
        (Some e, w3) \<Rightarrow> (Inl e, w3)
      | (None, w3) \<Rightarrow>
     (case container_Delete (deregister_loop rid (ctr_Services config) w3) cid
             WithRevisionCleanup of
        (Some e, w4) \<Rightarrow> (Inl e, w4)
      | (None, w4) \<Rightarrow> (Inr (), w4)))))))))"

subsection \<open>\<^verbatim>\<open>Migrate\<close>\<close>

record MigrateRequest =
  mg_ID :: string
  mg_To :: string
  mg_Ref :: string
  mg_Live :: bool
  mg_Stop :: bool
  mg_Delete :: bool

text \<open>
  \<^verbatim>\<open>Migrate\<close> after the deferral of the image delete (lines 814 to 832): the push, the
  restore on the peer, and the delete of the container if the request says so.
\<close>

definition Migrate_send :: "MigrateRequest \<Rightarrow> world \<Rightarrow> (error + unit) \<times> world" where
  "Migrate_send req w =
     (case Push (mg_Ref req) w of
        (Inl e, w1) \<Rightarrow> (Inl e, w1)
      | (Inr u, w1) \<Rightarrow>
          (case step (RemoteRestore_c (mg_Ref req))
                  [RemoteRestored (mg_To req) (mg_Ref req) (mg_Live req)] w1 of
             (Some e, w2) \<Rightarrow> (Inl e, w2)
           | (None, w2) \<Rightarrow> if mg_Delete req then Delete (mg_ID req) w2 else (Inr (), w2)))"

text \<open>
  \<^verbatim>\<open>Migrate\<close> once the peer is dialled (lines 800 to 832). After a checkpoint that
  succeeded, \<^verbatim>\<open>defer a.client.ImageService().Delete(ctx, req.Ref)\<close> runs when the
  handler returns, whatever it returns, and its result is dropped.
\<close>

definition Migrate_dialed :: "MigrateRequest \<Rightarrow> world \<Rightarrow> (error + unit) \<times> world" where
  "Migrate_dialed req w =
     (if remote_has w (mg_ID req) then (Inl errServiceExistsOnTarget, w)
      else (case Checkpoint \<lparr>ck_ID = mg_ID req, ck_Ref = mg_Ref req, ck_Live = mg_Live req,
                              ck_Exit = (mg_Stop req \<or> mg_Delete req)\<rparr> w of
              (Inl e, w1) \<Rightarrow> (Inl e, w1)
            | (Inr u, w1) \<Rightarrow>
                (case Migrate_send req w1 of
                   (r, w2) \<Rightarrow> (r, snd (ImageDelete w2 (mg_Ref req))))))"

text \<open>
  \<^verbatim>\<open>Migrate\<close>: \<^verbatim>\<open>defer to.Close()\<close> runs last.
\<close>

definition Migrate :: "MigrateRequest \<Rightarrow> world \<Rightarrow> (error + unit) \<times> world" where
  "Migrate req w =
     (if mg_ID req = '''' then (Inl ErrNoID, w)
      else (case fault w (Dial_c (mg_To req)) of
              Some e \<Rightarrow> (Inl e, w)
            | None \<Rightarrow>
                (case Migrate_dialed req w of
                   (r, w') \<Rightarrow> (r, did (RemoteClosed (mg_To req)) w'))))"

section \<open>Example nodes with a checkpoint\<close>

text \<open>
  \<open>ck_request\<close> asks for a checkpoint of \<open>web\<close> under the ref \<^verbatim>\<open>r/ck/web:1\<close>, not
  live, with the unit stopped afterwards. \<open>node_ck\<close> is a node without containers that
  holds a checkpoint image of \<open>web\<close> under that ref whose read-write layer is a gzip
  layer, and on which the unit manager fails to enable a unit.
\<close>

definition ck_request :: CheckpointRequest where
  "ck_request = \<lparr>ck_ID = ''web'', ck_Ref = ''r/ck/web:1'', ck_Live = False, ck_Exit = True\<rparr>"

definition linux_amd64 :: "Platform option" where
  "linux_amd64 = Some \<lparr>OS = ''linux'', Architecture = ''amd64''\<rparr>"

definition gzip_index :: Index where
  "gzip_index = \<lparr>SchemaVersion = 2,
     Manifests =
       [\<lparr>d_MediaType = MediaTypeContainerInfo, d_Digest = 0, d_Size = 0,
          d_Platform = linux_amd64\<rparr>,
        \<lparr>d_MediaType = MediaTypeImageLayerGzip, d_Digest = 1, d_Size = 0,
          d_Platform = linux_amd64\<rparr>],
     Annotations = []\<rparr>"

definition node_ck :: world where
  "node_ck = node0\<lparr>blobs := [BlobInfo web_rec, BlobDiff ''web'', BlobIndex gzip_index],
     images := [''r/ck/web:1'' \<mapsto>
       \<lparr>d_MediaType = MediaTypeImageIndex, d_Digest = 2, d_Size = 0, d_Platform = None\<rparr>],
     fault := (\<lambda>c. if c = Enable_c ''web'' then Some (Failure ''systemd: enable failed'')
                    else None)\<rparr>"

text \<open>
  \<open>mg_request\<close> asks to migrate \<open>web\<close> to the peer at \<^verbatim>\<open>b:1234\<close> under the ref
  \<^verbatim>\<open>r/ck/web:1\<close>. On \<open>node_push_down\<close> the push to the registry fails; on
  \<open>node_image_stuck\<close> the image service fails to delete the image.
\<close>

definition mg_request :: MigrateRequest where
  "mg_request = \<lparr>mg_ID = ''web'', mg_To = ''b:1234'', mg_Ref = ''r/ck/web:1'',
     mg_Live = False, mg_Stop = False, mg_Delete = True\<rparr>"

definition node_push_down :: world where
  "node_push_down = node_run\<lparr>fault :=
     (\<lambda>c. if c = Push_c ''r/ck/web:1'' then Some (Failure ''registry: connection refused'')
          else None)\<rparr>"

definition node_image_stuck :: world where
  "node_image_stuck = node_run\<lparr>fault :=
     (\<lambda>c. if c = ImageDelete_c ''r/ck/web:1'' then Some (Failure ''image service: unavailable'')
          else None)\<rparr>"

text \<open>
  \<open>rs_request\<close> asks to restore from the ref \<^verbatim>\<open>r/ck/web:1\<close>, not live. \<open>web_index\<close>
  is the index that the checkpoint of \<open>web\<close> on \<open>node_run\<close> writes. \<open>node_saved\<close> is
  \<open>node_run\<close> after that checkpoint, and \<open>node_cleared\<close> is \<open>node_saved\<close> after the
  delete of \<open>web\<close>.
\<close>

definition rs_request :: RestoreRequest where
  "rs_request = \<lparr>rs_Ref = ''r/ck/web:1'', rs_Live = False\<rparr>"

definition web_index :: Index where
  "web_index = \<lparr>SchemaVersion = 2,
     Manifests =
       [\<lparr>d_MediaType = MediaTypeContainerInfo, d_Digest = 0, d_Size = 0,
          d_Platform = linux_amd64\<rparr>,
        \<lparr>d_MediaType = MediaTypeImageLayer, d_Digest = 1, d_Size = 0,
          d_Platform = linux_amd64\<rparr>],
     Annotations = []\<rparr>"

definition node_saved :: world where
  "node_saved = snd (Checkpoint ck_request node_run)"

definition node_cleared :: world where
  "node_cleared = snd (Delete ''web'' node_saved)"

chapter \<open>Properties\<close>

section \<open>Addresses\<close>

lemma JoinHostPort_nonempty: "JoinHostPort h p \<noteq> ''''"
  by (simp add: JoinHostPort_def)

lemma split_a: "SplitHostPort ''10.0.0.2:7946'' = Inr (''10.0.0.2'', ''7946'')"
  by (simp add: SplitHostPort_def last_byte_def SplitHostPort_rest_def)

lemma split_b: "SplitHostPort ''10.0.0.3:7946'' = Inr (''10.0.0.3'', ''7946'')"
  by (simp add: SplitHostPort_def last_byte_def SplitHostPort_rest_def)

lemma split_w: "SplitHostPort ''10.0.0.4:7946'' = Inr (''10.0.0.4'', ''7946'')"
  by (simp add: SplitHostPort_def last_byte_def SplitHostPort_rest_def)

lemma split_me: "SplitHostPort ''10.0.0.1:7946'' = Inr (''10.0.0.1'', ''7946'')"
  by (simp add: SplitHostPort_def last_byte_def SplitHostPort_rest_def)

lemma split_m: "SplitHostPort ''10.0.0.2'' = Inl (AddrError missingPort ''10.0.0.2'')"
  by (simp add: SplitHostPort_def last_byte_def SplitHostPort_rest_def)

lemma split_store_a: "SplitHostPort ''10.0.0.2:9000'' = Inr (''10.0.0.2'', ''9000'')"
  by (simp add: SplitHostPort_def last_byte_def SplitHostPort_rest_def)

lemma join_store_a: "JoinHostPort ''10.0.0.2'' ''9000'' = ''10.0.0.2:9000''"
  by (simp add: JoinHostPort_def)

lemma FormatInt_9000: "FormatInt 9000 = ''9000''"
  by (simp add: FormatInt_def digit_def FormatNat.simps [of 9000] FormatNat.simps [of 900]
      FormatNat.simps [of 90] FormatNat.simps [of 9])

lemma split_c: "SplitHostPort ''10.0.0.5:7946'' = Inr (''10.0.0.5'', ''7946'')"
  by (simp add: SplitHostPort_def last_byte_def SplitHostPort_rest_def)

lemma join_store_c: "JoinHostPort ''10.0.0.5'' ''90:00'' = ''10.0.0.5:90:00''"
  by (simp add: JoinHostPort_def)

lemma split_store_c:
  "SplitHostPort ''10.0.0.5:90:00'' = Inl (AddrError tooManyColons ''10.0.0.5:90:00'')"
  by (simp add: SplitHostPort_def last_byte_def SplitHostPort_rest_def)

section \<open>Master discovery\<close>

lemma handleResolvConf_a_b:
  "handleResolvConf (host_of [peer_w, peer_a, peer_b]) =
     (Inr \<lparr>peers_seen = [peer_w, peer_a, peer_b], me_seen = peer_me\<rparr>,
      (host_of [peer_w, peer_a, peer_b])\<lparr>resolv_conf :=
         Some (''nameserver 10.0.0.4'' @ [CHR 0x0A] @ ''nameserver 10.0.0.2'' @ [CHR 0x0A]
             @ ''nameserver 10.0.0.3'' @ [CHR 0x0A] @ ''nameserver 10.0.0.1'' @ [CHR 0x0A])\<rparr>)"
  by (simp add: handleResolvConf_def Peers_def LocalNode_def writeResolvConf_def host_of_def
      peer_a_def peer_b_def peer_w_def peer_me_def split_a split_b split_w split_me)

lemma New_master_filter:
  "New_master ps =
     (case filter (\<lambda>p. Labels p Master \<noteq> None) ps of
        [] \<Rightarrow> Inr ''''
      | p # others \<Rightarrow>
          (case SplitHostPort (Addr p) of
             Inl e \<Rightarrow> Inl e
           | Inr (h, _) \<Rightarrow> Inr (JoinHostPort h (label p StorePort))))"
  by (induction ps) auto

lemma New_discover_filter:
  "\<not> Agent_Master c \<Longrightarrow> Peers_err h = None \<Longrightarrow>
   New_discover c h lcl =
     (case filter (\<lambda>p. Labels p Master \<noteq> None) (members h) of
        [] \<Rightarrow> Inl ErrNoMaster
      | p # others \<Rightarrow>
          (case SplitHostPort (Addr p) of
             Inl e \<Rightarrow> Inl e
           | Inr (hst, prt) \<Rightarrow> Inr (JoinHostPort hst (label p StorePort))))"
  by (simp add: New_discover_def Peers_def New_master_filter JoinHostPort_nonempty
      split: list.splits sum.splits prod.splits)

text \<open>
  C5, as the code has it: all of \<^verbatim>\<open>New\<close> on a node that is not the master. The
  construction returns the error of the service register, of the local store server or of
  the peer listing, when one of them fails. Otherwise it fails with the no-master error
  when no peer carries the master label. Otherwise the first labelled peer in
  enumeration order decides, however many carry the label: when its address does not
  split into host and port, the construction fails with the address error; when it does,
  the master's store address is that host joined with the peer's store-port label, and
  the construction succeeds with it exactly when that joined address splits into host and
  port in its turn, the \<^verbatim>\<open>SLAVEOF\<close> command succeeds and \<^verbatim>\<open>handleResolvConf\<close>
  succeeds; the first of these three that fails gives the error.
\<close>

theorem New_master_discovery:
  assumes "\<not> Agent_Master c"
  shows "New c h storePort =
     (case GetRegister_err h of
        Some e \<Rightarrow> (Inl e, h)
      | None \<Rightarrow>
     (case NewApp_err h of
        Some e \<Rightarrow> (Inl e, h)
      | None \<Rightarrow>
     (case Peers_err h of
        Some e \<Rightarrow> (Inl e, h)
      | None \<Rightarrow>
     (case filter (\<lambda>p. Labels p Master \<noteq> None) (members h) of
        [] \<Rightarrow> (Inl ErrNoMaster, h)
      | p # others \<Rightarrow>
     (case SplitHostPort (Addr p) of
        Inl e \<Rightarrow> (Inl e, h)
      | Inr (hst, prt) \<Rightarrow>
     (case SplitHostPort (JoinHostPort hst (label p StorePort)) of
        Inl e \<Rightarrow> (Inl e, h)
      | Inr (mhst, mprt) \<Rightarrow>
     (case SLAVEOF_err h mhst mprt of
        Some e \<Rightarrow> (Inl e, h)
      | None \<Rightarrow>
     (case handleResolvConf h of
        (Inl e, h') \<Rightarrow> (Inl e, h')
      | (Inr wt, h') \<Rightarrow>
          (Inr \<lparr>master = JoinHostPort hst (label p StorePort),
                 local = ''127.0.0.1:'' @ FormatInt storePort, watch = wt\<rparr>, h')))))))))"
proof (cases "GetRegister_err h")
  case (Some e)
  then show ?thesis by (simp add: New_def)
next
  case g: None
  show ?thesis
  proof (cases "NewApp_err h")
    case (Some e)
    with g show ?thesis by (simp add: New_def)
  next
    case n: None
    show ?thesis
    proof (cases "Peers_err h")
      case (Some e)
      with g n assms show ?thesis by (simp add: New_def New_discover_def Peers_def)
    next
      case p: None
      show ?thesis
        using g n p assms
        by (simp add: New_def New_discover_filter New_pools_def New_slave_def
            split: list.splits sum.splits prod.splits option.splits)
    qed
  qed
qed

text \<open>
  The theorem at work. With the peers \<open>w\<close>, \<open>a\<close>, \<open>b\<close>, of which \<open>a\<close> and \<open>b\<close> carry
  the label, the worker is built with the store of \<open>a\<close> as its master; with \<open>w\<close> alone
  there is no master; with \<open>w\<close> alone and a local store server that cannot start, the
  error is that of the server; with the peer \<open>c\<close>, whose store-port label holds a colon,
  the joined address does not split and the construction fails.
\<close>

theorem New_master_discovery_witness:
  "fst (New worker (host_of [peer_w, peer_a, peer_b]) 9000) =
     Inr \<lparr>master = ''10.0.0.2:9000'', local = ''127.0.0.1:9000'',
          watch = \<lparr>peers_seen = [peer_w, peer_a, peer_b], me_seen = peer_me\<rparr>\<rparr>
   \<and> fst (New worker (host_of [peer_w]) 9000) = Inl ErrNoMaster
   \<and> fst (New worker ((host_of [peer_w])\<lparr>NewApp_err := Some (Failure ''listen tcp :9000: bind: address already in use'')\<rparr>) 9000)
       = Inl (Failure ''listen tcp :9000: bind: address already in use'')
   \<and> fst (New worker (host_of [peer_w, peer_c]) 9000)
       = Inl (AddrError tooManyColons ''10.0.0.5:90:00'')"
proof -
  have nm: "\<not> Agent_Master worker" by (simp add: worker_def)
  note t = New_master_discovery [OF nm, of _ 9000]
  have "fst (New worker (host_of [peer_w, peer_a, peer_b]) 9000) =
      Inr \<lparr>master = ''10.0.0.2:9000'', local = ''127.0.0.1:9000'',
           watch = \<lparr>peers_seen = [peer_w, peer_a, peer_b], me_seen = peer_me\<rparr>\<rparr>"
    unfolding t [of "host_of [peer_w, peer_a, peer_b]"] handleResolvConf_a_b
    by (simp add: host_of_def peer_w_def peer_a_def peer_b_def Master_def StorePort_def
        label_def split_a join_store_a split_store_a FormatInt_9000)
  moreover have "fst (New worker (host_of [peer_w]) 9000) = Inl ErrNoMaster"
    unfolding t [of "host_of [peer_w]"]
    by (simp add: host_of_def peer_w_def)
  moreover have "fst (New worker ((host_of [peer_w])\<lparr>NewApp_err :=
        Some (Failure ''listen tcp :9000: bind: address already in use'')\<rparr>) 9000)
      = Inl (Failure ''listen tcp :9000: bind: address already in use'')"
    unfolding t [of "(host_of [peer_w])\<lparr>NewApp_err :=
        Some (Failure ''listen tcp :9000: bind: address already in use'')\<rparr>"]
    by (simp add: host_of_def)
  moreover have "fst (New worker (host_of [peer_w, peer_c]) 9000)
      = Inl (AddrError tooManyColons ''10.0.0.5:90:00'')"
    unfolding t [of "host_of [peer_w, peer_c]"]
    by (simp add: host_of_def peer_w_def peer_c_def Master_def StorePort_def label_def
        split_c join_store_c split_store_c)
  ultimately show ?thesis by simp
qed

text \<open>
  C5 as the claim has it fails: the peer set \<open>w\<close>, \<open>m\<close> holds exactly one node with the
  master label, every other step of the construction succeeds, and the construction
  fails, since the address of \<open>m\<close> has no port.
\<close>

theorem New_one_master_counterexample:
  "\<not> Agent_Master worker
   \<and> length (filter (\<lambda>p. Labels p Master \<noteq> None) (members (host_of [peer_w, peer_m]))) = 1
   \<and> fst (New worker (host_of [peer_w, peer_m]) 9000) = Inl (AddrError missingPort ''10.0.0.2'')"
  by (simp add: New_def New_discover_def Peers_def host_of_def worker_def peer_w_def
      peer_m_def Master_def StorePort_def split_m)

section \<open>The node's resolv.conf\<close>

lemma writeResolvConf_loop_members:
  "writeResolvConf_loop (h\<lparr>members := ms\<rparr>) ps f = writeResolvConf_loop h ps f"
  by (induction ps arbitrary: f) (auto split: sum.splits option.splits)

text \<open>
  The file that the goroutine of \<^verbatim>\<open>handleResolvConf\<close> writes on an event is the file
  it would have written before the membership changed: it is computed from the peers
  read at startup, whatever the members are by then.
\<close>

lemma peer_event_file_is_stale:
  "resolv_conf (peer_event wt ev h) = resolv_conf (resolv_on_event wt ev h)"
  by (cases ev)
    (simp_all add: peer_event_def resolv_on_event_def membership_def writeResolvConf_def
      writeResolvConf_loop_members split: option.splits prod.splits)

text \<open>
  C6 fails on the code. The worker starts with the single peer \<open>a\<close>; then \<open>w\<close> joins.
  After the event the members are \<open>a\<close> and \<open>w\<close>, and the file still holds the two lines
  written at startup, for \<open>a\<close> and for the node itself: no line for \<open>w\<close>.
\<close>

theorem resolv_conf_after_join:
  "(case New worker (host_of [peer_a]) 9000 of
      (Inl e, h1) \<Rightarrow> False
    | (Inr ag, h1) \<Rightarrow>
        resolv_conf h1 =
          Some (''nameserver 10.0.0.2'' @ [CHR 0x0A] @ ''nameserver 10.0.0.1'' @ [CHR 0x0A])
      \<and> members (peer_event (watch ag) (NodeJoin peer_w) h1) = [peer_a, peer_w]
      \<and> self (peer_event (watch ag) (NodeJoin peer_w) h1) = peer_me
      \<and> resolv_conf (peer_event (watch ag) (NodeJoin peer_w) h1) =
          Some (''nameserver 10.0.0.2'' @ [CHR 0x0A] @ ''nameserver 10.0.0.1'' @ [CHR 0x0A]))"
  by (simp add: New_def New_discover_def New_pools_def New_slave_def Peers_def LocalNode_def
      handleResolvConf_def writeResolvConf_def peer_event_def resolv_on_event_def
      membership_def host_of_def worker_def peer_a_def peer_w_def peer_me_def Master_def
      StorePort_def label_def split_a split_me split_store_a join_store_a)

section \<open>Listing\<close>

lemma List_loop_returns:
  "\<forall>c \<in> set cs. \<forall>msg. info w c \<noteq> Panics msg \<Longrightarrow>
   List_loop w cs resp =
     Returns (resp @ map (\<lambda>c. case info w c of
                       Returns (Inr l) \<Rightarrow> l
                     | _ \<Rightarrow> zero_info\<lparr>info_ID := c, info_Status := ''list error''\<rparr>) cs)"
  by (induction cs arbitrary: resp) (auto split: run.splits sum.splits)

lemma List_loop_panics:
  "\<forall>d \<in> set pre. \<forall>msg'. info w d \<noteq> Panics msg' \<Longrightarrow> info w c = Panics msg \<Longrightarrow>
   List_loop w (pre @ c # post) resp = Panics msg"
  by (induction pre arbitrary: resp) (auto split: run.splits sum.splits)

lemma info_corrupt:
  "Info w cid = Inr ci \<Longrightarrow> UnmarshalConfig w (extension ci CurrentConfig) = Inl e
     \<Longrightarrow> info w cid = Returns (Inl e)"
  by (simp add: info_def)

lemma info_task_panics:
  "fault w (Status_c cid) = None \<Longrightarrow> fault w (Metrics_c cid) = None \<Longrightarrow>
   UnmarshalAny w (task_Metrics t) = Inr v \<Longrightarrow> unusable_metrics v \<Longrightarrow>
   info_task w cid ci cfg fsSize ss t =
     Panics (case v of D_Metrics cg \<Rightarrow> nil_dereference | _ \<Rightarrow> not_Metrics)"
  by (auto simp: info_task_def unusable_metrics_def lacks_part_def
      split: decoded.splits option.splits)

text \<open>
  Listing, as the code has it. When the runtime lists its containers:
  \<^item> if no call of \<^verbatim>\<open>info\<close> panics, \<^verbatim>\<open>List\<close> returns one entry per container, in
    the runtime's order: the info of the container when \<^verbatim>\<open>info\<close> returns it, and
    the entry that holds only the id and the status \<open>''list error''\<close> when \<^verbatim>\<open>info\<close>
    returns an error; the latter is the case in particular for a container whose
    configuration extension does not decode;
  \<^item> if a call of \<^verbatim>\<open>info\<close> panics, \<^verbatim>\<open>List\<close> panics as the first such call does,
    and returns nothing;
  \<^item> \<^verbatim>\<open>info\<close> panics for a container that has a task, once every read before the
    metrics has succeeded, when the metrics of the task decode to a value that is not
    \<^verbatim>\<open>*cgroups.Metrics\<close> or to metrics that lack a part \<^verbatim>\<open>info\<close> reads.
\<close>

lemma List_degrades_per_item:
  assumes "fault w Containers_c = None"
  shows "((\<forall>c \<in> set (containers w). \<forall>msg. info w (fst c) \<noteq> Panics msg) \<longrightarrow>
           (\<exists>resp. List w = Returns (Inr resp) \<and> length resp = length (containers w)
             \<and> (\<forall>i < length (containers w).
                  (\<forall>e. info w (fst (containers w ! i)) = Returns (Inl e) \<longrightarrow>
                       resp ! i = zero_info\<lparr>info_ID := fst (containers w ! i),
                                             info_Status := ''list error''\<rparr>)
                \<and> (\<forall>l. info w (fst (containers w ! i)) = Returns (Inr l) \<longrightarrow> resp ! i = l)
                \<and> (\<forall>ci e. Info w (fst (containers w ! i)) = Inr ci
                       \<and> UnmarshalConfig w (extension ci CurrentConfig) = Inl e \<longrightarrow>
                       resp ! i = zero_info\<lparr>info_ID := fst (containers w ! i),
                                             info_Status := ''list error''\<rparr>))))
       \<and> (\<forall>pre c post msg. map fst (containers w) = pre @ c # post
              \<and> (\<forall>d \<in> set pre. \<forall>msg'. info w d \<noteq> Panics msg') \<and> info w c = Panics msg \<longrightarrow>
            List w = Panics msg)
       \<and> (\<forall>cid ci cfg usg ss bindSizes t v.
              Info w cid = Inr ci \<and> UnmarshalConfig w (extension ci CurrentConfig) = Inr cfg
              \<and> Usage w (c_SnapshotKey ci) = Inr usg \<and> info_Walk w cid = Inr ss
              \<and> getBindSizes (fs w) cfg = (bindSizes, None) \<and> Task w cid = Inr t
              \<and> fault w (Status_c cid) = None \<and> fault w (Metrics_c cid) = None
              \<and> UnmarshalAny w (task_Metrics t) = Inr v \<and> unusable_metrics v \<longrightarrow>
            info w cid = Panics (case v of D_Metrics cg \<Rightarrow> nil_dereference | _ \<Rightarrow> not_Metrics))"
proof (intro conjI allI impI)
  assume np: "\<forall>c \<in> set (containers w). \<forall>msg. info w (fst c) \<noteq> Panics msg"
  then have "\<forall>c \<in> set (map fst (containers w)). \<forall>msg. info w c \<noteq> Panics msg" by simp
  from List_loop_returns [OF this, of "[]"] assms
  have l: "List w = Returns (Inr (map (\<lambda>c. case info w c of
                       Returns (Inr l) \<Rightarrow> l
                     | _ \<Rightarrow> zero_info\<lparr>info_ID := c, info_Status := ''list error''\<rparr>)
                  (map fst (containers w))))"
    by (simp add: List_def Containers_def)
  show "\<exists>resp. List w = Returns (Inr resp) \<and> length resp = length (containers w)
      \<and> (\<forall>i < length (containers w).
           (\<forall>e. info w (fst (containers w ! i)) = Returns (Inl e) \<longrightarrow>
                resp ! i = zero_info\<lparr>info_ID := fst (containers w ! i),
                                      info_Status := ''list error''\<rparr>)
         \<and> (\<forall>l. info w (fst (containers w ! i)) = Returns (Inr l) \<longrightarrow> resp ! i = l)
         \<and> (\<forall>ci e. Info w (fst (containers w ! i)) = Inr ci
                \<and> UnmarshalConfig w (extension ci CurrentConfig) = Inl e \<longrightarrow>
                resp ! i = zero_info\<lparr>info_ID := fst (containers w ! i),
                                      info_Status := ''list error''\<rparr>))"
    unfolding l by (auto simp: info_corrupt)
next
  fix pre c post msg
  assume "map fst (containers w) = pre @ c # post
      \<and> (\<forall>d \<in> set pre. \<forall>msg'. info w d \<noteq> Panics msg') \<and> info w c = Panics msg"
  then show "List w = Panics msg"
    using assms by (simp add: List_def Containers_def List_loop_panics)
next
  fix cid ci cfg usg ss bindSizes t v
  assume "Info w cid = Inr ci \<and> UnmarshalConfig w (extension ci CurrentConfig) = Inr cfg
      \<and> Usage w (c_SnapshotKey ci) = Inr usg \<and> info_Walk w cid = Inr ss
      \<and> getBindSizes (fs w) cfg = (bindSizes, None) \<and> Task w cid = Inr t
      \<and> fault w (Status_c cid) = None \<and> fault w (Metrics_c cid) = None
      \<and> UnmarshalAny w (task_Metrics t) = Inr v \<and> unusable_metrics v"
  then show "info w cid = Panics (case v of D_Metrics cg \<Rightarrow> nil_dereference | _ \<Rightarrow> not_Metrics)"
    by (simp add: info_def info_task_panics)
qed

section \<open>Bind sizes\<close>







section \<open>The example node at work\<close>

lemma Info_logs_web: "Info node_logs ''web'' = Inr logs_rec"
  by (simp add: Info_def node_logs_def node0_def)

lemma Info_logs_bad: "Info node_logs ''bad'' = Inr bad_rec"
  by (simp add: Info_def node_logs_def node0_def)

lemma config_logs_web:
  "UnmarshalConfig node_logs (extension logs_rec CurrentConfig) = Inr logs_cfg"
  by (simp add: UnmarshalConfig_def node_logs_def node0_def logs_rec_def web_rec_def
      extension_def dec_def enc_def web_cfg_def web_cfg2_def logs_cfg_def)

lemma config_logs_bad:
  "UnmarshalConfig node_logs (extension bad_rec CurrentConfig)
     = Inl (Failure ''proto: cannot parse'')"
  by (simp add: UnmarshalConfig_def node_logs_def node0_def bad_rec_def web_rec_def
      extension_def dec_def enc_def web_cfg_def web_cfg2_def logs_cfg_def)

lemma info_logs_web:
  "info node_logs ''web'' =
     Returns (Inr (zero_info\<lparr>info_ID := ''web'', info_Image := ''r/nginx:1'',
           info_Status := ''stopped'', info_FsSize := 112, info_Config := Some logs_cfg,
           info_Snapshots := []\<rparr>))"
  by (simp add: info_def Info_logs_web config_logs_web)
    (simp add: node_logs_def node0_def Usage_def info_Walk_def logs_rec_def web_rec_def
      getBindSizes_def logs_cfg_def web_cfg_def no_file_def logs_dir_def Task_def IsNotFound_def)

lemma info_logs_bad:
  "info node_logs ''bad'' = Returns (Inl (Failure ''proto: cannot parse''))"
  by (simp add: info_def Info_logs_bad config_logs_bad)

lemma stats_differ: "enc c \<noteq> stats_any"
  by (simp add: enc_def stats_any_def)

lemma info_cg_bad:
  "info node_cg ''bad'' = Returns (Inl (Failure ''proto: cannot parse''))"
  by (simp add: info_def Info_def UnmarshalConfig_def node_cg_def node0_def bad_rec_def
      web_rec_def extension_def dec_def enc_def web_cfg_def web_cfg2_def logs_cfg_def
      stats_any_def CurrentConfig_def)

lemma reads_cg_web:
  "Info node_cg ''web'' = Inr web_rec"
  "UnmarshalConfig node_cg (extension web_rec CurrentConfig) = Inr web_cfg"
  "Usage node_cg (c_SnapshotKey web_rec) = Inr 100"
  "info_Walk node_cg ''web'' = Inr []"
  "getBindSizes (fs node_cg) web_cfg = (12, None)"
  "Task node_cg ''web'' = Inr \<lparr>task_Status = ''running'', task_Metrics = stats_any\<rparr>"
  "fault node_cg (Status_c ''web'') = None"
  "fault node_cg (Metrics_c ''web'') = None"
  "UnmarshalAny node_cg stats_any = Inr (D_Metrics metrics_no_memory)"
  "unusable_metrics (D_Metrics metrics_no_memory)"
  by (simp_all add: Info_def UnmarshalConfig_def Usage_def info_Walk_def getBindSizes_def
      Task_def node_cg_def node0_def web_rec_def extension_def dec_def stats_differ
      web_cfg_def logs_dir_def unusable_metrics_def lacks_part_def metrics_no_memory_def)

text \<open>
  The lemma at work. On \<open>node_logs\<close> no call of \<^verbatim>\<open>info\<close> panics, and \<^verbatim>\<open>List\<close>
  returns the info of \<open>web\<close> and the list-error entry of \<open>bad\<close>. On \<open>node_cg\<close> the call
  for \<open>bad\<close> returns an error, the call for \<open>web\<close> panics on the metrics without a
  memory part, and \<^verbatim>\<open>List\<close> panics with it.
\<close>

lemma List_at_work:
  "List node_logs =
     Returns (Inr [zero_info\<lparr>info_ID := ''web'', info_Image := ''r/nginx:1'',
                     info_Status := ''stopped'', info_FsSize := 112,
                     info_Config := Some logs_cfg, info_Snapshots := []\<rparr>,
                   zero_info\<lparr>info_ID := ''bad'', info_Status := ''list error''\<rparr>])
   \<and> info node_cg ''web'' = Panics nil_dereference
   \<and> List node_cg = Panics nil_dereference"
proof -
  have f: "fault node_logs Containers_c = None"
    by (simp add: node_logs_def node0_def)
  have cs: "containers node_logs = [(''web'', logs_rec), (''bad'', bad_rec)]"
    by (simp add: node_logs_def node0_def)
  have np: "\<forall>c \<in> set (containers node_logs). \<forall>msg. info node_logs (fst c) \<noteq> Panics msg"
    by (simp add: cs info_logs_web info_logs_bad)
  from List_degrades_per_item [OF f, THEN conjunct1] np obtain resp where
    r: "List node_logs = Returns (Inr resp)" and len: "length resp = 2" and
    each: "\<forall>i < 2.
          (\<forall>e. info node_logs (fst (containers node_logs ! i)) = Returns (Inl e) \<longrightarrow>
               resp ! i = zero_info\<lparr>info_ID := fst (containers node_logs ! i),
                                     info_Status := ''list error''\<rparr>)
        \<and> (\<forall>l. info node_logs (fst (containers node_logs ! i)) = Returns (Inr l) \<longrightarrow>
               resp ! i = l)
        \<and> (\<forall>ci e. Info node_logs (fst (containers node_logs ! i)) = Inr ci
               \<and> UnmarshalConfig node_logs (extension ci CurrentConfig) = Inl e \<longrightarrow>
               resp ! i = zero_info\<lparr>info_ID := fst (containers node_logs ! i),
                                     info_Status := ''list error''\<rparr>)"
    by (auto simp: cs)
  from each [rule_format, of 0] have r0: "resp ! 0 =
      zero_info\<lparr>info_ID := ''web'', info_Image := ''r/nginx:1'', info_Status := ''stopped'',
        info_FsSize := 112, info_Config := Some logs_cfg, info_Snapshots := []\<rparr>"
    by (simp add: cs info_logs_web)
  from each [rule_format, of 1] have r1: "resp ! 1 =
      zero_info\<lparr>info_ID := ''bad'', info_Status := ''list error''\<rparr>"
    using Info_logs_bad config_logs_bad by (simp add: cs)
  from len r0 r1 have "resp = [resp ! 0, resp ! 1]"
    by (cases resp; cases "tl resp") auto
  with r r0 r1 have a: "List node_logs =
      Returns (Inr [zero_info\<lparr>info_ID := ''web'', info_Image := ''r/nginx:1'',
                      info_Status := ''stopped'', info_FsSize := 112,
                      info_Config := Some logs_cfg, info_Snapshots := []\<rparr>,
                    zero_info\<lparr>info_ID := ''bad'', info_Status := ''list error''\<rparr>])"
    by simp
  have g: "fault node_cg Containers_c = None"
    by (simp add: node_cg_def node0_def)
  note t = List_degrades_per_item [OF g]
  have b: "info node_cg ''web'' = Panics nil_dereference"
    using t [THEN conjunct2, THEN conjunct2, rule_format, of "''web''" web_rec web_cfg 100 "[]"
        12 "\<lparr>task_Status = ''running'', task_Metrics = stats_any\<rparr>"
        "D_Metrics metrics_no_memory"] reads_cg_web
    by simp
  have "List node_cg = Panics nil_dereference"
    using t [THEN conjunct2, THEN conjunct1, rule_format, of "[''bad'']" "''web''" "[]"
        nil_dereference] b info_cg_bad
    by (simp add: node_cg_def)
  with a b show ?thesis by simp
qed

text \<open>
  C7 fails on the code. On \<open>node_cg\<close> the runtime lists two containers. The info of
  \<open>bad\<close> fails with an error, which the loop of \<^verbatim>\<open>List\<close> turns into a list-error
  entry; the info of \<open>web\<close> then reads the memory part of metrics that have none and
  panics, and \<^verbatim>\<open>List\<close> returns no entry at all.
\<close>

theorem List_panics:
  "Containers node_cg = Inr [''bad'', ''web'']
   \<and> info node_cg ''bad'' = Returns (Inl (Failure ''proto: cannot parse''))
   \<and> info node_cg ''web'' = Panics nil_dereference
   \<and> List node_cg = Panics nil_dereference"
proof -
  have c: "Containers node_cg = Inr [''bad'', ''web'']"
    by (simp add: Containers_def node_cg_def node0_def)
  have w: "info node_cg ''web'' = Panics nil_dereference"
    by (simp add: info_def reads_cg_web info_task_def) (simp add: metrics_no_memory_def)
  from c w info_cg_bad show ?thesis
    by (simp add: List_def)
qed


section \<open>The timeout of \<^verbatim>\<open>Update\<close>\<close>

lemma remote_of_r2: "remote_of ''r/nginx:2'' = ''r''"
  by (simp add: remote_of_def)

lemma config_differs: "enc web_cfg2 \<noteq> enc web_cfg"
  by (simp add: enc_def web_cfg2_def web_cfg_def)

lemma dec_web: "dec (enc web_cfg) = Inr (D_Container web_cfg)"
  by (simp add: dec_def)

text \<open>
  C3, as the code has it. When \<^verbatim>\<open>Update\<close> has taken its lease, loaded the container
  and its configuration, read the volume root, found a task and its exit channel, and the
  paused run of the changes and of \<^verbatim>\<open>SIGTERM\<close> has succeeded, and the task does not
  exit within the ten seconds, then \<^verbatim>\<open>Update\<close> sends \<^verbatim>\<open>SIGKILL\<close> and returns what
  that call returns: success when the signal is delivered, the error of the call
  otherwise.
\<close>

theorem Update_timeout:
  assumes "fault w WithLease_c = None"
    and "LoadContainer w (ctr_ID c) = Inr cid"
    and "GetConfig w cid = Inr current"
    and "w1 = maintenance_loop cid ''update container configuration'' (ctr_Services current) w"
    and "volumeRoot_read (kv w1) = Inr volumeRoot"
    and "Task w1 cid = Inr t"
    and "fault w1 (Wait_c cid) = None"
    and "pauseAndRun w1 cid (Update_body (Update_changes current c volumeRoot) cid True)
           = (None, w2)"
    and "\<not> exits_in_time w2 cid"
  shows "Update c w =
     (case fault w2 (Kill_c cid SIGKILL) of
        None \<Rightarrow> (Inr (), did LeaseReleased (did (Signalled cid SIGKILL) w2))
      | Some e \<Rightarrow> (Inl e, did LeaseReleased w2))"
  using assms
  by (simp add: Update_def Update_leased_def Update_run_def Update_wait_def Kill_def step_def
      release_def did_def Let_def split: option.splits)

lemma web_cfg2_fields: "ctr_ID web_cfg2 = ''web''" "ctr_Image web_cfg2 = ''r/nginx:2''"
  "ctr_Services web_cfg2 = []"
  by (simp_all add: web_cfg2_def web_cfg_def)

lemma web_cfg_fields: "ctr_ID web_cfg = ''web''" "ctr_Image web_cfg = ''r/nginx:1''"
  "ctr_Services web_cfg = []"
  by (simp_all add: web_cfg_def)

lemma Update_changes_web:
  "Update_changes web_cfg web_cfg2 '''' =
     [imageUpdateChange ''r/nginx:2'', configChange web_cfg2 '''', filesChange web_cfg2]"
  by (simp add: Update_changes_def web_cfg_fields web_cfg2_fields)

lemma paused_run_web:
  assumes "w = node_run \<or> w = node_stuck"
  shows "fst (pauseAndRun w ''web'' (Update_body (Update_changes web_cfg web_cfg2 '''') ''web'' True))
           = None"
    and "trace (snd (pauseAndRun w ''web''
            (Update_body (Update_changes web_cfg web_cfg2 '''') ''web'' True))) =
         [Paused ''web'', Pulled ''r/nginx:2'' False, ConfigWritten ''web'',
          Signalled ''web'' SIGTERM, Resumed ''web'']"
    and "fault (snd (pauseAndRun w ''web''
            (Update_body (Update_changes web_cfg web_cfg2 '''') ''web'' True))) = fault w"
    and "exits_in_time (snd (pauseAndRun w ''web''
            (Update_body (Update_changes web_cfg web_cfg2 '''') ''web'' True))) = (\<lambda>_. False)"
  using assms
  by (auto simp: Update_changes_web pauseAndRun_def Task_def step_def Update_body_def
      change_update_def Pull_def withPlainRemote_def redis_Bool_def doLocal_def remote_of_r2
      container_Update_def Info_def WithSetPreviousConfig_def set_extension_def extension_def
      WithBossConfig_def WithContainerExtension_def CurrentConfig_def LastConfig_def Kill_def
      node_run_def node_stuck_def node0_def web_rec_def web_cfg2_fields PlainRemotesKey_def)

lemma Update_path_web:
  assumes "w = node_run \<or> w = node_stuck"
  shows "fault w WithLease_c = None"
    and "LoadContainer w (ctr_ID web_cfg2) = Inr ''web''"
    and "GetConfig w ''web'' = Inr web_cfg"
    and "w = maintenance_loop ''web'' ''update container configuration'' (ctr_Services web_cfg) w"
    and "volumeRoot_read (kv w) = Inr ''''"
    and "Task w ''web'' = Inr \<lparr>task_Status = ''running'', task_Metrics = zero_Any\<rparr>"
    and "fault w (Wait_c ''web'') = None"
  using assms
  by (auto simp: LoadContainer_def GetConfig_def Info_def UnmarshalConfig_def extension_def
      dec_web volumeRoot_read_def redis_String_def doLocal_def Task_def web_cfg_fields
      web_cfg2_fields node_run_def node_stuck_def node0_def web_rec_def)

text \<open>
  The theorem at work on \<open>node_run\<close>: the task ignores \<^verbatim>\<open>SIGTERM\<close>, \<^verbatim>\<open>SIGKILL\<close> is
  delivered, and the update succeeds.
\<close>

theorem Update_timeout_witness:
  "fst (Update web_cfg2 node_run) = Inr ()
   \<and> trace (snd (Update web_cfg2 node_run)) =
       [Paused ''web'', Pulled ''r/nginx:2'' False, ConfigWritten ''web'',
        Signalled ''web'' SIGTERM, Resumed ''web'', Signalled ''web'' SIGKILL, LeaseReleased]"
proof -
  let ?w2 = "snd (pauseAndRun node_run ''web''
      (Update_body (Update_changes web_cfg web_cfg2 '''') ''web'' True))"
  have r: "node_run = node_run \<or> node_run = node_stuck" by simp
  have p: "pauseAndRun node_run ''web''
      (Update_body (Update_changes web_cfg web_cfg2 '''') ''web'' True) = (None, ?w2)"
    using paused_run_web(1) [OF r] by (simp add: prod_eq_iff)
  have x: "\<not> exits_in_time ?w2 ''web''"
    by (simp add: paused_run_web(4) [OF r])
  have k: "fault ?w2 (Kill_c ''web'' SIGKILL) = None"
    by (simp add: paused_run_web(3) [OF r]) (simp add: node_run_def node0_def)
  from Update_timeout [OF Update_path_web [OF r] p x] k
  have "Update web_cfg2 node_run =
      (Inr (), did LeaseReleased (did (Signalled ''web'' SIGKILL) ?w2))"
    by simp
  then show ?thesis
    by (simp add: did_def paused_run_web(2) [OF r])
qed

text \<open>
  C3 as the claim has it fails: on \<open>node_stuck\<close> the changes succeed, \<^verbatim>\<open>SIGTERM\<close> is
  sent, the task does not exit in time, the runtime fails to deliver \<^verbatim>\<open>SIGKILL\<close>, and
  \<^verbatim>\<open>Update\<close> returns that error.
\<close>

theorem Update_timeout_counterexample:
  "fst (Update web_cfg2 node_stuck) = Inl (Failure ''task: kill failed'')
   \<and> trace (snd (Update web_cfg2 node_stuck)) =
       [Paused ''web'', Pulled ''r/nginx:2'' False, ConfigWritten ''web'',
        Signalled ''web'' SIGTERM, Resumed ''web'', LeaseReleased]"
proof -
  have r: "node_stuck = node_run \<or> node_stuck = node_stuck" by simp
  obtain w2 where p: "pauseAndRun node_stuck ''web''
      (Update_body (Update_changes web_cfg web_cfg2 '''') ''web'' True) = (None, w2)"
    using paused_run_web(1) [OF r] by (metis prod.collapse)
  have t: "trace w2 = [Paused ''web'', Pulled ''r/nginx:2'' False, ConfigWritten ''web'',
      Signalled ''web'' SIGTERM, Resumed ''web'']"
    and f: "fault w2 = fault node_stuck" and x: "exits_in_time w2 = (\<lambda>_. False)"
    using paused_run_web(2-4) [OF r] by (simp_all add: p)
  have k: "fault w2 (Kill_c ''web'' SIGKILL) = Some (Failure ''task: kill failed'')"
    by (simp add: f node_stuck_def)
  have "Update web_cfg2 node_stuck = (Inl (Failure ''task: kill failed''), did LeaseReleased w2)"
    using Update_path_web [OF r] p k x
    by (simp add: Update_def Update_leased_def Update_run_def Update_wait_def Kill_def step_def
        release_def)
  then show ?thesis
    by (simp add: did_def t)
qed

section \<open>Rollback\<close>

lemma config_keys_differ: "CurrentConfig \<noteq> LastConfig"
  by (simp add: CurrentConfig_def LastConfig_def)

lemma WithRollback_absent:
  "Value (extension c LastConfig) = None \<Longrightarrow> WithRollback c = Inr c"
  by (simp add: WithRollback_def)

lemma WithRollback_present:
  assumes "Value (extension c LastConfig) \<noteq> None"
  shows "\<exists>c'. WithRollback c = Inr c'
     \<and> extension c' CurrentConfig = extension c LastConfig
     \<and> (\<forall>k. k \<noteq> CurrentConfig \<longrightarrow> extension c' k = extension c k)
     \<and> c'\<lparr>c_Extensions := c_Extensions c\<rparr> = c"
  using assms
  by (cases "c_Extensions c")
    (auto simp: WithRollback_def set_extension_def extension_def zero_Any_def Let_def)

lemma WithRollback_no_swap:
  assumes "WithRollback r1 = Inr r2" and "Value cur \<noteq> None" and "lst \<noteq> cur"
  shows "\<not> (extension r2 CurrentConfig = lst \<and> extension r2 LastConfig = cur)"
  using assms config_keys_differ
  by (cases "c_Extensions r1")
    (auto simp: WithRollback_def set_extension_def extension_def zero_Any_def Let_def
      split: if_splits option.splits)

lemma swap_flux_rollback:
  assumes "Value (extension c CurrentConfig) \<noteq> None"
    and "apply_opts [WithSetPreviousConfig, WithBossConfig w volumeRoot new img] c = Inr c1"
    and "c_Extensions x = c_Extensions c1"
    and "WithRollback x = Inr c2"
  shows "MarshalAny w new = Inr (extension c1 CurrentConfig)
     \<and> extension c1 LastConfig = extension c CurrentConfig
     \<and> extension c2 CurrentConfig = extension c CurrentConfig
     \<and> extension c2 LastConfig = extension c CurrentConfig"
  using assms config_keys_differ
  by (cases "c_Extensions c")
    (auto simp: WithSetPreviousConfig_def WithBossConfig_def WithContainerExtension_def
      WithRollback_def set_extension_def extension_def zero_Any_def Let_def
      split: option.splits sum.splits if_splits)

lemma Rollback_success:
  assumes "Rollback rid w = (Inr (), w')"
  shows "\<exists>r r1 r2. Info w rid = Inr r \<and> flux_WithRollback w r = Inr r1
     \<and> WithRollback r1 = Inr r2
     \<and> containers w' = AList.update rid r2 (containers w)
     \<and> trace w' = trace w @ [Paused rid, Signalled rid SIGTERM]
          @ (if fault w (Resume_c rid) = None then [Resumed rid] else []) @ [LeaseReleased]"
  using assms
  by (auto simp: Rollback_def release_def did_def LoadContainer_def pauseAndRun_def
      Rollback_body_def container_Update_def Task_def step_def Kill_def Info_def
      split: if_splits option.splits sum.splits prod.splits)

lemma Rollback_never_swaps:
  assumes "Rollback rid w = (Inr (), w')" and "Info w rid = Inr r"
    and "Value (extension r CurrentConfig) \<noteq> None"
    and "extension r LastConfig \<noteq> extension r CurrentConfig"
  shows "\<exists>r'. map_of (containers w') rid = Some r'
     \<and> \<not> (extension r' CurrentConfig = extension r LastConfig
          \<and> extension r' LastConfig = extension r CurrentConfig)"
proof -
  from Rollback_success [OF assms(1)] obtain r0 r1 r2 where
    "Info w rid = Inr r0" and wr: "WithRollback r1 = Inr r2"
    and cs: "containers w' = AList.update rid r2 (containers w)"
    by blast
  from cs have "map_of (containers w') rid = Some r2"
    by (simp add: update_conv')
  with WithRollback_no_swap [OF wr assms(3,4)] show ?thesis by blast
qed

subsection \<open>What a successful \<^verbatim>\<open>Update\<close> leaves\<close>

lemma step_trace: "step c efs w = (r, w') \<Longrightarrow> \<exists>t. w' = w\<lparr>trace := t\<rparr>"
  by (auto simp: step_def split: option.splits intro: exI [of _ "trace w"])

lemma maintenance_loop_trace:
  "\<exists>t. maintenance_loop cid reason names w = w\<lparr>trace := t\<rparr>"
proof (induction names arbitrary: w)
  case Nil
  show ?case by (auto intro: exI [of _ "trace w"])
next
  case (Cons name names)
  obtain t0 where s: "snd (step (EnableMaintainance_c cid name) [Maintenance cid name reason] w)
      = w\<lparr>trace := t0\<rparr>"
    using step_trace [of _ _ w] by (metis prod.collapse)
  from Cons [of "w\<lparr>trace := t0\<rparr>"] show ?case
    by (auto simp: s)
qed

lemma Info_trace: "Info (w\<lparr>trace := t\<rparr>) cid = Info w cid"
  by (simp add: Info_def split: option.splits)

lemma WithBossConfig_trace: "WithBossConfig (w\<lparr>trace := t\<rparr>) = WithBossConfig w"
  by (auto simp: fun_eq_iff WithBossConfig_def WithContainerExtension_def
      split: option.splits sum.splits)

lemma Pull_trace: "Pull w ref = (r, w') \<Longrightarrow> \<exists>t. w' = w\<lparr>trace := t\<rparr>"
  by (auto simp: Pull_def step_def split: sum.splits option.splits
      intro: exI [of _ "trace w"])

lemma container_Update_ok:
  "container_Update w cid opts = (None, w') \<Longrightarrow>
   \<exists>r r1. Info w cid = Inr r \<and> apply_opts opts r = Inr r1
      \<and> w' = w\<lparr>containers := AList.update cid r1 (containers w)\<rparr>"
  by (auto simp: container_Update_def split: sum.splits option.splits)

lemma deregister_changes:
  "changes_loop (map deregisterChange names @ rest) cid w = (None, w') \<Longrightarrow>
   \<exists>t. changes_loop rest cid (w\<lparr>trace := t\<rparr>) = (None, w')"
proof (induction names arbitrary: w)
  case Nil
  then show ?case by (auto intro: exI [of _ "trace w"])
next
  case (Cons name names)
  from Cons.prems obtain w0 where
    s: "step (Deregister_c cid name) [Deregistered cid name] w = (None, w0)"
    and l: "changes_loop (map deregisterChange names @ rest) cid w0 = (None, w')"
    by (auto simp: change_update_def split: prod.splits option.splits)
  from step_trace [OF s] obtain t0 where w0: "w0 = w\<lparr>trace := t0\<rparr>" by blast
  from Cons.IH [OF l] show ?case by (auto simp: w0)
qed

lemma pipeline_changes:
  assumes "changes_loop [imageUpdateChange ref, configChange cfg vr, filesChange cfg] cid w
             = (None, w')"
  shows "\<exists>r r1 t. Info w cid = Inr r
     \<and> apply_opts [WithSetPreviousConfig, WithBossConfig w vr cfg (ctr_Image cfg)] r = Inr r1
     \<and> w' = w\<lparr>containers := AList.update cid r1 (containers w), trace := t\<rparr>"
proof -
  from assms obtain img w1 w2 where
    p: "Pull w ref = (Inr img, w1)"
    and u: "container_Update w1 cid
              [WithSetPreviousConfig, WithBossConfig w1 vr cfg (ctr_Image cfg)] = (None, w2)"
    and f: "step (StoreWrite_c (ctr_ID cfg)) [ConfigWritten (ctr_ID cfg)] w2 = (None, w')"
    by (auto simp: change_update_def split: prod.splits option.splits sum.splits)
  from Pull_trace [OF p] obtain t1 where w1: "w1 = w\<lparr>trace := t1\<rparr>" by blast
  from container_Update_ok [OF u] obtain r r1 where
    i: "Info w1 cid = Inr r"
    and a: "apply_opts [WithSetPreviousConfig, WithBossConfig w1 vr cfg (ctr_Image cfg)] r
              = Inr r1"
    and w2: "w2 = w1\<lparr>containers := AList.update cid r1 (containers w1)\<rparr>"
    by blast
  from step_trace [OF f] obtain t where w': "w' = w2\<lparr>trace := t\<rparr>" by blast
  have "Info w cid = Inr r" using i by (simp add: w1 Info_trace)
  moreover have "apply_opts [WithSetPreviousConfig, WithBossConfig w vr cfg (ctr_Image cfg)] r
      = Inr r1"
    using a by (simp add: w1 WithBossConfig_trace)
  moreover have "w' = w\<lparr>containers := AList.update cid r1 (containers w), trace := t\<rparr>"
    by (simp add: w' w2 w1)
  ultimately show ?thesis by blast
qed

lemma Update_body_ok:
  assumes "Update_body (Update_changes current cfg vr) cid has_task w = (None, w')"
  shows "\<exists>r r1 t. Info w cid = Inr r
     \<and> apply_opts [WithSetPreviousConfig, WithBossConfig w vr cfg (ctr_Image cfg)] r = Inr r1
     \<and> w' = w\<lparr>containers := AList.update cid r1 (containers w), trace := t\<rparr>"
proof -
  from assms obtain w1 where
    l: "changes_loop (Update_changes current cfg vr) cid w = (None, w1)"
    and k: "w' = w1 \<or> Kill cid SIGTERM w1 = (None, w')"
    by (auto simp: Update_body_def split: prod.splits option.splits if_splits)
  from l deregister_changes obtain t0 where
    "changes_loop [imageUpdateChange (ctr_Image cfg), configChange cfg vr, filesChange cfg] cid
       (w\<lparr>trace := t0\<rparr>) = (None, w1)"
    unfolding Update_changes_def by blast
  from pipeline_changes [OF this] obtain r r1 t1 where
    i: "Info w cid = Inr r"
    and a: "apply_opts [WithSetPreviousConfig, WithBossConfig w vr cfg (ctr_Image cfg)] r
              = Inr r1"
    and w1: "w1 = w\<lparr>containers := AList.update cid r1 (containers w), trace := t1\<rparr>"
    by (auto simp: Info_trace WithBossConfig_trace)
  have "\<exists>t. w' = w1\<lparr>trace := t\<rparr>"
  proof (cases "w' = w1")
    case True
    then show ?thesis by (auto intro: exI [of _ "trace w1"])
  next
    case False
    with k have "step (Kill_c cid SIGTERM) [Signalled cid SIGTERM] w1 = (None, w')"
      by (simp add: Kill_def)
    then show ?thesis by (rule step_trace)
  qed
  then obtain t where "w' = w1\<lparr>trace := t\<rparr>" by blast
  then have "w' = w\<lparr>containers := AList.update cid r1 (containers w), trace := t\<rparr>"
    by (simp add: w1)
  with i a show ?thesis by blast
qed

lemma pauseAndRun_ok:
  assumes "pauseAndRun w cid fn = (None, w')"
  shows "\<exists>t wm t'. fn (w\<lparr>trace := t\<rparr>) = (None, wm) \<and> w' = wm\<lparr>trace := t'\<rparr>"
proof (cases "Task w cid")
  case (Inl e)
  with assms have "fn w = (None, w')" by (simp add: pauseAndRun_def)
  then have "fn (w\<lparr>trace := trace w\<rparr>) = (None, w') \<and> w' = w'\<lparr>trace := trace w'\<rparr>" by simp
  then show ?thesis by blast
next
  case (Inr tk)
  with assms obtain w1 w2 where
    p: "step (Pause_c cid) [Paused cid] w = (None, w1)"
    and f: "fn w1 = (None, w2)"
    and r: "w' = snd (step (Resume_c cid) [Resumed cid] w2)"
    by (auto simp: pauseAndRun_def split: prod.splits option.splits)
  from step_trace [OF p] obtain t where w1: "w1 = w\<lparr>trace := t\<rparr>" by blast
  obtain t' where "w' = w2\<lparr>trace := t'\<rparr>"
    using step_trace [of "Resume_c cid" "[Resumed cid]" w2] r by (metis prod.collapse)
  with f w1 show ?thesis by blast
qed

lemma Update_wait_trace:
  "Update_wait cid has_task w = (r, w') \<Longrightarrow> \<exists>t. w' = w\<lparr>trace := t\<rparr>"
  by (auto simp: Update_wait_def Kill_def step_def split: if_splits option.splits prod.splits
      intro: exI [of _ "trace w"])

lemma Update_run_ok:
  assumes "Update_run (Update_changes current cfg vr) cid w = (Inr (), w')"
  shows "\<exists>r r1 t. Info w cid = Inr r
     \<and> apply_opts [WithSetPreviousConfig, WithBossConfig w vr cfg (ctr_Image cfg)] r = Inr r1
     \<and> w' = w\<lparr>containers := AList.update cid r1 (containers w), trace := t\<rparr>"
proof -
  from assms obtain has_task w1 where
    p: "pauseAndRun w cid (Update_body (Update_changes current cfg vr) cid has_task) = (None, w1)"
    and u: "Update_wait cid has_task w1 = (Inr (), w')"
    by (auto simp: Update_run_def split: sum.splits option.splits prod.splits if_splits)
  from pauseAndRun_ok [OF p] obtain t0 wm t1 where
    b: "Update_body (Update_changes current cfg vr) cid has_task (w\<lparr>trace := t0\<rparr>) = (None, wm)"
    and w1: "w1 = wm\<lparr>trace := t1\<rparr>"
    by blast
  from Update_body_ok [OF b] obtain r r1 tm where
    i: "Info w cid = Inr r"
    and a: "apply_opts [WithSetPreviousConfig, WithBossConfig w vr cfg (ctr_Image cfg)] r
              = Inr r1"
    and wm: "wm = w\<lparr>containers := AList.update cid r1 (containers w), trace := tm\<rparr>"
    by (auto simp: Info_trace WithBossConfig_trace)
  from Update_wait_trace [OF u] obtain t where "w' = w1\<lparr>trace := t\<rparr>" by blast
  then have "w' = w\<lparr>containers := AList.update cid r1 (containers w), trace := t\<rparr>"
    by (simp add: w1 wm)
  with i a show ?thesis by blast
qed

lemma Update_success:
  assumes "Update cfg w = (Inr (), w')"
  shows "\<exists>r r1 vr t. Info w (ctr_ID cfg) = Inr r
     \<and> apply_opts [WithSetPreviousConfig, WithBossConfig w vr cfg (ctr_Image cfg)] r = Inr r1
     \<and> w' = w\<lparr>containers := AList.update (ctr_ID cfg) r1 (containers w), trace := t\<rparr>"
proof -
  from assms obtain wl where
    l: "Update_leased cfg w = (Inr (), wl)" and w': "w' = did LeaseReleased wl"
    by (auto simp: Update_def release_def split: option.splits) (metis prod.collapse)
  from l obtain current vr where
    c: "LoadContainer w (ctr_ID cfg) = Inr (ctr_ID cfg)"
    and r: "Update_run (Update_changes current cfg vr) (ctr_ID cfg)
              (maintenance_loop (ctr_ID cfg) ''update container configuration''
                 (ctr_Services current) w) = (Inr (), wl)"
    by (auto simp: Update_leased_def LoadContainer_def Let_def
        split: sum.splits option.splits)
  obtain t0 where m: "maintenance_loop (ctr_ID cfg) ''update container configuration''
      (ctr_Services current) w = w\<lparr>trace := t0\<rparr>"
    using maintenance_loop_trace by blast
  from Update_run_ok [OF r [unfolded m]] obtain r0 r1 t1 where
    i: "Info w (ctr_ID cfg) = Inr r0"
    and a: "apply_opts [WithSetPreviousConfig, WithBossConfig w vr cfg (ctr_Image cfg)] r0
              = Inr r1"
    and wl: "wl = w\<lparr>containers := AList.update (ctr_ID cfg) r1 (containers w), trace := t1\<rparr>"
    by (auto simp: Info_trace WithBossConfig_trace)
  have "w' = w\<lparr>containers := AList.update (ctr_ID cfg) r1 (containers w),
      trace := t1 @ [LeaseReleased]\<rparr>"
    by (simp add: w' wl did_def)
  with i a show ?thesis by blast
qed

lemma Update_then_Rollback:
  assumes "Info w (ctr_ID cfg) = Inr r"
    and "Value (extension r CurrentConfig) \<noteq> None"
    and "Update cfg w = (Inr (), w1)"
    and "Rollback (ctr_ID cfg) w1 = (Inr (), w2)"
    and "\<forall>x y. flux_WithRollback w x = Inr y \<longrightarrow> c_Extensions y = c_Extensions x"
  shows "\<exists>r1 r2. map_of (containers w1) (ctr_ID cfg) = Some r1
     \<and> MarshalAny w cfg = Inr (extension r1 CurrentConfig)
     \<and> extension r1 LastConfig = extension r CurrentConfig
     \<and> map_of (containers w2) (ctr_ID cfg) = Some r2
     \<and> extension r2 CurrentConfig = extension r CurrentConfig
     \<and> extension r2 LastConfig = extension r CurrentConfig"
proof -
  from Update_success [OF assms(3)] assms(1) obtain r1 vr t where
    a: "apply_opts [WithSetPreviousConfig, WithBossConfig w vr cfg (ctr_Image cfg)] r = Inr r1"
    and w1: "w1 = w\<lparr>containers := AList.update (ctr_ID cfg) r1 (containers w), trace := t\<rparr>"
    by auto
  have m1: "map_of (containers w1) (ctr_ID cfg) = Some r1"
    by (simp add: w1 update_conv')
  from Rollback_success [OF assms(4)] obtain r1' x r2 where
    i: "Info w1 (ctr_ID cfg) = Inr r1'" and f: "flux_WithRollback w1 r1' = Inr x"
    and wr: "WithRollback x = Inr r2"
    and cs: "containers w2 = AList.update (ctr_ID cfg) r2 (containers w1)"
    by blast
  from i m1 have "r1' = r1"
    by (auto simp: Info_def split: option.splits)
  with f assms(5) have x: "c_Extensions x = c_Extensions r1"
    by (simp add: w1)
  from cs have m2: "map_of (containers w2) (ctr_ID cfg) = Some r2"
    by (simp add: update_conv')
  from swap_flux_rollback [OF assms(2) a x wr] m1 m2 show ?thesis by blast
qed

text \<open>
  C2, as the code has it.
  \<^item> The option \<^verbatim>\<open>WithRollback\<close> leaves the record as it is when no \<open>LastConfig\<close>
    value is present; otherwise it installs \<open>LastConfig\<close> as \<open>CurrentConfig\<close> and
    changes nothing else, so that \<open>LastConfig\<close> stays what it was.
  \<^item> A \<^verbatim>\<open>Rollback\<close> that succeeds has paused the task, stored the record that the
    rollback option of the snapshot package followed by \<^verbatim>\<open>WithRollback\<close> give, and
    sent \<^verbatim>\<open>SIGTERM\<close>.
  \<^item> Whatever the rollback option of the snapshot package does, a \<^verbatim>\<open>Rollback\<close>
    that succeeds does not swap the two configurations of a container whose
    \<open>CurrentConfig\<close> holds a value and differs from its \<open>LastConfig\<close>.
  \<^item> For a container whose \<open>CurrentConfig\<close> holds a value, and a rollback option of the
    snapshot package that leaves the extensions as they are: after an \<^verbatim>\<open>Update\<close> that
    succeeds, \<open>CurrentConfig\<close> is the new configuration and \<open>LastConfig\<close> the one from
    before; after a \<^verbatim>\<open>Rollback\<close> that succeeds next, \<open>CurrentConfig\<close> and
    \<open>LastConfig\<close> are both the configuration from before the update.
\<close>

theorem Rollback_installs_last:
  "(Value (extension c LastConfig) = None \<longrightarrow> WithRollback c = Inr c)
   \<and> (Value (extension c LastConfig) \<noteq> None \<longrightarrow>
        (\<exists>c'. WithRollback c = Inr c'
           \<and> extension c' CurrentConfig = extension c LastConfig
           \<and> (\<forall>k. k \<noteq> CurrentConfig \<longrightarrow> extension c' k = extension c k)
           \<and> c'\<lparr>c_Extensions := c_Extensions c\<rparr> = c))
   \<and> (\<forall>w'. Rollback rid w = (Inr (), w') \<longrightarrow>
        (\<exists>r r1 r2. Info w rid = Inr r \<and> flux_WithRollback w r = Inr r1
           \<and> WithRollback r1 = Inr r2
           \<and> containers w' = AList.update rid r2 (containers w)
           \<and> trace w' = trace w @ [Paused rid, Signalled rid SIGTERM]
                @ (if fault w (Resume_c rid) = None then [Resumed rid] else [])
                @ [LeaseReleased]))
   \<and> (\<forall>w' r. Rollback rid w = (Inr (), w') \<and> Info w rid = Inr r
         \<and> Value (extension r CurrentConfig) \<noteq> None
         \<and> extension r LastConfig \<noteq> extension r CurrentConfig \<longrightarrow>
        (\<exists>r'. map_of (containers w') rid = Some r'
           \<and> \<not> (extension r' CurrentConfig = extension r LastConfig
                \<and> extension r' LastConfig = extension r CurrentConfig)))
   \<and> (\<forall>r w1 w2. Info w (ctr_ID cfg) = Inr r
         \<and> Value (extension r CurrentConfig) \<noteq> None
         \<and> Update cfg w = (Inr (), w1)
         \<and> Rollback (ctr_ID cfg) w1 = (Inr (), w2)
         \<and> (\<forall>x y. flux_WithRollback w x = Inr y \<longrightarrow> c_Extensions y = c_Extensions x) \<longrightarrow>
        (\<exists>r1 r2. map_of (containers w1) (ctr_ID cfg) = Some r1
           \<and> MarshalAny w cfg = Inr (extension r1 CurrentConfig)
           \<and> extension r1 LastConfig = extension r CurrentConfig
           \<and> map_of (containers w2) (ctr_ID cfg) = Some r2
           \<and> extension r2 CurrentConfig = extension r CurrentConfig
           \<and> extension r2 LastConfig = extension r CurrentConfig))"
proof (intro conjI allI impI)
  assume "Value (extension c LastConfig) = None"
  then show "WithRollback c = Inr c" by (rule WithRollback_absent)
next
  assume "Value (extension c LastConfig) \<noteq> None"
  then show "\<exists>c'. WithRollback c = Inr c'
      \<and> extension c' CurrentConfig = extension c LastConfig
      \<and> (\<forall>k. k \<noteq> CurrentConfig \<longrightarrow> extension c' k = extension c k)
      \<and> c'\<lparr>c_Extensions := c_Extensions c\<rparr> = c"
    by (rule WithRollback_present)
next
  fix w'
  assume "Rollback rid w = (Inr (), w')"
  then show "\<exists>r r1 r2. Info w rid = Inr r \<and> flux_WithRollback w r = Inr r1
      \<and> WithRollback r1 = Inr r2
      \<and> containers w' = AList.update rid r2 (containers w)
      \<and> trace w' = trace w @ [Paused rid, Signalled rid SIGTERM]
           @ (if fault w (Resume_c rid) = None then [Resumed rid] else []) @ [LeaseReleased]"
    by (rule Rollback_success)
next
  fix w' r
  assume "Rollback rid w = (Inr (), w') \<and> Info w rid = Inr r
      \<and> Value (extension r CurrentConfig) \<noteq> None
      \<and> extension r LastConfig \<noteq> extension r CurrentConfig"
  then show "\<exists>r'. map_of (containers w') rid = Some r'
      \<and> \<not> (extension r' CurrentConfig = extension r LastConfig
           \<and> extension r' LastConfig = extension r CurrentConfig)"
    using Rollback_never_swaps by blast
next
  fix r w1 w2
  assume "Info w (ctr_ID cfg) = Inr r
      \<and> Value (extension r CurrentConfig) \<noteq> None
      \<and> Update cfg w = (Inr (), w1)
      \<and> Rollback (ctr_ID cfg) w1 = (Inr (), w2)
      \<and> (\<forall>x y. flux_WithRollback w x = Inr y \<longrightarrow> c_Extensions y = c_Extensions x)"
  then show "\<exists>r1 r2. map_of (containers w1) (ctr_ID cfg) = Some r1
      \<and> MarshalAny w cfg = Inr (extension r1 CurrentConfig)
      \<and> extension r1 LastConfig = extension r CurrentConfig
      \<and> map_of (containers w2) (ctr_ID cfg) = Some r2
      \<and> extension r2 CurrentConfig = extension r CurrentConfig
      \<and> extension r2 LastConfig = extension r CurrentConfig"
    using Update_then_Rollback [of w cfg r w1 w2] by blast
qed

lemma web_rec2_extensions:
  "extension web_rec2 CurrentConfig = enc web_cfg2" "extension web_rec2 LastConfig = enc web_cfg"
  by (simp_all add: web_rec2_def extension_def CurrentConfig_def LastConfig_def)

lemma enc_Value: "Value (enc c) \<noteq> None"
  by (simp add: enc_def)

lemma config_key_nonempty: "CurrentConfig \<noteq> []"
  by (simp add: CurrentConfig_def)

lemma Info_run_web: "Info node_run ''web'' = Inr web_rec"
  by (simp add: Info_def node_run_def node0_def)

lemma Update_run_web: "fst (Update web_cfg2 node_run) = Inr ()"
proof -
  have r: "node_run = node_run \<or> node_run = node_stuck" by simp
  obtain w2 where p: "pauseAndRun node_run ''web''
      (Update_body (Update_changes web_cfg web_cfg2 '''') ''web'' True) = (None, w2)"
    using paused_run_web(1) [OF r] by (metis prod.collapse)
  have f: "fault w2 = fault node_run" and x: "exits_in_time w2 = (\<lambda>_. False)"
    using paused_run_web(3,4) [OF r] by (simp_all add: p)
  have k: "fault w2 (Kill_c ''web'' SIGKILL) = None"
    by (simp add: f node_run_def node0_def)
  show ?thesis
    using Update_path_web [OF r] p k x
    by (simp add: Update_def Update_leased_def Update_run_def Update_wait_def Kill_def step_def
        release_def)
qed

lemma Rollback_after_Update_web:
  assumes "Update web_cfg2 node_run = (Inr (), w1)"
  shows "fst (Rollback ''web'' w1) = Inr ()"
proof -
  from Update_success [OF assms] obtain r r1 vr t where
    i: "Info node_run (ctr_ID web_cfg2) = Inr r"
    and a: "apply_opts [WithSetPreviousConfig,
              WithBossConfig node_run vr web_cfg2 (ctr_Image web_cfg2)] r = Inr r1"
    and w1: "w1 = node_run\<lparr>containers :=
               AList.update (ctr_ID web_cfg2) r1 (containers node_run), trace := t\<rparr>"
    by blast
  from i have r: "r = web_rec"
    by (simp add: web_cfg2_fields Info_run_web)
  from a have e: "c_Extensions r1 =
      Some ([CurrentConfig \<mapsto> enc web_cfg, LastConfig \<mapsto> enc web_cfg, CurrentConfig \<mapsto> enc web_cfg2])"
    using config_key_nonempty
    by (auto simp: r WithSetPreviousConfig_def WithBossConfig_def WithContainerExtension_def
        set_extension_def extension_def web_rec_def node_run_def node0_def
        split: option.splits sum.splits)
  show ?thesis
    by (simp add: w1 web_cfg2_fields Rollback_def release_def did_def LoadContainer_def
        pauseAndRun_def Rollback_body_def container_Update_def Task_def step_def Kill_def
        Info_def WithRollback_def set_extension_def extension_def e enc_Value Let_def
        config_keys_differ node_run_def node0_def)
qed

text \<open>
  The theorem at work. The record \<open>web_rec\<close> has no previous configuration and is left
  alone by \<^verbatim>\<open>WithRollback\<close>. On \<open>node_run\<close>, where the rollback option of the snapshot
  package leaves the record as it is, the update of \<open>web\<close> from \<open>web_cfg\<close> to
  \<open>web_cfg2\<close> succeeds, the rollback that follows succeeds, and both \<open>CurrentConfig\<close>
  and \<open>LastConfig\<close> are \<open>web_cfg\<close> afterwards.
\<close>

theorem Rollback_installs_last_witness:
  "WithRollback web_rec = Inr web_rec
   \<and> fst (Update web_cfg2 node_run) = Inr ()
   \<and> map_option (\<lambda>r. extension r CurrentConfig)
        (map_of (containers (snd (Update web_cfg2 node_run))) ''web'') = Some (enc web_cfg2)
   \<and> map_option (\<lambda>r. extension r LastConfig)
        (map_of (containers (snd (Update web_cfg2 node_run))) ''web'') = Some (enc web_cfg)
   \<and> fst (Rollback ''web'' (snd (Update web_cfg2 node_run))) = Inr ()
   \<and> map_option (\<lambda>r. extension r CurrentConfig)
        (map_of (containers (snd (Rollback ''web'' (snd (Update web_cfg2 node_run))))) ''web'')
       = Some (enc web_cfg)
   \<and> map_option (\<lambda>r. extension r LastConfig)
        (map_of (containers (snd (Rollback ''web'' (snd (Update web_cfg2 node_run))))) ''web'')
       = Some (enc web_cfg)"
proof -
  have cur: "extension web_rec CurrentConfig = enc web_cfg"
    and noprev: "Value (extension web_rec LastConfig) = None"
    by (simp_all add: web_rec_def extension_def CurrentConfig_def LastConfig_def zero_Any_def)
  note t = Rollback_installs_last [of web_rec "''web''" node_run web_cfg2]
  from t noprev have a: "WithRollback web_rec = Inr web_rec" by blast
  obtain w1 where u: "Update web_cfg2 node_run = (Inr (), w1)"
    using Update_run_web by (metis prod.collapse)
  obtain w2 where b: "Rollback ''web'' w1 = (Inr (), w2)"
    using Rollback_after_Update_web [OF u] by (metis prod.collapse)
  have i: "Info node_run (ctr_ID web_cfg2) = Inr web_rec"
    by (simp add: web_cfg2_fields Info_run_web)
  have v: "Value (extension web_rec CurrentConfig) \<noteq> None"
    by (simp add: cur enc_Value)
  have f: "\<forall>x y. flux_WithRollback node_run x = Inr y \<longrightarrow> c_Extensions y = c_Extensions x"
    by (simp add: node_run_def node0_def)
  have b': "Rollback (ctr_ID web_cfg2) w1 = (Inr (), w2)"
    using b by (simp add: web_cfg2_fields)
  from t i v u b' f obtain r1 r2 where
    m1: "map_of (containers w1) (ctr_ID web_cfg2) = Some r1"
    and e1: "MarshalAny node_run web_cfg2 = Inr (extension r1 CurrentConfig)"
    and l1: "extension r1 LastConfig = extension web_rec CurrentConfig"
    and m2: "map_of (containers w2) (ctr_ID web_cfg2) = Some r2"
    and e2: "extension r2 CurrentConfig = extension web_rec CurrentConfig"
    and l2: "extension r2 LastConfig = extension web_rec CurrentConfig"
    by blast
  from e1 have e1': "extension r1 CurrentConfig = enc web_cfg2"
    by (simp add: node_run_def node0_def)
  from a m1 e1' l1 m2 e2 l2 show ?thesis
    by (simp add: u b cur web_cfg2_fields)
qed

text \<open>
  C2 as the claim has it fails. On \<open>node_updated\<close> the container \<open>web\<close> was updated
  from \<open>web_cfg\<close> to \<open>web_cfg2\<close>; the rollback succeeds, and afterwards \<open>LastConfig\<close>
  is still \<open>web_cfg\<close>, not the configuration \<open>web_cfg2\<close> that was current before the
  rollback. This does not hang on the rollback option of the snapshot package, which is
  not among the sources: whatever option is put in its place, no rollback of \<open>web\<close> that
  succeeds on this node ends with the two configurations swapped.
\<close>

theorem Rollback_no_swap_counterexample:
  "fst (Rollback ''web'' node_updated) = Inr ()
   \<and> map_option (\<lambda>r. extension r CurrentConfig) (map_of (containers node_updated) ''web'')
       = Some (enc web_cfg2)
   \<and> map_option (\<lambda>r. extension r LastConfig) (map_of (containers node_updated) ''web'')
       = Some (enc web_cfg)
   \<and> map_option (\<lambda>r. extension r CurrentConfig)
        (map_of (containers (snd (Rollback ''web'' node_updated))) ''web'') = Some (enc web_cfg)
   \<and> map_option (\<lambda>r. extension r LastConfig)
        (map_of (containers (snd (Rollback ''web'' node_updated))) ''web'') = Some (enc web_cfg)
   \<and> enc web_cfg2 \<noteq> enc web_cfg
   \<and> \<not> (\<exists>f w' r'. Rollback ''web'' (node_updated\<lparr>flux_WithRollback := f\<rparr>) = (Inr (), w')
          \<and> map_of (containers w') ''web'' = Some r'
          \<and> extension r' CurrentConfig = enc web_cfg
          \<and> extension r' LastConfig = enc web_cfg2)"
proof -
  have a: "fst (Rollback ''web'' node_updated) = Inr ()
     \<and> map_option (\<lambda>r. extension r CurrentConfig) (map_of (containers node_updated) ''web'')
         = Some (enc web_cfg2)
     \<and> map_option (\<lambda>r. extension r LastConfig) (map_of (containers node_updated) ''web'')
         = Some (enc web_cfg)
     \<and> map_option (\<lambda>r. extension r CurrentConfig)
          (map_of (containers (snd (Rollback ''web'' node_updated))) ''web'') = Some (enc web_cfg)
     \<and> map_option (\<lambda>r. extension r LastConfig)
          (map_of (containers (snd (Rollback ''web'' node_updated))) ''web'') = Some (enc web_cfg)
     \<and> enc web_cfg2 \<noteq> enc web_cfg"
    by (simp add: Rollback_def release_def did_def LoadContainer_def pauseAndRun_def
        Rollback_body_def container_Update_def Task_def step_def Kill_def Info_def
        WithRollback_def enc_Value set_extension_def extension_def web_rec2_def
        CurrentConfig_def LastConfig_def config_differs Let_def
        node_updated_def node_run_def node0_def)
  have b: False
    if s: "Rollback ''web'' (node_updated\<lparr>flux_WithRollback := f\<rparr>) = (Inr (), w')"
      and m: "map_of (containers w') ''web'' = Some r'"
      and c: "extension r' CurrentConfig = enc web_cfg"
      and l: "extension r' LastConfig = enc web_cfg2" for f w' r'
  proof -
    have i: "Info (node_updated\<lparr>flux_WithRollback := f\<rparr>) ''web'' = Inr web_rec2"
      by (simp add: Info_def node_updated_def node_run_def node0_def)
    have v: "Value (extension web_rec2 CurrentConfig) \<noteq> None"
      by (simp add: web_rec2_extensions enc_Value)
    have d: "extension web_rec2 LastConfig \<noteq> extension web_rec2 CurrentConfig"
      using config_differs by (simp add: web_rec2_extensions)
    from Rollback_never_swaps [OF s i v d] m c l show False
      by (simp add: web_rec2_extensions)
  qed
  from a b show ?thesis by blast
qed

section \<open>Reads of the store\<close>

lemma volumeRoot_read_error:
  "volumeRoot_read st = Inl e \<Longrightarrow> Do_err st (GET VolumeRootKey) = Some e \<and> e \<noteq> ErrNil"
  by (auto simp: volumeRoot_read_def redis_String_def doLocal_def
      split: option.splits sum.splits if_splits reply.splits)

lemma withPlainRemote_error:
  "withPlainRemote st ref = Inl e \<Longrightarrow>
     Do_err st (SISMEMBER PlainRemotesKey (remote_of ref)) = Some e \<and> e \<noteq> ErrNil"
  by (auto simp: withPlainRemote_def redis_Bool_def doLocal_def
      split: option.splits sum.splits if_splits reply.splits)

lemma volumeRoot_read_surfaces:
  "Do_err st (GET VolumeRootKey) = Some e \<Longrightarrow> e \<noteq> ErrNil \<Longrightarrow> volumeRoot_read st = Inl e"
  by (simp add: volumeRoot_read_def redis_String_def doLocal_def)

lemma withPlainRemote_surfaces:
  "Do_err st (SISMEMBER PlainRemotesKey (remote_of ref)) = Some e \<Longrightarrow> e \<noteq> ErrNil \<Longrightarrow>
     withPlainRemote st ref = Inl e"
  by (simp add: withPlainRemote_def redis_Bool_def doLocal_def)

lemma withPlainRemote_member:
  "Do_err st (SISMEMBER PlainRemotesKey (remote_of ref)) = None \<Longrightarrow>
     withPlainRemote st ref =
       Inr (case sets st PlainRemotesKey of None \<Rightarrow> False | Some hosts \<Rightarrow> remote_of ref \<in> hosts)"
  by (simp add: withPlainRemote_def redis_Bool_def doLocal_def split: option.splits)

lemma remote_of_r1: "remote_of ''r/nginx:1'' = ''r''"
  by (simp add: remote_of_def)

text \<open>
  C9. A read of the store treats a missing key as an empty value, and returns every
  other error of the command.
  \<^item> The volume root: when the \<^verbatim>\<open>GET\<close> goes through and the key is absent, the read
    gives the empty string and \<^verbatim>\<open>Create\<close> goes on to create the container with it;
    when the key is there, the read gives its value and \<^verbatim>\<open>Create\<close> goes on with that;
    when the command fails with an error other than the library's nil error, the read
    returns that error and so does \<^verbatim>\<open>Create\<close>, which creates nothing.
  \<^item> The plain remotes: when the \<^verbatim>\<open>SISMEMBER\<close> goes through and the registry host is
    not in the set (or the set is absent), the option sets plain HTTP to false, and a
    pull and a push are made with it; when the host is in the set, plain HTTP is true;
    when the command fails with an error other than the nil error, the option returns
    that error, and so do the pull and the push, which do nothing.
  \<^item> The only error either read returns is the error of the command.
\<close>

theorem store_missing_key_is_empty:
  "(Do_err (kv w) (GET VolumeRootKey) = None \<and> strings (kv w) VolumeRootKey = None \<longrightarrow>
      volumeRoot_read (kv w) = Inr '''' \<and> Create_new c img w = Create_with '''' c img w)
   \<and> (\<forall>v. Do_err (kv w) (GET VolumeRootKey) = None \<and> strings (kv w) VolumeRootKey = Some v \<longrightarrow>
         volumeRoot_read (kv w) = Inr v \<and> Create_new c img w = Create_with v c img w)
   \<and> (\<forall>e. Do_err (kv w) (GET VolumeRootKey) = Some e \<and> e \<noteq> ErrNil \<longrightarrow>
         volumeRoot_read (kv w) = Inl e \<and> Create_new c img w = (Inl e, w))
   \<and> (Do_err (kv w) (SISMEMBER PlainRemotesKey (remote_of ref)) = None
        \<and> (\<forall>hosts. sets (kv w) PlainRemotesKey = Some hosts \<longrightarrow> remote_of ref \<notin> hosts) \<longrightarrow>
      withPlainRemote (kv w) ref = Inr False
      \<and> (fault w (Pull_c ref) = None \<longrightarrow> Pull w ref = (Inr ref, did (Pulled ref False) w))
      \<and> (fault w (Push_c ref) = None \<longrightarrow>
           fst (client_Push w ref target) = None
           \<and> trace (snd (client_Push w ref target)) = trace w @ [Pushed ref False]))
   \<and> (\<forall>hosts. Do_err (kv w) (SISMEMBER PlainRemotesKey (remote_of ref)) = None
        \<and> sets (kv w) PlainRemotesKey = Some hosts \<and> remote_of ref \<in> hosts \<longrightarrow>
      withPlainRemote (kv w) ref = Inr True
      \<and> (fault w (Pull_c ref) = None \<longrightarrow> Pull w ref = (Inr ref, did (Pulled ref True) w))
      \<and> (fault w (Push_c ref) = None \<longrightarrow>
           fst (client_Push w ref target) = None
           \<and> trace (snd (client_Push w ref target)) = trace w @ [Pushed ref True]))
   \<and> (\<forall>e. Do_err (kv w) (SISMEMBER PlainRemotesKey (remote_of ref)) = Some e \<and> e \<noteq> ErrNil \<longrightarrow>
         withPlainRemote (kv w) ref = Inl e \<and> Pull w ref = (Inl e, w)
         \<and> client_Push w ref target = (Some e, w))
   \<and> (\<forall>e. volumeRoot_read (kv w) = Inl e \<longrightarrow>
         Do_err (kv w) (GET VolumeRootKey) = Some e \<and> e \<noteq> ErrNil)
   \<and> (\<forall>e. withPlainRemote (kv w) ref = Inl e \<longrightarrow>
         Do_err (kv w) (SISMEMBER PlainRemotesKey (remote_of ref)) = Some e \<and> e \<noteq> ErrNil)"
proof -
  have c1: "volumeRoot_read (kv w) = Inr '''' \<and> Create_new c img w = Create_with '''' c img w"
    if "Do_err (kv w) (GET VolumeRootKey) = None \<and> strings (kv w) VolumeRootKey = None"
    using that by (simp add: Create_new_def volumeRoot_read_def redis_String_def doLocal_def)
  have c2: "volumeRoot_read (kv w) = Inr v \<and> Create_new c img w = Create_with v c img w"
    if "Do_err (kv w) (GET VolumeRootKey) = None \<and> strings (kv w) VolumeRootKey = Some v" for v
    using that by (simp add: Create_new_def volumeRoot_read_def redis_String_def doLocal_def)
  have c3: "volumeRoot_read (kv w) = Inl e \<and> Create_new c img w = (Inl e, w)"
    if "Do_err (kv w) (GET VolumeRootKey) = Some e \<and> e \<noteq> ErrNil" for e
    using that by (simp add: Create_new_def volumeRoot_read_surfaces)
  have pl: "Pull w ref = (Inr ref, did (Pulled ref b) w)"
    if "withPlainRemote (kv w) ref = Inr b" "fault w (Pull_c ref) = None" for b
    using that by (simp add: Pull_def step_def did_def)
  have ps: "fst (client_Push w ref target) = None
      \<and> trace (snd (client_Push w ref target)) = trace w @ [Pushed ref b]"
    if "withPlainRemote (kv w) ref = Inr b" "fault w (Push_c ref) = None" for b
    using that by (simp add: client_Push_def step_def)
  have c4: "withPlainRemote (kv w) ref = Inr False"
    if "Do_err (kv w) (SISMEMBER PlainRemotesKey (remote_of ref)) = None
        \<and> (\<forall>hosts. sets (kv w) PlainRemotesKey = Some hosts \<longrightarrow> remote_of ref \<notin> hosts)"
    using that by (simp add: withPlainRemote_member split: option.splits)
  have c5: "withPlainRemote (kv w) ref = Inr True"
    if "Do_err (kv w) (SISMEMBER PlainRemotesKey (remote_of ref)) = None
        \<and> sets (kv w) PlainRemotesKey = Some hosts \<and> remote_of ref \<in> hosts" for hosts
    using that by (simp add: withPlainRemote_member)
  have c6: "withPlainRemote (kv w) ref = Inl e \<and> Pull w ref = (Inl e, w)
      \<and> client_Push w ref target = (Some e, w)"
    if "Do_err (kv w) (SISMEMBER PlainRemotesKey (remote_of ref)) = Some e \<and> e \<noteq> ErrNil" for e
    using that by (simp add: withPlainRemote_surfaces Pull_def client_Push_def)
  show ?thesis
    using c1 c2 c3 c4 c5 c6 pl ps volumeRoot_read_error withPlainRemote_error
    by (intro conjI allI impI) blast+
qed

text \<open>
  The theorem at work. On \<open>node0\<close>, whose store is empty, \<^verbatim>\<open>Create\<close> of \<open>web\<close> pulls
  over HTTPS and creates the container with the empty volume root. On \<open>node_keys\<close> it
  pulls over plain HTTP and creates the container with the volume root \<^verbatim>\<open>/vol\<close>. On
  \<open>node_get_down\<close> it pulls, fails with the error of the \<^verbatim>\<open>GET\<close> and creates nothing;
  on \<open>node_store_down\<close> it fails with the error of the \<^verbatim>\<open>SISMEMBER\<close> before it pulls.
\<close>

theorem store_missing_key_is_empty_witness:
  "fst (Create web_cfg False node0) = Inr ()
   \<and> map_option c_Spec (map_of (containers (snd (Create web_cfg False node0))) ''web'')
       = Some (Some (Spec '''' web_cfg ''r/nginx:1''))
   \<and> trace (snd (Create web_cfg False node0)) =
       [Pulled ''r/nginx:1'' False, ConfigWritten ''web'', UnitEnabled ''web'',
        UnitStarted ''web'']
   \<and> fst (Create web_cfg False node_keys) = Inr ()
   \<and> map_option c_Spec (map_of (containers (snd (Create web_cfg False node_keys))) ''web'')
       = Some (Some (Spec ''/vol'' web_cfg ''r/nginx:1''))
   \<and> trace (snd (Create web_cfg False node_keys)) =
       [Pulled ''r/nginx:1'' True, ConfigWritten ''web'', UnitEnabled ''web'',
        UnitStarted ''web'']
   \<and> fst (Create web_cfg False node_get_down) =
       Inl (Failure ''dial tcp 127.0.0.1:9000: connection refused'')
   \<and> containers (snd (Create web_cfg False node_get_down)) = []
   \<and> trace (snd (Create web_cfg False node_get_down)) = [Pulled ''r/nginx:1'' False]
   \<and> Create web_cfg False node_store_down =
       (Inl (Failure ''dial tcp 127.0.0.1:9000: connection refused''), node_store_down)"
proof -
  note t = store_missing_key_is_empty [of _ web_cfg "''r/nginx:1''" "''r/nginx:1''"]
  have created: "fst (Create_with v web_cfg ''r/nginx:1'' w1) = Inr ()
      \<and> map_option c_Spec (map_of (containers (snd (Create_with v web_cfg ''r/nginx:1'' w1))) ''web'')
          = Some (Some (Spec v web_cfg ''r/nginx:1''))
      \<and> trace (snd (Create_with v web_cfg ''r/nginx:1'' w1)) =
          [Pulled ''r/nginx:1'' b, ConfigWritten ''web'', UnitEnabled ''web'', UnitStarted ''web'']"
    if "w1 = did (Pulled ''r/nginx:1'' b) (node0\<lparr>kv := st\<rparr>)" for v w1 b st
    unfolding that
    by (simp add: Create_with_def NewContainer_def WithBossConfig_def
        WithContainerExtension_def new_record_def step_def did_def web_cfg_fields
        CurrentConfig_def node0_def)
  have load: "LoadContainer (did ef (node0\<lparr>kv := st\<rparr>)) ''web'' = Inl ErrNotFound" for ef st
    by (simp add: LoadContainer_def did_def node0_def)
  have n0: "node0 = node0\<lparr>kv := kv node0\<rparr>" by simp
  have "Pull node0 ''r/nginx:1'' = (Inr ''r/nginx:1'', did (Pulled ''r/nginx:1'' False) node0)"
    using t [of node0] by (simp add: node0_def remote_of_r1)
  moreover have "Create_new web_cfg ''r/nginx:1'' (did (Pulled ''r/nginx:1'' False) node0) =
      Create_with '''' web_cfg ''r/nginx:1'' (did (Pulled ''r/nginx:1'' False) node0)"
    using t [of "did (Pulled ''r/nginx:1'' False) node0"] by (simp add: did_def node0_def)
  ultimately have a: "Create web_cfg False node0 =
      Create_with '''' web_cfg ''r/nginx:1'' (did (Pulled ''r/nginx:1'' False) node0)"
    using load [of _ "kv node0"] by (simp add: Create_def web_cfg_fields)
  have "Pull node_keys ''r/nginx:1'' = (Inr ''r/nginx:1'', did (Pulled ''r/nginx:1'' True) node_keys)"
    using t [of node_keys] by (simp add: node_keys_def node0_def remote_of_r1)
  moreover have "Create_new web_cfg ''r/nginx:1'' (did (Pulled ''r/nginx:1'' True) node_keys) =
      Create_with ''/vol'' web_cfg ''r/nginx:1'' (did (Pulled ''r/nginx:1'' True) node_keys)"
    using t [of "did (Pulled ''r/nginx:1'' True) node_keys"]
    by (simp add: did_def node_keys_def node0_def)
  ultimately have b: "Create web_cfg False node_keys =
      Create_with ''/vol'' web_cfg ''r/nginx:1'' (did (Pulled ''r/nginx:1'' True) node_keys)"
    using load by (simp add: Create_def web_cfg_fields node_keys_def)
  have "Pull node_get_down ''r/nginx:1'' =
      (Inr ''r/nginx:1'', did (Pulled ''r/nginx:1'' False) node_get_down)"
    using t [of node_get_down] by (simp add: node_get_down_def node0_def remote_of_r1)
  moreover have "Create_new web_cfg ''r/nginx:1'' (did (Pulled ''r/nginx:1'' False) node_get_down) =
      (Inl (Failure ''dial tcp 127.0.0.1:9000: connection refused''),
       did (Pulled ''r/nginx:1'' False) node_get_down)"
    using t [of "did (Pulled ''r/nginx:1'' False) node_get_down"]
    by (simp add: did_def node_get_down_def node0_def)
  ultimately have c: "Create web_cfg False node_get_down =
      (Inl (Failure ''dial tcp 127.0.0.1:9000: connection refused''),
       did (Pulled ''r/nginx:1'' False) node_get_down)"
    using load by (simp add: Create_def web_cfg_fields node_get_down_def)
  have "Pull node_store_down ''r/nginx:1'' =
      (Inl (Failure ''dial tcp 127.0.0.1:9000: connection refused''), node_store_down)"
    using t [of node_store_down] by (simp add: node_store_down_def node0_def remote_of_r1)
  then have d: "Create web_cfg False node_store_down =
      (Inl (Failure ''dial tcp 127.0.0.1:9000: connection refused''), node_store_down)"
    by (simp add: Create_def web_cfg_fields)
  show ?thesis
    unfolding a b c d
    using created [where b = False and st = "kv node0" and v = "''''", OF refl]
      created [where b = True and st = "kv node_keys" and v = "''/vol''", OF refl]
    by (simp add: did_def node_keys_def node_get_down_def node0_def)
qed

section \<open>Checkpoint and restore\<close>

lemma pauseAndRun_capture_unit:
  "pauseAndRun w cid fn =
     (case pauseAndRun_capture w cid () (\<lambda>u w. case fn w of (r, w') \<Rightarrow> (r, u, w')) of
        (r, u, w') \<Rightarrow> (r, w'))"
  by (auto simp: pauseAndRun_def pauseAndRun_capture_def
      split: sum.splits prod.splits option.splits)

lemma media_types_differ: "MediaTypeImageLayer \<noteq> MediaTypeImageLayerGzip"
  "MediaTypeContainerInfo \<noteq> MediaTypeImageLayerGzip"
  "MediaTypeContainerInfo \<noteq> MediaTypeImageLayer"
  by (simp_all add: MediaTypeImageLayer_def MediaTypeImageLayerGzip_def
      MediaTypeContainerInfo_def)

lemma remote_of_ck: "remote_of ''r/ck/web:1'' = ''r''"
  by (simp add: remote_of_def)

lemma Checkpoint_web:
  "Checkpoint ck_request node_run =
     (Inr (), node_run\<lparr>tasks := Map.empty,
        blobs := [BlobInfo web_rec, BlobDiff ''web'', BlobIndex web_index],
        images := [''r/ck/web:1'' \<mapsto>
          \<lparr>d_MediaType = MediaTypeImageIndex, d_Digest = 2, d_Size = 0, d_Platform = None\<rparr>],
        trace := [Paused ''web'', Resumed ''web'', UnitStopped ''web'', LeaseReleased]\<rparr>)"
  by (simp add: Checkpoint_def release_def Checkpoint_leased_def LoadContainer_def Info_def
      writeContent_def pauseAndRun_capture_def Task_def step_def Checkpoint_body_def
      CreateDiff_def Checkpoint_image_def writeIndex_def ImageCreate_def systemd_Stop_def
      did_def host_platform_def Let_def ck_request_def node_run_def node0_def
      media_types_differ web_index_def linux_amd64_def web_rec_def numeral_2_eq_2)

lemma Delete_web:
  "Delete ''web'' node_saved =
     (Inr (), node_run\<lparr>containers := [], tasks := Map.empty,
        blobs := [BlobInfo web_rec, BlobDiff ''web'', BlobIndex web_index],
        images := [''r/ck/web:1'' \<mapsto>
          \<lparr>d_MediaType = MediaTypeImageIndex, d_Digest = 2, d_Size = 0, d_Platform = None\<rparr>],
        trace := [Paused ''web'', Resumed ''web'', UnitStopped ''web'', LeaseReleased,
          UnitStopped ''web'', UnitDisabled ''web'', NetworkRemoved ''web'',
          ContainerDeleted ''web'' WithRevisionCleanup]\<rparr>)"
  by (simp add: node_saved_def Checkpoint_web)
    (simp add: Delete_def LoadContainer_def systemd_Stop_def step_def GetConfig_def Info_def
      UnmarshalConfig_def extension_def dec_web container_Delete_def web_cfg_fields
      node_run_def node0_def web_rec_def)

lemma Restore_needs_gzip:
  assumes "Restore req w = (Inr (), w')"
  shows "\<exists>target w1 index rw. Restore_image w (rs_Ref req) = (Inr target, w1)
     \<and> decodeIndex w1 target = Inr index
     \<and> getByMediaType index MediaTypeImageLayerGzip = Inr rw"
proof -
  from assms obtain target w1 index config where
    i: "Restore_image w (rs_Ref req) = (Inr target, w1)"
    and d: "decodeIndex w1 target = Inr index"
    and n: "Restore_new req index config w1 = (Inr (), w')"
    by (auto simp: Restore_def split: if_splits prod.splits sum.splits)
  from n obtain cid w2 where "Restore_created cid index config w2 = (Inr (), w')"
    by (auto simp: Restore_new_def split: prod.splits sum.splits)
  then obtain rw where "getByMediaType index MediaTypeImageLayerGzip = Inr rw"
    by (auto simp: Restore_created_def split: sum.splits)
  with i d show ?thesis by blast
qed

text \<open>
  C1 fails on the code. On \<open>node_run\<close> the checkpoint of \<open>web\<close> succeeds, and the
  index of its image holds the container record and the diff of the read-write layer
  under the media type of a plain tar layer, not of a gzip layer. Once the container is
  deleted, the restore from that image creates the container anew and then fails to find
  a descriptor of the gzip media type.
\<close>

theorem Checkpoint_then_Restore:
  "fst (Checkpoint ck_request node_run) = Inr ()
   \<and> images node_saved ''r/ck/web:1'' =
       Some \<lparr>d_MediaType = MediaTypeImageIndex, d_Digest = 2, d_Size = 0, d_Platform = None\<rparr>
   \<and> blobs node_saved ! 2 = BlobIndex web_index
   \<and> map d_MediaType (Manifests web_index) =
       [''application/vnd.boss.container.info.v1+json'',
        ''application/vnd.oci.image.layer.v1.tar'']
   \<and> fst (Delete ''web'' node_saved) = Inr ()
   \<and> containers node_cleared = []
   \<and> fst (Restore rs_request node_cleared) = Inl errMediaTypeNotFound
   \<and> map fst (containers (snd (Restore rs_request node_cleared))) = [''web'']"
proof -
  have s: "node_saved = node_run\<lparr>tasks := Map.empty,
      blobs := [BlobInfo web_rec, BlobDiff ''web'', BlobIndex web_index],
      images := [''r/ck/web:1'' \<mapsto>
        \<lparr>d_MediaType = MediaTypeImageIndex, d_Digest = 2, d_Size = 0, d_Platform = None\<rparr>],
      trace := [Paused ''web'', Resumed ''web'', UnitStopped ''web'', LeaseReleased]\<rparr>"
    by (simp add: node_saved_def Checkpoint_web)
  have c: "node_cleared = node_run\<lparr>containers := [], tasks := Map.empty,
      blobs := [BlobInfo web_rec, BlobDiff ''web'', BlobIndex web_index],
      images := [''r/ck/web:1'' \<mapsto>
        \<lparr>d_MediaType = MediaTypeImageIndex, d_Digest = 2, d_Size = 0, d_Platform = None\<rparr>],
      trace := [Paused ''web'', Resumed ''web'', UnitStopped ''web'', LeaseReleased,
        UnitStopped ''web'', UnitDisabled ''web'', NetworkRemoved ''web'',
        ContainerDeleted ''web'' WithRevisionCleanup]\<rparr>"
    by (simp add: node_cleared_def Delete_web)
  have r: "fst (Restore rs_request node_cleared) = Inl errMediaTypeNotFound
      \<and> map fst (containers (snd (Restore rs_request node_cleared))) = [''web'']"
    unfolding c
    by (simp add: Restore_def rs_request_def Restore_image_def GetImage_def decodeIndex_def
        ReadBlob_def json_Index_def Restore_config_def getByMediaType_def web_index_def
        json_Container_def GetConfigFromInfo_def UnmarshalConfig_def extension_def dec_web
        Restore_new_def Pull_def withPlainRemote_def redis_Bool_def doLocal_def step_def
        volumeRoot_read_def redis_String_def Restore_opts_def NewContainer_def new_record_def
        WithBossConfig_def WithContainerExtension_def Restore_created_def Info_def
        media_types_differ web_cfg_fields node_run_def node0_def web_rec_def
        config_key_nonempty)
  show ?thesis
    using r
    by (simp add: Checkpoint_web Delete_web) (simp add: s c web_index_def
        MediaTypeContainerInfo_def MediaTypeImageLayer_def)
qed

section \<open>The cleanup of \<^verbatim>\<open>Restore\<close>\<close>

lemma Restore_created_leaves:
  assumes "Restore_created cid index config w = (Inl e, w')"
    and "fault w (StoreWrite_c (ctr_ID config)) = None"
  shows "containers w' = containers w
     \<and> (\<exists>efs. trace w' = trace w @ efs \<and> (\<forall>cl. ContainerDeleted cid cl \<notin> set efs))"
  using assms
  by (auto simp: Restore_created_def step_def
      split: sum.splits option.splits prod.splits if_splits)

text \<open>
  C4 fails on the code. \<open>node_ck\<close> holds no container and a checkpoint image of \<open>web\<close>
  with a gzip layer. The restore creates the container \<open>web\<close>, applies the layer and
  persists the configuration; then the unit manager fails to enable the unit, the restore
  returns that error, and the container it created is still there: no delete was asked
  of the runtime.
\<close>

theorem Restore_leaves_container:
  "containers node_ck = []
   \<and> fst (Restore rs_request node_ck) = Inl (Failure ''systemd: enable failed'')
   \<and> map fst (containers (snd (Restore rs_request node_ck))) = [''web'']
   \<and> trace (snd (Restore rs_request node_ck)) =
       [Pulled ''r/nginx:1'' False, DiffApplied 1 ''web'', ConfigWritten ''web'']"
  by (simp add: Restore_def rs_request_def Restore_image_def GetImage_def decodeIndex_def
      ReadBlob_def json_Index_def Restore_config_def getByMediaType_def gzip_index_def
      json_Container_def GetConfigFromInfo_def UnmarshalConfig_def extension_def dec_web
      Restore_new_def Pull_def withPlainRemote_def redis_Bool_def doLocal_def step_def
      volumeRoot_read_def redis_String_def Restore_opts_def NewContainer_def new_record_def
      WithBossConfig_def WithContainerExtension_def Restore_created_def Info_def
      media_types_differ web_cfg_fields node_ck_def node0_def web_rec_def
      config_key_nonempty)

section \<open>The image delete of \<^verbatim>\<open>Migrate\<close>\<close>

lemma step_keeps:
  "step c efs w = (r, w') \<Longrightarrow> images w' = images w \<and> fault w' = fault w"
  by (auto simp: step_def split: option.splits)

lemma systemd_Stop_keeps:
  "systemd_Stop w cid = (r, w') \<Longrightarrow> images w' = images w \<and> fault w' = fault w"
  by (auto simp: systemd_Stop_def split: option.splits)

lemma container_Delete_keeps:
  "container_Delete w cid cl = (r, w') \<Longrightarrow> images w' = images w \<and> fault w' = fault w"
  by (auto simp: container_Delete_def split: option.splits if_splits)

lemma deregister_loop_keeps:
  "images (deregister_loop cid names w) = images w
   \<and> fault (deregister_loop cid names w) = fault w"
proof (induction names arbitrary: w)
  case Nil
  show ?case by simp
next
  case (Cons name names)
  have "images (snd (step (Deregister_c cid name) [Deregistered cid name] w)) = images w
      \<and> fault (snd (step (Deregister_c cid name) [Deregistered cid name] w)) = fault w"
    using step_keeps [of _ _ w] by (metis prod.collapse)
  with Cons show ?case by simp
qed

lemma Push_keeps:
  "Push ref w = (r, w') \<Longrightarrow> images w' = images w \<and> fault w' = fault w"
  by (auto simp: Push_def client_Push_def step_def
      split: if_splits sum.splits option.splits prod.splits)

lemma Delete_keeps:
  assumes "Delete rid w = (r, w')"
  shows "images w' = images w \<and> fault w' = fault w"
proof (cases "rid = '''' \<or> (\<exists>e. LoadContainer w rid = Inl e)")
  case True
  with assms show ?thesis by (auto simp: Delete_def split: if_splits)
next
  case False
  then obtain cid where l: "rid \<noteq> ''''" "LoadContainer w rid = Inr cid"
    by (cases "LoadContainer w rid") auto
  obtain r1 w1 where s: "systemd_Stop w rid = (r1, w1)" by (cases "systemd_Stop w rid")
  note k1 = systemd_Stop_keeps [OF s]
  obtain r2 w2 where d: "step (Disable_c rid) [UnitDisabled rid] w1 = (r2, w2)"
    by (cases "step (Disable_c rid) [UnitDisabled rid] w1")
  note k2 = step_keeps [OF d]
  obtain r3 w3 where n: "step (NetworkRemove_c cid) [NetworkRemoved cid] w2 = (r3, w3)"
    by (cases "step (NetworkRemove_c cid) [NetworkRemoved cid] w2")
  note k3 = step_keeps [OF n]
  have k4: "container_Delete (deregister_loop rid names w3) cid WithRevisionCleanup = (r4, w4)
      \<Longrightarrow> images w4 = images w \<and> fault w4 = fault w" for names r4 w4
    using container_Delete_keeps [of "deregister_loop rid names w3" cid WithRevisionCleanup r4 w4]
      deregister_loop_keeps [of rid names w3] k1 k2 k3 by simp
  from assms l s d n k1 k2 k3 show ?thesis
    by (auto simp: Delete_def dest: k4 split: option.splits sum.splits prod.splits if_splits)
qed

lemma Migrate_send_keeps:
  assumes "Migrate_send req w = (r, w')"
  shows "images w' = images w \<and> fault w' = fault w"
proof -
  obtain r1 w1 where p: "Push (mg_Ref req) w = (r1, w1)" by (cases "Push (mg_Ref req) w")
  note k1 = Push_keeps [OF p]
  obtain r2 w2 where s: "step (RemoteRestore_c (mg_Ref req))
      [RemoteRestored (mg_To req) (mg_Ref req) (mg_Live req)] w1 = (r2, w2)"
    by (cases "step (RemoteRestore_c (mg_Ref req))
      [RemoteRestored (mg_To req) (mg_Ref req) (mg_Live req)] w1")
  note k2 = step_keeps [OF s]
  have k3: "Delete (mg_ID req) w2 = (r, w') \<Longrightarrow> images w' = images w \<and> fault w' = fault w"
    using Delete_keeps [of "mg_ID req" w2 r w'] k1 k2 by simp
  from assms p s k1 k2 show ?thesis
    by (auto simp: Migrate_send_def dest: k3 split: sum.splits option.splits if_splits)
qed

lemma Checkpoint_image_ok:
  "Checkpoint_image req manifests w = (Inr (), w') \<Longrightarrow>
   images w' (ck_Ref req) \<noteq> None \<and> fault w' = fault w"
  by (auto simp: Checkpoint_image_def writeIndex_def writeContent_def ImageCreate_def
      systemd_Stop_def split: option.splits prod.splits sum.splits if_splits)

lemma Checkpoint_body_keeps:
  "Checkpoint_body req ci manifests w = (r, manifests', w') \<Longrightarrow> fault w' = fault w"
  by (auto simp: Checkpoint_body_def CreateDiff_def step_def Let_def
      split: option.splits prod.splits sum.splits if_splits)

lemma Checkpoint_paused_keeps:
  assumes "pauseAndRun_capture w cid v (Checkpoint_body req ci) = (r, manifests, w')"
  shows "fault w' = fault w"
proof (cases "Task w cid")
  case (Inl e)
  with assms show ?thesis
    by (auto simp: pauseAndRun_capture_def dest: Checkpoint_body_keeps)
next
  case (Inr t)
  obtain r1 w1 where p: "step (Pause_c cid) [Paused cid] w = (r1, w1)"
    by (cases "step (Pause_c cid) [Paused cid] w")
  note k1 = step_keeps [OF p]
  obtain r2 m2 w2 where b: "Checkpoint_body req ci v w1 = (r2, m2, w2)"
    by (cases "Checkpoint_body req ci v w1")
  note k2 = Checkpoint_body_keeps [OF b]
  have k3: "fault (snd (step (Resume_c cid) [Resumed cid] w2)) = fault w2"
    using step_keeps [of _ _ w2] by (metis prod.collapse)
  from assms Inr p b k1 k2 k3 show ?thesis
    by (auto simp: pauseAndRun_capture_def split: option.splits)
qed

lemma Checkpoint_ok:
  assumes "Checkpoint req w = (Inr (), w')"
  shows "images w' (ck_Ref req) \<noteq> None \<and> fault w' = fault w"
proof -
  from assms obtain wl where l: "Checkpoint_leased req w = (Inr (), wl)"
    and w': "w' = did LeaseReleased wl"
    by (auto simp: Checkpoint_def release_def split: if_splits option.splits)
      (metis prod.collapse)
  from l obtain cid ci desc w1 manifests w2 where
    c: "writeContent w MediaTypeContainerInfo (ck_ID req @ ''-container-info'') (BlobInfo ci)
          = (Inr desc, w1)"
    and p: "pauseAndRun_capture w1 cid [desc\<lparr>d_Platform := host_platform w1\<rparr>]
          (Checkpoint_body req ci) = (None, manifests, w2)"
    and i: "Checkpoint_image req manifests w2 = (Inr (), wl)"
    by (auto simp: Checkpoint_leased_def split: sum.splits option.splits prod.splits)
  from c have "fault w1 = fault w"
    by (auto simp: writeContent_def split: option.splits)
  with Checkpoint_paused_keeps [OF p] Checkpoint_image_ok [OF i] show ?thesis
    by (simp add: w' did_def)
qed

text \<open>
  C10, as the code has it. Once the peer is dialled, does not hold the container, and the
  local checkpoint has succeeded, the image of the checkpoint is in the image service, and
  whatever the push, the restore on the peer and the local delete of the container do:
  \<^item> \<^verbatim>\<open>Migrate\<close> returns what these steps return;
  \<^item> the delete of the image is the last call but one before \<^verbatim>\<open>Migrate\<close> returns, and
    when the image service carries it out the image is gone from the image service;
  \<^item> when the image service fails to delete, the image is still there, and that failure
    is not what \<^verbatim>\<open>Migrate\<close> returns.
\<close>

theorem Migrate_deletes_image:
  assumes "mg_ID req \<noteq> ''''" and "fault w (Dial_c (mg_To req)) = None"
    and "\<not> remote_has w (mg_ID req)"
    and "Checkpoint \<lparr>ck_ID = mg_ID req, ck_Ref = mg_Ref req, ck_Live = mg_Live req,
           ck_Exit = (mg_Stop req \<or> mg_Delete req)\<rparr> w = (Inr (), w1)"
  shows "fst (Migrate req w) = fst (Migrate_send req w1)
     \<and> images w1 (mg_Ref req) \<noteq> None
     \<and> (fault w (ImageDelete_c (mg_Ref req)) = None \<longrightarrow>
          images (snd (Migrate req w)) (mg_Ref req) = None
          \<and> trace (snd (Migrate req w)) =
              trace (snd (Migrate_send req w1))
                @ [ImageDeleted (mg_Ref req), RemoteClosed (mg_To req)])
     \<and> (fault w (ImageDelete_c (mg_Ref req)) \<noteq> None \<longrightarrow>
          images (snd (Migrate req w)) (mg_Ref req) = images w1 (mg_Ref req)
          \<and> trace (snd (Migrate req w)) =
              trace (snd (Migrate_send req w1)) @ [RemoteClosed (mg_To req)])"
proof -
  from Checkpoint_ok [OF assms(4)] have i1: "images w1 (mg_Ref req) \<noteq> None"
    and f1: "fault w1 = fault w"
    by simp_all
  obtain r w2 where s: "Migrate_send req w1 = (r, w2)" by (cases "Migrate_send req w1")
  from Migrate_send_keeps [OF s] i1 f1 have i2: "images w2 = images w1"
    and f2: "fault w2 = fault w"
    by simp_all
  have m: "Migrate req w = (r, did (RemoteClosed (mg_To req)) (snd (ImageDelete w2 (mg_Ref req))))"
    using assms s by (simp add: Migrate_def Migrate_dialed_def)
  show ?thesis
    using i1 i2 f2
    by (auto simp: m s ImageDelete_def did_def split: option.splits)
qed

lemma Checkpoint_migrate_web:
  assumes "w = node_push_down \<or> w = node_image_stuck"
  shows "Checkpoint \<lparr>ck_ID = ''web'', ck_Ref = ''r/ck/web:1'', ck_Live = False, ck_Exit = True\<rparr> w =
     (Inr (), w\<lparr>tasks := Map.empty,
        blobs := [BlobInfo web_rec, BlobDiff ''web'', BlobIndex web_index],
        images := [''r/ck/web:1'' \<mapsto>
          \<lparr>d_MediaType = MediaTypeImageIndex, d_Digest = 2, d_Size = 0, d_Platform = None\<rparr>],
        trace := [Paused ''web'', Resumed ''web'', UnitStopped ''web'', LeaseReleased]\<rparr>)"
  using assms
  by (auto simp: Checkpoint_def release_def Checkpoint_leased_def LoadContainer_def Info_def
      writeContent_def pauseAndRun_capture_def Task_def step_def Checkpoint_body_def
      CreateDiff_def Checkpoint_image_def writeIndex_def ImageCreate_def systemd_Stop_def
      did_def host_platform_def Let_def node_push_down_def node_image_stuck_def node_run_def
      node0_def media_types_differ web_index_def linux_amd64_def web_rec_def numeral_2_eq_2)

lemma Migrate_push_down:
  "fst (Migrate mg_request node_push_down) = Inl (Failure ''registry: connection refused'')
   \<and> containers (snd (Migrate mg_request node_push_down)) = [(''web'', web_rec)]"
proof -
  have r: "node_push_down = node_push_down \<or> node_push_down = node_image_stuck" by simp
  have d: "fault node_push_down (Dial_c ''b:1234'') = None"
    "\<not> remote_has node_push_down ''web''"
    by (simp_all add: node_push_down_def node_run_def node0_def)
  show ?thesis
    using d
    by (simp add: Migrate_def Migrate_dialed_def mg_request_def Checkpoint_migrate_web [OF r])
      (simp add: Migrate_send_def Push_def GetImage_def client_Push_def withPlainRemote_def
        redis_Bool_def doLocal_def remote_of_ck step_def ImageDelete_def did_def
        node_push_down_def node_run_def node0_def)
qed

text \<open>
  The theorem at work on \<open>node_push_down\<close>: the checkpoint of \<open>web\<close> succeeds, the push
  to the registry fails, \<^verbatim>\<open>Migrate\<close> returns that error, the container is still on
  the node, and the image of the checkpoint is gone from the image service.
\<close>

theorem Migrate_deletes_image_witness:
  "fst (Migrate mg_request node_push_down) = Inl (Failure ''registry: connection refused'')
   \<and> containers (snd (Migrate mg_request node_push_down)) = [(''web'', web_rec)]
   \<and> images (snd (Migrate mg_request node_push_down)) ''r/ck/web:1'' = None"
proof -
  have r: "node_push_down = node_push_down \<or> node_push_down = node_image_stuck" by simp
  have a: "mg_ID mg_request \<noteq> ''''" "fault node_push_down (Dial_c (mg_To mg_request)) = None"
    "\<not> remote_has node_push_down (mg_ID mg_request)"
    "fault node_push_down (ImageDelete_c (mg_Ref mg_request)) = None"
    by (simp_all add: mg_request_def node_push_down_def node_run_def node0_def)
  have c: "Checkpoint \<lparr>ck_ID = mg_ID mg_request, ck_Ref = mg_Ref mg_request,
      ck_Live = mg_Live mg_request, ck_Exit = (mg_Stop mg_request \<or> mg_Delete mg_request)\<rparr>
      node_push_down = (Inr (), snd (Checkpoint \<lparr>ck_ID = ''web'', ck_Ref = ''r/ck/web:1'',
        ck_Live = False, ck_Exit = True\<rparr> node_push_down))"
    by (simp add: mg_request_def Checkpoint_migrate_web [OF r])
  from Migrate_deletes_image [OF a(1-3) c] a(4)
  have "images (snd (Migrate mg_request node_push_down)) (mg_Ref mg_request) = None"
    by blast
  then show ?thesis
    using Migrate_push_down by (simp add: mg_request_def)
qed

text \<open>
  C10 as the claim has it fails: on \<open>node_image_stuck\<close> every step of the migration
  of \<open>web\<close> succeeds, the container is deleted, the image service fails to delete the
  image of the checkpoint, and \<^verbatim>\<open>Migrate\<close> returns without an error while the image
  is still in the local image service.
\<close>

theorem Migrate_image_stays_counterexample:
  "fst (Migrate mg_request node_image_stuck) = Inr ()
   \<and> containers (snd (Migrate mg_request node_image_stuck)) = []
   \<and> images (snd (Migrate mg_request node_image_stuck)) ''r/ck/web:1'' =
       Some \<lparr>d_MediaType = MediaTypeImageIndex, d_Digest = 2, d_Size = 0, d_Platform = None\<rparr>"
proof -
  have r: "node_image_stuck = node_push_down \<or> node_image_stuck = node_image_stuck" by simp
  have d: "fault node_image_stuck (Dial_c ''b:1234'') = None"
    "\<not> remote_has node_image_stuck ''web''"
    by (simp_all add: node_image_stuck_def node_run_def node0_def)
  show ?thesis
    using d
    by (simp add: Migrate_def Migrate_dialed_def mg_request_def Checkpoint_migrate_web [OF r])
      (simp add: Migrate_send_def Push_def GetImage_def client_Push_def withPlainRemote_def
        redis_Bool_def doLocal_def remote_of_ck step_def ImageDelete_def did_def
        Delete_def LoadContainer_def systemd_Stop_def GetConfig_def Info_def
        UnmarshalConfig_def extension_def dec_web container_Delete_def web_cfg_fields
        node_image_stuck_def node_run_def node0_def web_rec_def)
qed

end
